theory Spec2Isabelle
  imports Complex_Main
begin

section \<open>Numeric model and the MuJoCo primitives used by the Leap task\<close>

text \<open>
  The task file \<^verbatim>\<open>mjpc/tasks/leap/leap.cc\<close> computes with C++ \<^verbatim>\<open>double\<close>.  The
  embedding idealises a double as a \<^typ>\<open>real\<close>: every decimal literal of the source
  is the real number it denotes, \<^verbatim>\<open>M_PI\<close> and \<^verbatim>\<open>mjPI\<close> are \<^term>\<open>pi\<close>, and
  \<^verbatim>\<open>std::sqrt\<close>, \<^verbatim>\<open>std::tan\<close>, \<^verbatim>\<open>std::cos\<close>, \<^verbatim>\<open>std::sin\<close>, \<^verbatim>\<open>std::acos\<close> are the
  functions of analysis.  Rounding, NaN and infinities are outside the model.

  Local 3- and 4-element arrays are tuples; the buffers of the engine are lists that are
  read and written by index.  An index outside a buffer is undefined behaviour in C++;
  the model reads an unspecified value there and ignores such a write.
\<close>

type_synonym vec3 = "real \<times> real \<times> real"
type_synonym quat = "real \<times> real \<times> real \<times> real"

text \<open>The functions below belong to the MuJoCo library (\<^verbatim>\<open>mujoco/mujoco.h\<close>), which
  the task calls; they are written out from the library's documented behaviour.\<close>

definition mjMINVAL :: real where
  "mjMINVAL = 1 / 10 ^ 15"

definition mju_max :: "real \<Rightarrow> real \<Rightarrow> real" where
  "mju_max a b = (if a > b then a else b)"

definition mju_min :: "real \<Rightarrow> real \<Rightarrow> real" where
  "mju_min a b = (if a < b then a else b)"

definition mju_negQuat :: "quat \<Rightarrow> quat" where
  "mju_negQuat q = (case q of (w, x, y, z) \<Rightarrow> (w, - x, - y, - z))"

definition mju_mulQuat :: "quat \<Rightarrow> quat \<Rightarrow> quat" where
  "mju_mulQuat p q =
     (case p of (pw, px, py, pz) \<Rightarrow> case q of (qw, qx, qy, qz) \<Rightarrow>
        (pw * qw - px * qx - py * qy - pz * qz,
         pw * qx + px * qw + py * qz - pz * qy,
         pw * qy - px * qz + py * qw + pz * qx,
         pw * qz + px * qy - py * qx + pz * qw))"

definition norm4 :: "quat \<Rightarrow> real" where
  "norm4 q = (case q of (w, x, y, z) \<Rightarrow> sqrt (w * w + x * x + y * y + z * z))"

definition mju_normalize4 :: "quat \<Rightarrow> quat" where
  "mju_normalize4 q =
     (case q of (w, x, y, z) \<Rightarrow>
        let norm = norm4 q in
        if norm < mjMINVAL then (1, 0, 0, 0)
        else (w / norm, x / norm, y / norm, z / norm))"

section \<open>Residual: the containment term (leap.cc, lines 48--79)\<close>

definition containment_residual :: "real \<Rightarrow> real \<Rightarrow> real \<Rightarrow> real" where
  "containment_residual x y z =
     (let x_min = 0.08; x_max = 0.14; y_min = - 0.02; y_max = 0.02;
          x_closest = mju_max x_min (mju_min x x_max);
          y_closest = mju_max y_min (mju_min y y_max);
          z_closest =
            (if x < x_min \<or> x > x_max \<or> y < y_min \<or> y > y_max then
               (let theta = 0.349066;
                    z_min = - x * tan theta + 0.035 / cos theta;
                    z_max = z_min + 0.035
                in mju_max z_min (mju_min z z_max))
             else
               (let z_min = - 0.015 in mju_max z_min z));
          dist = sqrt ((x_closest - x)\<^sup>2 + (y_closest - y)\<^sup>2 + (z_closest - z)\<^sup>2)
      in 250 * dist)"

subsection \<open>The region and nearest point of the specification\<close>

text \<open>The specification's wording of the containment term, kept apart from the code above:
  the rectangle, the full region, the tilt-adjusted band for a tilt angle \<open>th\<close>, and the
  point obtained by clamping each coordinate on its own.\<close>

definition in_rectangle :: "real \<Rightarrow> real \<Rightarrow> bool" where
  "in_rectangle x y = (0.08 \<le> x \<and> x \<le> 0.14 \<and> - 0.02 \<le> y \<and> y \<le> 0.02)"

definition in_region :: "real \<Rightarrow> real \<Rightarrow> real \<Rightarrow> bool" where
  "in_region x y z = (in_rectangle x y \<and> - 0.015 \<le> z)"

definition clamp :: "real \<Rightarrow> real \<Rightarrow> real \<Rightarrow> real" where
  "clamp lo hi v = max lo (min v hi)"

definition band_z_min :: "real \<Rightarrow> real \<Rightarrow> real" where
  "band_z_min th x = - x * tan th + 0.035 / cos th"

definition nearest_point :: "real \<Rightarrow> vec3 \<Rightarrow> vec3" where
  "nearest_point th p =
     (case p of (x, y, z) \<Rightarrow>
        (clamp 0.08 0.14 x,
         clamp (- 0.02) 0.02 y,
         if in_rectangle x y then max (- 0.015) z
         else clamp (band_z_min th x) (band_z_min th x + 0.035) z))"

definition dist3 :: "vec3 \<Rightarrow> vec3 \<Rightarrow> real" where
  "dist3 p q =
     (case p of (px, py, pz) \<Rightarrow> case q of (qx, qy, qz) \<Rightarrow>
        sqrt ((qx - px)\<^sup>2 + (qy - py)\<^sup>2 + (qz - pz)\<^sup>2))"

text \<open>The tilt angle the code uses, and the 20 degrees the specification names.\<close>

definition theta_code :: real where
  "theta_code = 0.349066"

definition theta_20deg :: real where
  "theta_20deg = 20 * pi / 180"

section \<open>Engine buffers, model and data\<close>

text \<open>\<^verbatim>\<open>mju_copy(dst + doff, src + soff, n)\<close>, \<^verbatim>\<open>mju_zero(dst + doff, n)\<close>,
  \<^verbatim>\<open>mju_sub\<close>, \<^verbatim>\<open>mju_addTo3\<close> and \<^verbatim>\<open>mju_addToScl\<close> of MuJoCo, on list buffers.\<close>

definition mju_copy :: "real list \<Rightarrow> nat \<Rightarrow> real list \<Rightarrow> nat \<Rightarrow> nat \<Rightarrow> real list" where
  "mju_copy dst doff src soff n =
     map (\<lambda>i. if doff \<le> i \<and> i < doff + n then src ! (soff + (i - doff)) else dst ! i)
       [0..<length dst]"

definition mju_zero :: "real list \<Rightarrow> nat \<Rightarrow> nat \<Rightarrow> real list" where
  "mju_zero dst doff n =
     map (\<lambda>i. if doff \<le> i \<and> i < doff + n then 0 else dst ! i) [0..<length dst]"

definition mju_sub :: "real list \<Rightarrow> nat \<Rightarrow> real list \<Rightarrow> nat \<Rightarrow> nat \<Rightarrow> real list" where
  "mju_sub a aoff b boff n = map (\<lambda>i. a ! (aoff + i) - b ! (boff + i)) [0..<n]"

definition mju_addTo3 :: "vec3 \<Rightarrow> vec3 \<Rightarrow> vec3" where
  "mju_addTo3 r v = (case r of (r0, r1, r2) \<Rightarrow> case v of (v0, v1, v2) \<Rightarrow> (r0 + v0, r1 + v1, r2 + v2))"

definition mju_addToScl :: "real list \<Rightarrow> real list \<Rightarrow> nat \<Rightarrow> real \<Rightarrow> nat \<Rightarrow> real list" where
  "mju_addToScl res v voff scl n =
     map (\<lambda>i. if i < n then res ! i + v ! (voff + i) * scl else res ! i) [0..<length res]"

definition read3 :: "real list \<Rightarrow> nat \<Rightarrow> vec3" where
  "read3 xs a = (xs ! a, xs ! (a + 1), xs ! (a + 2))"

definition read4 :: "real list \<Rightarrow> nat \<Rightarrow> quat" where
  "read4 xs a = (xs ! a, xs ! (a + 1), xs ! (a + 2), xs ! (a + 3))"

definition list3 :: "vec3 \<Rightarrow> real list" where
  "list3 v = (case v of (a, b, c) \<Rightarrow> [a, b, c])"

definition list4 :: "quat \<Rightarrow> real list" where
  "list4 q = (case q of (w, x, y, z) \<Rightarrow> [w, x, y, z])"

definition write3 :: "real list \<Rightarrow> nat \<Rightarrow> vec3 \<Rightarrow> real list" where
  "write3 xs a v = mju_copy xs a (list3 v) 0 3"

definition write4 :: "real list \<Rightarrow> nat \<Rightarrow> quat \<Rightarrow> real list" where
  "write4 xs a q = mju_copy xs a (list4 q) 0 4"

text \<open>An \<^verbatim>\<open>int\<close> index into a table of the model, as in
  \<^verbatim>\<open>model->jnt_qposadr[model->body_jntadr[id]]\<close>.\<close>

definition idx :: "int list \<Rightarrow> int \<Rightarrow> int" where
  "idx xs i = xs ! nat i"

datatype mjtObj = mjOBJ_BODY | mjOBJ_GEOM | mjOBJ_SENSOR

text \<open>The fields of \<^verbatim>\<open>mjModel\<close> and \<^verbatim>\<open>mjData\<close> that the task reads or writes.
  \<open>name2id\<close> is \<^verbatim>\<open>mj_name2id\<close> (\<open>-1\<close> for an unknown name), \<open>numeric\<close> the table of
  named custom numerics, \<open>user_sensor_dim\<close> the total dimension of the user sensors the
  model declares, \<open>contact\<close> the \<open>(geom1, geom2)\<close> pairs of the \<^verbatim>\<open>ncon\<close> active
  contacts.\<close>

record mjModel =
  nq :: nat
  nv :: nat
  nu :: nat
  key_qpos :: "real list"
  jnt_qposadr :: "int list"
  jnt_dofadr :: "int list"
  body_jntadr :: "int list"
  sensor_adr :: "int list"
  name2id :: "mjtObj \<Rightarrow> string \<Rightarrow> int"
  numeric :: "string \<Rightarrow> real option"
  user_sensor_dim :: int

record mjData =
  qpos :: "real list"
  qvel :: "real list"
  actuator_force :: "real list"
  mocap_pos :: "real list"
  mocap_quat :: "real list"
  sensordata :: "real list"
  contact :: "(int \<times> int) list"

datatype error =
  NullSensor          \<comment> \<open>a sensor name did not resolve: the null pointer is dereferenced\<close>
  | SensorDimMismatch \<comment> \<open>\<^verbatim>\<open>mju_error\<close> of the residual-length check\<close>
  | DrawsExhausted    \<comment> \<open>a rejection loop consumed every supplied draw without accepting\<close>

text \<open>Modelled from the spec: \<^verbatim>\<open>SensorByName\<close> of \<^verbatim>\<open>mjpc/utilities\<close> (not among the
  sources) resolves a named sensor channel to the place of its readings in the sensor
  buffer; the result is the offset into \<open>sensordata\<close>, or nothing for an unknown name.\<close>

definition SensorByName :: "mjModel \<Rightarrow> string \<Rightarrow> nat option" where
  "SensorByName m name =
     (let id = name2id m mjOBJ_SENSOR name
      in if id = - 1 then None else Some (nat (idx (sensor_adr m) id)))"

text \<open>Modelled from the spec: \<^verbatim>\<open>CheckSensorDim\<close> of \<^verbatim>\<open>mjpc/utilities\<close> (not among
  the sources) validates that the residual length equals the engine's declared sensor
  dimensionality; a mismatch is fatal.\<close>

definition CheckSensorDim :: "mjModel \<Rightarrow> int \<Rightarrow> error + unit" where
  "CheckSensorDim m residual_size =
     (if user_sensor_dim m \<noteq> residual_size then Inl SensorDimMismatch else Inr ())"

text \<open>Modelled from the spec: \<^verbatim>\<open>GetNumberOrDefault\<close> of \<^verbatim>\<open>mjpc/utilities\<close> (not among
  the sources) reads a named configuration number of the model, or the default.\<close>

definition GetNumberOrDefault :: "real \<Rightarrow> mjModel \<Rightarrow> string \<Rightarrow> real" where
  "GetNumberOrDefault default_value m name =
     (case numeric m name of None \<Rightarrow> default_value | Some v \<Rightarrow> v)"

text \<open>Conversion of a double to \<^verbatim>\<open>int\<close> (towards zero) and \<^verbatim>\<open>std::round\<close> (half away
  from zero).\<close>

definition trunc_int :: "real \<Rightarrow> int" where
  "trunc_int v = (if 0 \<le> v then \<lfloor>v\<rfloor> else \<lceil>v\<rceil>)"

definition std_round :: "real \<Rightarrow> real" where
  "std_round v = (if 0 \<le> v then of_int \<lfloor>v + 1 / 2\<rfloor> else of_int \<lceil>v - 1 / 2\<rceil>)"

text \<open>\<^verbatim>\<open>mju_subQuat\<close> of MuJoCo: the rotation \<open>neg(qb) * qa\<close> as a 3D velocity
  (\<^verbatim>\<open>mju_quat2Vel\<close> with unit time), through \<^verbatim>\<open>mju_normalize3\<close> and \<^verbatim>\<open>atan2\<close>.\<close>

definition mju_normalize3 :: "vec3 \<Rightarrow> vec3 \<times> real" where
  "mju_normalize3 v =
     (case v of (x, y, z) \<Rightarrow>
        let norm = sqrt (x * x + y * y + z * z) in
        if norm < mjMINVAL then ((1, 0, 0), norm)
        else ((x / norm, y / norm, z / norm), norm))"

definition mju_atan2 :: "real \<Rightarrow> real \<Rightarrow> real" where
  "mju_atan2 y x =
     (if 0 < x then arctan (y / x)
      else if x < 0 then (if 0 \<le> y then arctan (y / x) + pi else arctan (y / x) - pi)
      else if 0 < y then pi / 2
      else if y < 0 then - pi / 2
      else 0)"

definition mju_quat2Vel :: "quat \<Rightarrow> real \<Rightarrow> vec3" where
  "mju_quat2Vel q dt =
     (case q of (w, x, y, z) \<Rightarrow>
        case mju_normalize3 (x, y, z) of ((ax, ay, az), sin_a_2) \<Rightarrow>
          let speed = 2 * mju_atan2 sin_a_2 w;
              speed = (if speed > pi then speed - 2 * pi else speed);
              speed = speed / dt
          in (ax * speed, ay * speed, az * speed))"

definition mju_subQuat :: "quat \<Rightarrow> quat \<Rightarrow> vec3" where
  "mju_subQuat qa qb = mju_quat2Vel (mju_mulQuat (mju_negQuat qb) qa) 1"

section \<open>\<^verbatim>\<open>Leap::ResidualFn::Residual\<close> (leap.cc, lines 36--118)\<close>

text \<open>
  The function returns the data (the goal-orientation readings are normalised in place,
  through the pointer that \<^verbatim>\<open>SensorByName\<close> hands out) and either the entries written to
  \<^verbatim>\<open>residual\<close>, in the order written, or the failure.  The pointers are dereferenced in
  the order position, goal orientation, orientation, linear velocity, angular velocity.
  \<open>counter\<close> is the count the code keeps next to the writes.
\<close>

definition Residual :: "mjModel \<Rightarrow> mjData \<Rightarrow> mjData \<times> (error + real list)" where
  "Residual m d =
     (case SensorByName m ''cube_position'' of
        None \<Rightarrow> (d, Inl NullSensor)
      | Some cube_position \<Rightarrow>
     (let x = sensordata d ! cube_position;
          y = sensordata d ! (cube_position + 1);
          z = sensordata d ! (cube_position + 2);
          r_pos = [containment_residual x y z];
          counter = 1
      in case SensorByName m ''cube_goal_orientation'' of
        None \<Rightarrow> (d, Inl NullSensor)
      | Some goal_cube_orientation \<Rightarrow>
     (let d1 = d\<lparr>sensordata :=
                   write4 (sensordata d) goal_cube_orientation
                     (mju_normalize4 (read4 (sensordata d) goal_cube_orientation))\<rparr>
      in case SensorByName m ''cube_orientation'' of
        None \<Rightarrow> (d1, Inl NullSensor)
      | Some cube_orientation \<Rightarrow>
     (let r_ori = list3 (mju_subQuat (read4 (sensordata d1) goal_cube_orientation)
                                     (read4 (sensordata d1) cube_orientation));
          counter = counter + 3
      in case SensorByName m ''cube_linear_velocity'' of
        None \<Rightarrow> (d1, Inl NullSensor)
      | Some cube_linear_velocity \<Rightarrow>
     (let r_lin = list3 (read3 (sensordata d1) cube_linear_velocity);
          counter = counter + 3
      in case SensorByName m ''cube_angular_velocity'' of
        None \<Rightarrow> (d1, Inl NullSensor)
      | Some cube_angular_velocity \<Rightarrow>
     (let r_ang = list3 (read3 (sensordata d1) cube_angular_velocity);
          counter = counter + 3;
          r_ctrl = map (\<lambda>i. actuator_force d1 ! i) [0..<nu m];
          counter = counter + int (nu m);
          r_pose = mju_sub (qpos d1) 7 (key_qpos m) 7 16;
          counter = counter + 16;
          r_vel = map (\<lambda>i. qvel d1 ! (6 + i)) [0..<16];
          counter = counter + 16
      in case CheckSensorDim m counter of
           Inl e \<Rightarrow> (d1, Inl e)
         | Inr u \<Rightarrow> (d1, Inr (r_pos @ r_ori @ r_lin @ r_ang @ r_ctrl @ r_pose @ r_vel))))))))"

subsection \<open>The ordered concatenation\<close>

text \<open>The layout of the residual as one expression: containment (1), orientation error
  (3), linear velocity (3), angular velocity (3), one actuator force for each of the
  model's \<open>nu\<close> actuators, pose deviation (16), joint velocity (16), over the sensor
  readings \<open>sd\<close> and the offsets of the five channels.\<close>

definition residual_layout ::
  "mjModel \<Rightarrow> mjData \<Rightarrow> real list \<Rightarrow> nat \<Rightarrow> nat \<Rightarrow> nat \<Rightarrow> nat \<Rightarrow> nat \<Rightarrow> real list" where
  "residual_layout m d sd cp g co lv av =
     [containment_residual (sensordata d ! cp) (sensordata d ! (cp + 1)) (sensordata d ! (cp + 2))]
     @ list3 (mju_subQuat (read4 sd g) (read4 sd co))
     @ list3 (read3 sd lv)
     @ list3 (read3 sd av)
     @ map (\<lambda>i. actuator_force d ! i) [0..<nu m]
     @ map (\<lambda>i. qpos d ! (7 + i) - key_qpos m ! (7 + i)) [0..<16]
     @ map (\<lambda>i. qvel d ! (6 + i)) [0..<16]"

section \<open>\<^verbatim>\<open>Leap::TransitionLocked\<close> (leap.cc, lines 120--362)\<close>

text \<open>
  The task object.  A member that the source writes \<^verbatim>\<open>foo_\<close> is the field \<open>foo_m\<close>
  (an Isabelle name cannot end in an underscore); \<^verbatim>\<open>parameters\<close> keeps its name.  The
  counters are 32-bit \<^verbatim>\<open>int\<close>s, held as integers with the wrap-around of the increment
  written out; time points and durations are seconds.
\<close>

record Leap =
  rotation_count_m :: int
  best_rotation_count_m :: int
  time_of_last_reset_m :: real
  time_of_last_rotation_m :: real
  time_since_last_reset_m :: real
  time_since_last_rotation_m :: real
  rand1_m :: int
  rand2_m :: int
  parameters :: "real list"
  pos_cube_m :: vec3
  quat_cube_m :: quat
  stored_states_m :: "real list list"
  quat_cube_noise_m :: vec3
  pos_cube_noise_m :: vec3
  last_time_m :: real
  first_time_m :: bool
  last_state_m :: "real list"

text \<open>The four readings of \<^verbatim>\<open>std::chrono::steady_clock::now()\<close> that one call makes, at
  lines 195, 199, 224 and 231.\<close>

record clock =
  now1 :: real
  now2 :: real
  now3 :: real
  now4 :: real

subsection \<open>Angle between the cube and the goal (lines 126--151)\<close>

definition default_goal :: "quat \<Rightarrow> quat" where
  "default_goal g =
     (case g of (g0, g1, g2, g3) \<Rightarrow>
        if g0 = 0 \<and> g1 = 0 \<and> g2 = 0 \<and> g3 = 0 then (1, 0, 0, 0) else g)"

definition flip_sign :: "quat \<Rightarrow> quat" where
  "flip_sign q =
     (case q of (q0, q1, q2, q3) \<Rightarrow>
        if q0 < 0 then (q0 * - 1, q1 * - 1, q2 * - 1, q3 * - 1) else q)"

text \<open>Lines 143--151, and again lines 314--322 with the sampled goal for the cube
  orientation: the angle, in degrees, of \<open>q * q_gco_conj\<close>.\<close>

definition rotation_angle :: "quat \<Rightarrow> quat \<Rightarrow> real" where
  "rotation_angle q q_gco_conj =
     (let q_diff = mju_mulQuat q q_gco_conj;
          q_diff = mju_normalize4 q_diff;
          q_diff = flip_sign q_diff
      in 2 * arccos (fst q_diff) * 180 / pi)"

subsection \<open>Success check (lines 153--165)\<close>

definition angle_thresh :: "int \<Rightarrow> real" where
  "angle_thresh axis_aligned_goal = (if axis_aligned_goal \<noteq> 0 then 11.4592 else 22.9183)"

text \<open>\<^verbatim>\<open>++rotation_count_\<close> on a 32-bit \<^verbatim>\<open>int\<close>: past \<^verbatim>\<open>INT_MAX\<close> the stored value wraps
  to \<^verbatim>\<open>INT_MIN\<close> (two's complement).\<close>

definition wrap_int :: "int \<Rightarrow> int" where
  "wrap_int i = (i + 2 ^ 31) mod 2 ^ 32 - 2 ^ 31"

definition check_rotation :: "real \<Rightarrow> real \<Rightarrow> Leap \<Rightarrow> bool \<times> Leap" where
  "check_rotation angle thresh L =
     (if angle < thresh then
        (let L1 = L\<lparr>rotation_count_m := wrap_int (rotation_count_m L + 1)\<rparr>;
             L2 = (if rotation_count_m L1 > best_rotation_count_m L1
                   then L1\<lparr>best_rotation_count_m := rotation_count_m L1\<rparr> else L1)
         in (True, L2))
      else (False, L))"

subsection \<open>The angular error of the specification\<close>

text \<open>The specification's angular error between the current orientation and the goal,
  kept apart from the code above: the quaternion difference, that is the current
  orientation multiplied by the conjugate of the goal, normalised, its sign flipped when
  the scalar part is negative, and the angle \<open>2 * acos scalar * 180 / pi\<close> in degrees.\<close>

definition quat_conj :: "quat \<Rightarrow> quat" where
  "quat_conj q = (fst q, - fst (snd q), - fst (snd (snd q)), - snd (snd (snd q)))"

definition quat_product :: "quat \<Rightarrow> quat \<Rightarrow> quat" where
  "quat_product a b =
     (let a0 = fst a; a1 = fst (snd a); a2 = fst (snd (snd a)); a3 = snd (snd (snd a));
          b0 = fst b; b1 = fst (snd b); b2 = fst (snd (snd b)); b3 = snd (snd (snd b))
      in (a0 * b0 - (a1 * b1 + a2 * b2 + a3 * b3),
          a0 * b1 + b0 * a1 + (a2 * b3 - a3 * b2),
          a0 * b2 + b0 * a2 + (a3 * b1 - a1 * b3),
          a0 * b3 + b0 * a3 + (a1 * b2 - a2 * b1)))"

definition quat_length :: "quat \<Rightarrow> real" where
  "quat_length q =
     sqrt ((fst q)\<^sup>2 + (fst (snd q))\<^sup>2 + (fst (snd (snd q)))\<^sup>2 + (snd (snd (snd q)))\<^sup>2)"

definition angular_error :: "quat \<Rightarrow> quat \<Rightarrow> real" where
  "angular_error current goal =
     (let difference = quat_product current (quat_conj goal);
          scalar = fst difference / quat_length difference;
          scalar = (if scalar < 0 then - scalar else scalar)
      in 2 * arccos scalar * 180 / pi)"

subsection \<open>Drop detection and cube reset (lines 167--190)\<close>

fun contact_scan :: "int \<Rightarrow> int \<Rightarrow> (int \<times> int) list \<Rightarrow> bool" where
  "contact_scan cube floor_id [] = False"
| "contact_scan cube floor_id ((geom1, geom2) # cs) =
     (if (geom1 = cube \<and> geom2 = floor_id) \<or> (geom2 = cube \<and> geom1 = floor_id) then True
      else contact_scan cube floor_id cs)"

definition on_floor_of :: "mjModel \<Rightarrow> mjData \<Rightarrow> bool" where
  "on_floor_of m d =
     (let cube = name2id m mjOBJ_GEOM ''cube'';
          floor_id = name2id m mjOBJ_GEOM ''floor''
      in contact_scan cube floor_id (contact d))"

definition reset_cube :: "mjModel \<Rightarrow> mjData \<Rightarrow> mjData" where
  "reset_cube m d =
     (let cube_body = name2id m mjOBJ_BODY ''cube'' in
      if cube_body \<noteq> - 1 then
        (let jnt_qposadr = nat (idx (jnt_qposadr m) (idx (body_jntadr m) cube_body));
             jnt_veladr = nat (idx (jnt_dofadr m) (idx (body_jntadr m) cube_body))
         in d\<lparr>qpos := mju_copy (qpos d) jnt_qposadr (key_qpos m) jnt_qposadr 7,
               qvel := mju_zero (qvel d) jnt_veladr 6\<rparr>)
      else d)"

subsection \<open>Timers and counter reset (lines 192--227)\<close>

text \<open>The block also prints the statistics (\<^verbatim>\<open>Drop detected, resetting cube.\<close> or
  \<^verbatim>\<open>Timeout detected, resetting cube.\<close>, the rotation count and the seconds per
  rotation); the console output is not part of the state.\<close>

definition reset_counters :: "clock \<Rightarrow> bool \<Rightarrow> bool \<Rightarrow> Leap \<Rightarrow> bool \<times> Leap" where
  "reset_counters c on_floor change_goal L =
     (let L1 = L\<lparr>time_since_last_reset_m := now1 c - time_of_last_reset_m L,
                 time_since_last_rotation_m := now2 c - time_of_last_rotation_m L\<rparr>
      in if on_floor \<or> time_since_last_rotation_m L1 > 80 then
           (True, L1\<lparr>time_of_last_reset_m := now3 c, rotation_count_m := 0\<rparr>)
         else (change_goal, L1))"

subsection \<open>Goal sampling (lines 229--333)\<close>

text \<open>The generator \<^verbatim>\<open>gen_\<close> is an input: the successive results of the pair of calls
  \<^verbatim>\<open>absl::Uniform<int>(gen_, 0, 6)\<close>, \<^verbatim>\<open>absl::Uniform<int>(gen_, 0, 4)\<close>, and of the
  triple of calls \<^verbatim>\<open>absl::Uniform<double>(gen_, 0.0, 1.0)\<close>.  A loop that rejects every
  supplied draw has no result.\<close>

fun resample_pair :: "int \<times> int \<Rightarrow> int \<times> int \<Rightarrow> (int \<times> int) list \<Rightarrow> (int \<times> int) option" where
  "resample_pair old cur [] =
     (if fst cur = fst old \<and> snd cur = snd old then None else Some cur)"
| "resample_pair old cur (draw # draws) =
     (if fst cur = fst old \<and> snd cur = snd old then resample_pair old draw draws
      else Some cur)"

definition face_quat :: "int \<Rightarrow> quat" where
  "face_quat rand1 =
     (if rand1 = 0 then (1, 0, 0, 0)
      else if rand1 = 1 then (0.7071067811865476, 0.7071067811865476, 0, 0)
      else if rand1 = 2 then (0, 1, 0, 0)
      else if rand1 = 3 then (- 0.7071067811865476, 0.7071067811865476, 0, 0)
      else if rand1 = 4 then (0.7071067811865476, 0, 0.7071067811865476, 0)
      else if rand1 = 5 then (0.7071067811865476, 0, - 0.7071067811865476, 0)
      else (0, 0, 0, 0))"

definition spin_quat :: "int \<Rightarrow> quat" where
  "spin_quat rand2 =
     (if rand2 = 0 then (1, 0, 0, 0)
      else if rand2 = 1 then (0.7071067811865476, 0, 0, 0.7071067811865476)
      else if rand2 = 2 then (0, 0, 0, 1)
      else if rand2 = 3 then (- 0.7071067811865476, 0, 0, 0.7071067811865476)
      else (0, 0, 0, 0))"

definition goal_adr :: "mjModel \<Rightarrow> nat" where
  "goal_adr m =
     (let goal = name2id m mjOBJ_GEOM ''goal''
      in nat (idx (jnt_qposadr m) (idx (body_jntadr m) goal)))"

definition sample_axis_aligned ::
  "mjModel \<Rightarrow> mjData \<Rightarrow> Leap \<Rightarrow> (int \<times> int) list \<Rightarrow> (mjData \<times> Leap) option" where
  "sample_axis_aligned m d L draws =
     (case resample_pair (rand1_m L, rand2_m L) (rand1_m L, rand2_m L) draws of
        None \<Rightarrow> None
      | Some (rand1, rand2) \<Rightarrow>
          (let L1 = L\<lparr>rand1_m := rand1, rand2_m := rand2\<rparr>;
               q0 = (0, 1, 0, 0.7);
               q1 = face_quat rand1;
               q2 = spin_quat rand2;
               q_goal = mju_mulQuat q0 q2;
               q_goal = mju_mulQuat q_goal q1;
               q_goal = mju_normalize4 q_goal
           in Some (d\<lparr>mocap_quat := write4 (mocap_quat d) (goal_adr m) q_goal\<rparr>, L1)))"

definition uniform_quat :: "real \<Rightarrow> real \<Rightarrow> real \<Rightarrow> quat" where
  "uniform_quat a b c =
     (let s1 = sqrt (1 - a);
          s2 = sqrt a;
          sb = sin (2 * pi * b);
          cb = cos (2 * pi * b);
          sc = sin (2 * pi * c);
          cc = cos (2 * pi * c)
      in (s1 * sb, s1 * cb, s2 * sc, s2 * cc))"

fun sample_free :: "quat \<Rightarrow> (real \<times> real \<times> real) list \<Rightarrow> quat option" where
  "sample_free q_gco_conj [] = None"
| "sample_free q_gco_conj ((a, b, c) # draws) =
     (let q_goal = uniform_quat a b c;
          angle = rotation_angle q_goal q_gco_conj
      in if angle \<ge> 90 then Some q_goal else sample_free q_gco_conj draws)"

definition change_goal_of ::
  "mjModel \<Rightarrow> int \<Rightarrow> quat \<Rightarrow> (int \<times> int) list \<Rightarrow> (real \<times> real \<times> real) list \<Rightarrow>
   mjData \<Rightarrow> Leap \<Rightarrow> (mjData \<times> Leap) option" where
  "change_goal_of m axis_aligned_goal q_gco_conj axis_draws free_draws d L =
     (if axis_aligned_goal \<noteq> 0 then sample_axis_aligned m d L axis_draws
      else (case sample_free q_gco_conj free_draws of
              None \<Rightarrow> None
            | Some q_goal \<Rightarrow>
                Some (d\<lparr>mocap_quat := write4 (mocap_quat d) (goal_adr m) q_goal\<rparr>, L)))"

text \<open>The specification's angular separation of two orientations, kept apart from the
  code above: the rotation angle, in degrees, that takes \<open>q\<close> to \<open>p\<close>.\<close>

definition angular_separation :: "quat \<Rightarrow> quat \<Rightarrow> real" where
  "angular_separation p q = rotation_angle p (mju_negQuat q)"

subsection \<open>The transition up to the physics re-evaluation (lines 120--333)\<close>

text \<open>The result carries the data and the task object as they stand at line 334,
  and the two flags \<open>on_floor\<close> and \<open>change_goal\<close>.\<close>

definition transition_update ::
  "clock \<Rightarrow> (int \<times> int) list \<Rightarrow> (real \<times> real \<times> real) list \<Rightarrow> mjModel \<Rightarrow> mjData \<Rightarrow> Leap \<Rightarrow>
   error + (mjData \<times> Leap \<times> bool \<times> bool)" where
  "transition_update c axis_draws free_draws m d L =
     (case SensorByName m ''cube_goal_orientation'' of
        None \<Rightarrow> Inl NullSensor
      | Some goal_cube_orientation \<Rightarrow>
     (let d1 = d\<lparr>sensordata :=
                   write4 (sensordata d) goal_cube_orientation
                     (default_goal (read4 (sensordata d) goal_cube_orientation))\<rparr>;
          q_gco_conj = mju_negQuat (read4 (sensordata d1) goal_cube_orientation)
      in case SensorByName m ''cube_orientation'' of
        None \<Rightarrow> Inl NullSensor
      | Some cube_orientation \<Rightarrow>
     (let angle = rotation_angle (read4 (sensordata d1) cube_orientation) q_gco_conj;
          axis_aligned_goal = trunc_int (GetNumberOrDefault 1 m ''axis_aligned_goal'');
          (change_goal, L1) = check_rotation angle (angle_thresh axis_aligned_goal) L;
          on_floor = on_floor_of m d1;
          d2 = (if on_floor then reset_cube m d1 else d1);
          (change_goal, L2) = reset_counters c on_floor change_goal L1
      in if change_goal then
           (case change_goal_of m axis_aligned_goal q_gco_conj axis_draws free_draws d2
                   (L2\<lparr>time_of_last_rotation_m := now4 c\<rparr>) of
              None \<Rightarrow> Inl DrawsExhausted
            | Some (d3, L3) \<Rightarrow> Inr (d3, L3, on_floor, change_goal))
         else Inr (d2, L2, on_floor, change_goal))))"

subsection \<open>The whole call\<close>

text \<open>\<open>mj_forward\<close> is the engine's re-evaluation, an argument of the model; the
  release of the mutex around it is not modelled.  After it the noisy-cube marker and the
  telemetry entries of \<^verbatim>\<open>parameters\<close> are written (lines 335--361).\<close>

definition TransitionLocked ::
  "(mjModel \<Rightarrow> mjData \<Rightarrow> mjData) \<Rightarrow> clock \<Rightarrow> (int \<times> int) list \<Rightarrow> (real \<times> real \<times> real) list \<Rightarrow>
   mjModel \<Rightarrow> mjData \<Rightarrow> Leap \<Rightarrow> error + (mjData \<times> Leap)" where
  "TransitionLocked mj_forward c axis_draws free_draws m d L =
     (case transition_update c axis_draws free_draws m d L of
        Inl e \<Rightarrow> Inl e
      | Inr (d1, L1, on_floor, change_goal) \<Rightarrow>
          (let d2 = (if on_floor \<or> change_goal then mj_forward m d1 else d1);
               d3 = d2\<lparr>mocap_pos := write3 (mocap_pos d2) 3 (pos_cube_m L1),
                       mocap_quat := write4 (mocap_quat d2) 4 (quat_cube_m L1)\<rparr>;
               ps = (parameters L1)
                      [0 := of_int (rotation_count_m L1),
                       1 := of_int (best_rotation_count_m L1),
                       2 := time_since_last_rotation_m L1,
                       3 := time_since_last_reset_m L1 / max (of_int (rotation_count_m L1)) 1]
           in case SensorByName m ''cube_position'' of
                None \<Rightarrow> Inl NullSensor
              | Some cube_position \<Rightarrow>
                  (let x = sensordata d3 ! cube_position;
                       y = sensordata d3 ! (cube_position + 1);
                       z = sensordata d3 ! (cube_position + 2)
                   in Inr (d3, L1\<lparr>parameters := ps[13 := x, 14 := y, 15 := z]\<rparr>))))"

section \<open>\<^verbatim>\<open>Leap::ModifyState\<close> (leap.cc, lines 364--493)\<close>

text \<open>The planner's \<^verbatim>\<open>State\<close>: the vector \<^verbatim>\<open>state()\<close> (positions, then velocities,
  then the rest) and \<^verbatim>\<open>time()\<close>.\<close>

record State =
  state :: "real list"
  time :: real

text \<open>Modelled from the spec: \<^verbatim>\<open>State::SetPosition\<close> and \<^verbatim>\<open>State::SetVelocity\<close> of
  \<^verbatim>\<open>mjpc/states\<close> (not among the sources) write the output into the engine's position
  and velocity buffers, the first \<open>nq\<close> and the next \<open>nv\<close> entries of the state.\<close>

definition SetPosition :: "mjModel \<Rightarrow> real list \<Rightarrow> State \<Rightarrow> State" where
  "SetPosition m qpos_in st = st\<lparr>state := mju_copy (state st) 0 qpos_in 0 (nq m)\<rparr>"

definition SetVelocity :: "mjModel \<Rightarrow> real list \<Rightarrow> State \<Rightarrow> State" where
  "SetVelocity m qvel_in st = st\<lparr>state := mju_copy (state st) (nq m) qvel_in 0 (nv m)\<rparr>"

text \<open>\<^verbatim>\<open>mju_quatIntegrate\<close> of MuJoCo, with \<^verbatim>\<open>mju_axisAngle2Quat\<close>.\<close>

definition mju_axisAngle2Quat :: "vec3 \<Rightarrow> real \<Rightarrow> quat" where
  "mju_axisAngle2Quat axis angle =
     (case axis of (ax, ay, az) \<Rightarrow>
        if angle = 0 then (1, 0, 0, 0)
        else (let sn = sin (angle * 0.5)
              in (cos (angle * 0.5), ax * sn, ay * sn, az * sn)))"

definition mju_quatIntegrate :: "quat \<Rightarrow> vec3 \<Rightarrow> real \<Rightarrow> quat" where
  "mju_quatIntegrate q vel scale =
     (case mju_normalize3 vel of (tmp, len) \<Rightarrow>
        let angle = scale * len;
            qrot = mju_axisAngle2Quat tmp angle
        in mju_mulQuat (mju_normalize4 q) qrot)"

text \<open>The Gaussian draws of one call, \<^verbatim>\<open>absl::Gaussian<double>(gen_, 0.0, std)\<close>: three
  for the orientation walk and three for the position walk.\<close>

record gaussians =
  gauss_rot :: vec3
  gauss_pos :: vec3

subsection \<open>Bounds on the noise (lines 395--401 and 415--421)\<close>

definition bound_noise :: "real \<Rightarrow> real \<Rightarrow> real" where
  "bound_noise noise_max v =
     (if v > noise_max then noise_max
      else if v < - noise_max then - noise_max
      else v)"

definition bound_noise3 :: "real \<Rightarrow> vec3 \<Rightarrow> vec3" where
  "bound_noise3 noise_max v =
     (case v of (v0, v1, v2) \<Rightarrow>
        (bound_noise noise_max v0, bound_noise noise_max v1, bound_noise noise_max v2))"

subsection \<open>The latency buffer (lines 380--383 and 474--481)\<close>

text \<open>\<^verbatim>\<open>stored_states_.size()\<close> is a 64-bit unsigned \<^verbatim>\<open>size_t\<close>; comparing it with the
  \<^verbatim>\<open>int lag_steps\<close> converts the \<^verbatim>\<open>int\<close> to unsigned first.\<close>

definition to_size_t :: "int \<Rightarrow> int" where
  "to_size_t i = i mod 2 ^ 64"

function trim_states :: "int \<Rightarrow> real list list \<Rightarrow> real list list" where
  "trim_states lag_steps stored =
     (if int (length stored) > to_size_t lag_steps then trim_states lag_steps (tl stored)
      else stored)"
  by pat_completeness auto
termination
proof (relation "measure (\<lambda>(lag_steps, stored). length stored)")
  show "wf (measure (\<lambda>(lag_steps, stored). length stored))" by simp
next
  fix lag_steps :: int and stored :: "real list list"
  assume "to_size_t lag_steps < int (length stored)"
  moreover have "0 \<le> to_size_t lag_steps" by (simp add: to_size_t_def)
  ultimately have "stored \<noteq> []" by auto
  then show "((lag_steps, tl stored), (lag_steps, stored))
      \<in> measure (\<lambda>(lag_steps, stored). length stored)"
    by (cases stored) simp_all
qed

definition lag_buffer ::
  "mjModel \<Rightarrow> int \<Rightarrow> real list list \<Rightarrow> real list \<Rightarrow> real list \<times> real list list" where
  "lag_buffer m lag_steps stored state_new =
     (let state_lagged = state_new;
          (state_lagged, stored) =
             (if int (length stored) \<ge> to_size_t lag_steps \<and> lag_steps > 0
              then (mju_copy state_lagged 0 (stored ! 0) 0 (nq m + nv m), tl stored)
              else (state_lagged, stored));
          stored = (if lag_steps > 0 then stored @ [state_new] else stored)
      in (state_lagged, stored))"

subsection \<open>Velocity estimate (lines 425--461)\<close>

definition omega_of :: "quat \<Rightarrow> quat \<Rightarrow> real \<Rightarrow> vec3" where
  "omega_of quat_cube quat_cube_last dt =
     (case quat_cube of (c0, c1, c2, c3) \<Rightarrow> case quat_cube_last of (l0, l1, l2, l3) \<Rightarrow>
        ((2 / dt) * (c1 * l0 - c0 * l1 - c3 * l2 + c2 * l3),
         (2 / dt) * (c2 * l0 + c3 * l1 - c0 * l2 - c1 * l3),
         (2 / dt) * (c3 * l0 - c2 * l1 + c1 * l2 - c0 * l3)))"

text \<open>The vector \<open>ds\<close> before the filter is completed: zero in the first branch; in the
  second the entries that the loops of lines 450--456 leave (they overwrite the copy of
  \<open>omega\<close> made at line 446).\<close>

definition ds_scaled ::
  "bool \<Rightarrow> real \<Rightarrow> real \<Rightarrow> vec3 \<Rightarrow> quat \<Rightarrow> real list \<Rightarrow> real list \<Rightarrow> real list" where
  "ds_scaled first_time dt alpha pos_cube quat_cube s last_state =
     (if first_time \<or> dt < 1 / 10 ^ 6 then replicate (6 + 16) 0
      else
        (let quat_cube_last = read4 last_state 3;
             omega = omega_of quat_cube quat_cube_last dt
         in map (\<lambda>i. alpha * (list3 pos_cube ! i - last_state ! i) / dt) [0..<3]
            @ map (\<lambda>i. alpha * list3 omega ! i) [0..<3]
            @ map (\<lambda>i. alpha * (s ! (i + 7) - last_state ! (i + 7)) / dt) [0..<16]))"

subsection \<open>The freshly computed state (lines 364--472)\<close>

text \<open>The result is the task object with the trimmed buffer, the stepped noise walks
  and the new last state and time, and the vector \<open>state_new\<close>.\<close>

definition observe :: "mjModel \<Rightarrow> gaussians \<Rightarrow> State \<Rightarrow> Leap \<Rightarrow> Leap \<times> real list" where
  "observe m g st L =
     (let bias_posx = parameters L ! 6;
          bias_posy = parameters L ! 7;
          bias_posz = parameters L ! 8;
          quat_cube_noise_max = parameters L ! 9;
          pos_cube_noise_max = parameters L ! 10;
          alpha = parameters L ! 11;
          lag_steps = trunc_int (std_round (parameters L ! 12));
          stored = trim_states lag_steps (stored_states_m L);
          s = state st;
          dv = gauss_rot g;
          quat_noise = bound_noise3 quat_cube_noise_max (mju_addTo3 (quat_cube_noise_m L) dv);
          quat_cube = read4 s 3;
          quat_cube = mju_quatIntegrate quat_cube quat_noise 1;
          quat_cube = mju_normalize4 quat_cube;
          dp = mju_addTo3 (bias_posx, bias_posy, bias_posz) (gauss_pos g);
          pos_noise = bound_noise3 pos_cube_noise_max (mju_addTo3 (pos_cube_noise_m L) dp);
          pos_cube = read3 s 0;
          pos_cube = mju_addTo3 pos_cube pos_noise;
          t = time st;
          dt = t - last_time_m L;
          ds = ds_scaled (first_time_m L) dt alpha pos_cube quat_cube s (last_state_m L);
          ds = mju_addToScl ds (last_state_m L) (7 + 16) (1 - alpha) (6 + 16);
          state_new = s;
          state_new = mju_copy state_new 0 (list3 pos_cube) 0 3;
          state_new = mju_copy state_new 3 (list4 quat_cube) 0 4;
          state_new = mju_copy state_new (nq m) ds 0 (nv m)
      in (L\<lparr>stored_states_m := stored,
            quat_cube_noise_m := quat_noise,
            pos_cube_noise_m := pos_noise,
            first_time_m := False,
            last_time_m := t,
            last_state_m := mju_copy (last_state_m L) 0 s 0 (7 + 16 + 6 + 16)\<rparr>,
          state_new))"

subsection \<open>The whole call\<close>

definition ModifyState :: "mjModel \<Rightarrow> gaussians \<Rightarrow> State \<Rightarrow> Leap \<Rightarrow> Leap \<times> State" where
  "ModifyState m g st L =
     (case observe m g st L of (L1, state_new) \<Rightarrow>
        let lag_steps = trunc_int (std_round (parameters L ! 12));
            (state_lagged, stored) = lag_buffer m lag_steps (stored_states_m L1) state_new;
            qpos_out = map (\<lambda>i. state_lagged ! i) [0..<nq m];
            qvel_out = map (\<lambda>i. state_lagged ! (nq m + i)) [0..<nv m];
            st1 = SetPosition m qpos_out st;
            st2 = SetVelocity m qvel_out st1
        in (L1\<lparr>stored_states_m := stored,
               pos_cube_m := read3 state_lagged 0,
               quat_cube_m := read4 state_lagged 3\<rparr>,
            st2))"

text \<open>Successive calls: each takes the state the caller hands in and the Gaussian draws
  of that call, and yields the state written back.\<close>

fun run_ModifyState :: "mjModel \<Rightarrow> Leap \<Rightarrow> (gaussians \<times> State) list \<Rightarrow> Leap \<times> State list" where
  "run_ModifyState m L [] = (L, [])"
| "run_ModifyState m L ((g, st) # rest) =
     (case ModifyState m g st L of (L1, out) \<Rightarrow>
        case run_ModifyState m L1 rest of (L2, outs) \<Rightarrow> (L2, out # outs))"

subsection \<open>Names for the intermediate values of a call\<close>

text \<open>The noise vectors after the step of the walks, the noisy pose \<open>quat_cube\<close> and
  \<open>pos_cube\<close>, and the vector \<open>ds\<close> after line 461, as functions of the inputs of
  \<open>observe\<close>; a lemma below shows that \<open>observe\<close> computes its state from them.\<close>

definition quat_noise_step :: "gaussians \<Rightarrow> Leap \<Rightarrow> vec3" where
  "quat_noise_step g L =
     bound_noise3 (parameters L ! 9) (mju_addTo3 (quat_cube_noise_m L) (gauss_rot g))"

definition pos_noise_step :: "gaussians \<Rightarrow> Leap \<Rightarrow> vec3" where
  "pos_noise_step g L =
     bound_noise3 (parameters L ! 10)
       (mju_addTo3 (pos_cube_noise_m L)
          (mju_addTo3 (parameters L ! 6, parameters L ! 7, parameters L ! 8) (gauss_pos g)))"

definition noisy_quat :: "gaussians \<Rightarrow> State \<Rightarrow> Leap \<Rightarrow> quat" where
  "noisy_quat g st L =
     mju_normalize4 (mju_quatIntegrate (read4 (state st) 3) (quat_noise_step g L) 1)"

definition noisy_pos :: "gaussians \<Rightarrow> State \<Rightarrow> Leap \<Rightarrow> vec3" where
  "noisy_pos g st L = mju_addTo3 (read3 (state st) 0) (pos_noise_step g L)"

definition velocity_estimate :: "gaussians \<Rightarrow> State \<Rightarrow> Leap \<Rightarrow> real list" where
  "velocity_estimate g st L =
     mju_addToScl
       (ds_scaled (first_time_m L) (time st - last_time_m L) (parameters L ! 11)
          (noisy_pos g st L) (noisy_quat g st L) (state st) (last_state_m L))
       (last_state_m L) (7 + 16) (1 - parameters L ! 11) (6 + 16)"

text \<open>Entry \<open>j\<close> of \<open>ds\<close> in the second branch without its factor \<open>alpha\<close> (lines
  433--456): the noisy position \<open>pos_cube\<close>, the noisy orientation \<open>quat_cube\<close> and the
  joints of the input \<open>s\<close>, each against the entries of \<^verbatim>\<open>last_state_\<close>, which line 465
  fills with the input state of the previous call.\<close>

definition ds_unscaled ::
  "vec3 \<Rightarrow> quat \<Rightarrow> real list \<Rightarrow> real list \<Rightarrow> real \<Rightarrow> nat \<Rightarrow> real" where
  "ds_unscaled pos_cube quat_cube s last_state dt j =
     (if j < 3 then (list3 pos_cube ! j - last_state ! j) / dt
      else if j < 6 then list3 (omega_of quat_cube (read4 last_state 3) dt) ! (j - 3)
      else (s ! (j + 1) - last_state ! (j + 1)) / dt)"

subsection \<open>The filter of the specification\<close>

text \<open>The specification's velocity estimate of one sampled signal, kept apart from the
  code above.  The samples are pairs of a time and a value.  The raw estimate is the
  backward finite difference of successive samples; the first estimate is zero, and so
  is an estimate after a negligible elapsed time; every other one is
  \<open>filtered[t] = alpha * raw[t] + (1 - alpha) * filtered[t - 1]\<close>.\<close>

definition backward_difference :: "real \<times> real \<Rightarrow> real \<times> real \<Rightarrow> real" where
  "backward_difference previous current =
     (snd current - snd previous) / (fst current - fst previous)"

fun filtered_from :: "real \<Rightarrow> real \<Rightarrow> real \<times> real \<Rightarrow> (real \<times> real) list \<Rightarrow> real list" where
  "filtered_from alpha filtered previous [] = []"
| "filtered_from alpha filtered previous (current # rest) =
     (let estimate =
            (if fst current - fst previous < 1 / 10 ^ 6 then 0
             else alpha * backward_difference previous current + (1 - alpha) * filtered)
      in estimate # filtered_from alpha estimate current rest)"

definition filtered_velocity :: "real \<Rightarrow> (real \<times> real) list \<Rightarrow> real list" where
  "filtered_velocity alpha samples =
     (case samples of [] \<Rightarrow> [] | first # rest \<Rightarrow> 0 # filtered_from alpha 0 first rest)"

subsection \<open>The bound of the specification\<close>

text \<open>The specification's invariant of the noise state, kept apart from the code above:
  every component of the orientation noise is within \<open>quat_cube_noise_max\<close>
  (\<^verbatim>\<open>parameters[9]\<close>) and every component of the position noise within
  \<open>pos_cube_noise_max\<close> (\<^verbatim>\<open>parameters[10]\<close>).\<close>

definition all_within :: "real \<Rightarrow> vec3 \<Rightarrow> bool" where
  "all_within noise_max v =
     (case v of (v0, v1, v2) \<Rightarrow> \<bar>v0\<bar> \<le> noise_max \<and> \<bar>v1\<bar> \<le> noise_max \<and> \<bar>v2\<bar> \<le> noise_max)"

definition noise_bounded :: "Leap \<Rightarrow> bool" where
  "noise_bounded L =
     (all_within (parameters L ! 9) (quat_cube_noise_m L) \<and>
      all_within (parameters L ! 10) (pos_cube_noise_m L))"

text \<open>The lag-step count a call reads (line 380).\<close>

definition lag_steps_of :: "Leap \<Rightarrow> int" where
  "lag_steps_of L = trunc_int (std_round (parameters L ! 12))"

section \<open>A concrete model and data\<close>

text \<open>A small instance on which the definitions are evaluated: the five named sensors
  at the offsets 0, 3, 7, 11 and 14 of the sensor buffer, the geometries \<open>floor\<close>,
  \<open>cube\<close> and \<open>goal\<close>, 23 positions, 22 velocities and 16 actuators, and 58 declared
  user-sensor dimensions.\<close>

definition example_name2id :: "mjtObj \<Rightarrow> string \<Rightarrow> int" where
  "example_name2id obj name =
     (case obj of
        mjOBJ_SENSOR \<Rightarrow>
          (if name = ''cube_position'' then 0
           else if name = ''cube_orientation'' then 1
           else if name = ''cube_goal_orientation'' then 2
           else if name = ''cube_linear_velocity'' then 3
           else if name = ''cube_angular_velocity'' then 4
           else - 1)
      | mjOBJ_GEOM \<Rightarrow>
          (if name = ''floor'' then 0
           else if name = ''cube'' then 1
           else if name = ''goal'' then 2
           else - 1)
      | mjOBJ_BODY \<Rightarrow>
          (if name = ''cube'' then 1
           else if name = ''goal'' then 2
           else - 1))"

definition example_model :: mjModel where
  "example_model =
     \<lparr>nq = 23, nv = 22, nu = 16,
      key_qpos = [1 / 10, 0, 1 / 20, 1, 0, 0, 0] @ replicate 16 0,
      jnt_qposadr = [0, 0, 0],
      jnt_dofadr = [0, 0, 0],
      body_jntadr = [0, 0, 0],
      sensor_adr = [0, 3, 7, 11, 14],
      name2id = example_name2id,
      numeric = (\<lambda>name. None),
      user_sensor_dim = 58\<rparr>"

definition example_sensordata :: "real \<Rightarrow> real \<Rightarrow> real \<Rightarrow> real list" where
  "example_sensordata x y z = [x, y, z, 1, 0, 0, 0, 1, 0, 0, 0, 0, 0, 0, 0, 0, 0]"

definition example_data :: mjData where
  "example_data =
     \<lparr>qpos = [1 / 10, 0, 0, 1, 0, 0, 0] @ replicate 16 0,
      qvel = replicate 22 0,
      actuator_force = replicate 16 0,
      mocap_pos = replicate 6 0,
      mocap_quat = [1, 0, 0, 0, 1, 0, 0, 0],
      sensordata = example_sensordata (1 / 10) 0 0,
      contact = []\<rparr>"

definition example_data_at :: "real \<Rightarrow> real \<Rightarrow> real \<Rightarrow> mjData" where
  "example_data_at x y z = example_data\<lparr>sensordata := example_sensordata x y z\<rparr>"

definition example_data_zero_goal :: mjData where
  "example_data_zero_goal =
     example_data\<lparr>sensordata := [1 / 10, 0, 0, 1, 0, 0, 0, 0, 0, 0, 0, 0, 0, 0, 0, 0, 0]\<rparr>"

text \<open>A task object at the start of an episode.\<close>

definition example_task :: Leap where
  "example_task =
     \<lparr>rotation_count_m = 0, best_rotation_count_m = 0,
      time_of_last_reset_m = 0, time_of_last_rotation_m = 0,
      time_since_last_reset_m = 0, time_since_last_rotation_m = 0,
      rand1_m = 0, rand2_m = 0,
      parameters = replicate 16 0,
      pos_cube_m = (0, 0, 0), quat_cube_m = (1, 0, 0, 0),
      stored_states_m = [],
      quat_cube_noise_m = (0, 0, 0), pos_cube_noise_m = (0, 0, 0),
      last_time_m = 0, first_time_m = True,
      last_state_m = replicate 45 0\<rparr>"

text \<open>A prior goal, the quarter turn about the y axis, and one triple of uniform
  draws.\<close>

definition example_prior_goal :: quat where
  "example_prior_goal = (sqrt 2 / 2, 0, sqrt 2 / 2, 0)"

definition example_free_draws :: "(real \<times> real \<times> real) list" where
  "example_free_draws = [(1 / 2, 1 / 4, 3 / 4)]"

text \<open>Data in which the cube is half a turn away from the goal and moving, and two
  readings of the clock: ten seconds and a hundred seconds into the episode.\<close>

definition example_data_far :: mjData where
  "example_data_far =
     example_data\<lparr>sensordata := [1 / 10, 0, 0, 0, 1, 0, 0, 1, 0, 0, 0, 0, 0, 0, 0, 0, 0],
                   qvel := replicate 22 1\<rparr>"

definition example_clock :: clock where
  "example_clock = \<lparr>now1 = 10, now2 = 10, now3 = 10, now4 = 10\<rparr>"

definition example_clock_late :: clock where
  "example_clock_late = \<lparr>now1 = 100, now2 = 100, now3 = 100, now4 = 100\<rparr>"

text \<open>Calls of the transition, and the parts of a result.  In two the cube is half a
  turn away after three rotations, touching the floor ten seconds in, and untouched a
  hundred seconds in.\<close>

definition example_task_3 :: Leap where
  "example_task_3 = example_task\<lparr>rotation_count_m := 3, best_rotation_count_m := 5\<rparr>"

definition example_data_drop :: mjData where
  "example_data_drop = example_data_far\<lparr>contact := [(3, 4), (0, 1)]\<rparr>"

text \<open>In two more, ten seconds in and without contact, the orientation reading of the
  cube is not of unit length and the quaternion difference has a negative scalar part:
  the cube ten degrees about the x axis from a goal that is the half turn about x, and
  the cube a third of a turn about the diagonal with an all-zero goal reading.\<close>

definition example_cube_near :: quat where
  "example_cube_near = (- 2 * sin (pi / 36), - 2 * cos (pi / 36), 0, 0)"

definition example_goal_near :: quat where
  "example_goal_near = (0, 1, 0, 0)"

definition example_cube_miss :: quat where
  "example_cube_miss = (- 1, 1, 1, 1)"

definition example_goal_miss :: quat where
  "example_goal_miss = (0, 0, 0, 0)"

definition example_data_turned :: "quat \<Rightarrow> quat \<Rightarrow> mjData" where
  "example_data_turned cube goal =
     example_data\<lparr>sensordata := [1 / 10, 0, 0] @ list4 cube @ list4 goal @ replicate 6 0\<rparr>"

definition example_run_turned ::
  "quat \<Rightarrow> quat \<Rightarrow> error + (mjData \<times> Leap \<times> bool \<times> bool)" where
  "example_run_turned cube goal =
     transition_update example_clock [(2, 1)] [] example_model (example_data_turned cube goal)
       example_task_3"

definition example_run_drop :: "error + (mjData \<times> Leap \<times> bool \<times> bool)" where
  "example_run_drop =
     transition_update example_clock [(2, 1)] [] example_model example_data_drop example_task_3"

definition example_run_timeout :: "error + (mjData \<times> Leap \<times> bool \<times> bool)" where
  "example_run_timeout =
     transition_update example_clock_late [(2, 1)] [] example_model example_data_far
       example_task_3"

definition data_of :: "error + (mjData \<times> Leap \<times> bool \<times> bool) \<Rightarrow> mjData" where
  "data_of r = fst (projr r)"

definition task_of :: "error + (mjData \<times> Leap \<times> bool \<times> bool) \<Rightarrow> Leap" where
  "task_of r = fst (snd (projr r))"

definition on_floor_flag :: "error + (mjData \<times> Leap \<times> bool \<times> bool) \<Rightarrow> bool" where
  "on_floor_flag r = fst (snd (snd (projr r)))"

definition change_goal_flag :: "error + (mjData \<times> Leap \<times> bool \<times> bool) \<Rightarrow> bool" where
  "change_goal_flag r = snd (snd (snd (projr r)))"

text \<open>Inputs of the observation pipeline: the tunables (noise deviations 0.01, noise
  bounds 0.05, filter parameter 1/2, no lag), a state with the cube at \<open>x\<close> moving with
  velocity \<open>v\<close> at time \<open>t\<close>, and Gaussian draws.\<close>

definition example_parameters :: "real \<Rightarrow> real list" where
  "example_parameters lag =
     [0, 0, 0, 0, 1 / 100, 1 / 100, 0, 0, 0, 1 / 20, 1 / 20, 1 / 2, lag, 0, 0, 0]"

definition example_task_lag :: "real \<Rightarrow> Leap" where
  "example_task_lag lag = example_task\<lparr>parameters := example_parameters lag\<rparr>"

definition example_state :: "real \<Rightarrow> real \<Rightarrow> real \<Rightarrow> State" where
  "example_state x v t =
     \<lparr>state = [x, 0, 0, 1, 0, 0, 0] @ replicate 16 0 @ [v] @ replicate 21 0, time = t\<rparr>"

definition example_gaussians :: gaussians where
  "example_gaussians = \<lparr>gauss_rot = (1, - 1, 1 / 100), gauss_pos = (0, - 1, 1)\<rparr>"

definition zero_gaussians :: gaussians where
  "zero_gaussians = \<lparr>gauss_rot = (0, 0, 0), gauss_pos = (0, 0, 0)\<rparr>"

text \<open>Three calls without noise, the cube at \<open>x = 1, 2, 3\<close> at the times 0, 1, 2; and
  three calls without noise, the cube at \<open>x = 0, 1, 2\<close> at the times 0, 1, 2, the velocity
  entries of the input states all zero.\<close>

definition example_lag_inputs :: "(gaussians \<times> State) list" where
  "example_lag_inputs =
     [(zero_gaussians, example_state 1 0 0),
      (zero_gaussians, example_state 2 0 1),
      (zero_gaussians, example_state 3 0 2)]"

definition example_filter_inputs :: "(gaussians \<times> State) list" where
  "example_filter_inputs =
     [(zero_gaussians, example_state 0 0 0),
      (zero_gaussians, example_state 1 0 1),
      (zero_gaussians, example_state 2 0 2)]"

section \<open>Properties\<close>

subsection \<open>Evaluating the concrete instance\<close>

lemma example_sensors:
  "SensorByName example_model ''cube_position'' = Some 0"
  "SensorByName example_model ''cube_orientation'' = Some 3"
  "SensorByName example_model ''cube_goal_orientation'' = Some 7"
  "SensorByName example_model ''cube_linear_velocity'' = Some 11"
  "SensorByName example_model ''cube_angular_velocity'' = Some 14"
  by (simp_all add: SensorByName_def example_model_def example_name2id_def idx_def)

lemma normalize4_identity: "mju_normalize4 (1, 0, 0, 0) = (1, 0, 0, 0)"
  by (simp add: mju_normalize4_def norm4_def mjMINVAL_def)

lemma example_goal_read: "read4 (example_sensordata x y z) 7 = (1, 0, 0, 0)"
  by (simp add: example_sensordata_def read4_def)

lemma example_goal_write:
  "write4 (example_sensordata x y z) 7 (1, 0, 0, 0) = example_sensordata x y z"
  unfolding example_sensordata_def write4_def mju_copy_def list4_def
  by (simp add: upt_rec nth_Cons')

lemma example_Residual:
  "\<exists>r. Residual example_model (example_data_at x y z) = (example_data_at x y z, Inr r)"
proof -
  have chk: "CheckSensorDim example_model 58 = Inr ()"
    by (simp add: CheckSensorDim_def example_model_def)
  have nu: "nu example_model = 16" by (simp add: example_model_def)
  show ?thesis
    unfolding Residual_def example_sensors option.case Let_def example_data_at_def
    by (simp add: example_goal_read normalize4_identity example_goal_write nu chk)
qed

subsection \<open>The containment term\<close>

lemma mju_max_eq: "mju_max a b = max a b"
  by (simp add: mju_max_def max_def)

lemma mju_min_eq: "mju_min a b = min a b"
  by (simp add: mju_min_def min_def)

lemma containment_eq_nearest:
  "containment_residual x y z = 250 * dist3 (x, y, z) (nearest_point theta_code (x, y, z))"
  by (auto simp: containment_residual_def nearest_point_def dist3_def clamp_def mju_max_eq
      mju_min_eq in_rectangle_def band_z_min_def theta_code_def Let_def)

lemma containment_nonneg: "0 \<le> containment_residual x y z"
  by (simp add: containment_eq_nearest dist3_def nearest_point_def)

lemma sum3_sq_zero_iff: "a\<^sup>2 + b\<^sup>2 + c\<^sup>2 = 0 \<longleftrightarrow> a = 0 \<and> b = 0 \<and> (c::real) = 0"
proof
  assume h: "a\<^sup>2 + b\<^sup>2 + c\<^sup>2 = 0"
  have "0 \<le> a\<^sup>2" "0 \<le> b\<^sup>2" "0 \<le> c\<^sup>2" by simp_all
  with h have "a\<^sup>2 = 0" "b\<^sup>2 = 0" "c\<^sup>2 = 0" by linarith+
  then show "a = 0 \<and> b = 0 \<and> c = 0" by simp
qed simp

lemma dist3_zero_iff: "dist3 p q = 0 \<longleftrightarrow> p = q"
  by (cases p, cases q) (auto simp: dist3_def sum3_sq_zero_iff)

lemma nearest_point_fixed_iff: "nearest_point th (x, y, z) = (x, y, z) \<longleftrightarrow> in_region x y z"
  by (auto simp: nearest_point_def in_region_def in_rectangle_def clamp_def max_def min_def
      split: if_splits)

lemma containment_zero_iff: "containment_residual x y z = 0 \<longleftrightarrow> in_region x y z"
  using nearest_point_fixed_iff[of theta_code x y z]
  by (auto simp: containment_eq_nearest dist3_zero_iff)

lemma Residual_first_entry:
  assumes "Residual m d = (d', Inr r)" and "SensorByName m ''cube_position'' = Some p"
  shows "r ! 0 = containment_residual (sensordata d ! p) (sensordata d ! (p + 1))
                   (sensordata d ! (p + 2))"
  using assms
  by (auto simp: Residual_def Let_def split: option.splits sum.splits)

text \<open>
  Claim C1, with the tilt angle the code has.  When the evaluator returns, the first
  entry is the containment residual of the sensed cube position \<open>(x, y, z)\<close>: it is 0 when
  \<open>(x, y)\<close> lies in the rectangle \<open>[0.08, 0.14] \<times> [-0.02, 0.02]\<close> and \<open>z \<ge> -0.015\<close>;
  otherwise it is 250 times the Euclidean distance to the point obtained by clamping each
  coordinate on its own, where outside the rectangle the band is
  \<open>z_min = - x * tan \<theta> + 0.035 / cos \<theta>\<close>, \<open>z_max = z_min + 0.035\<close> with
  \<open>\<theta> = 0.349066\<close> rad; it is never negative, and it is zero iff the position lies in the
  region.
\<close>

theorem containment_term:
  assumes "Residual m d = (d', Inr r)"
    and "SensorByName m ''cube_position'' = Some p"
    and "x = sensordata d ! p" and "y = sensordata d ! (p + 1)" and "z = sensordata d ! (p + 2)"
  shows "(in_region x y z \<longrightarrow> r ! 0 = 0) \<and>
         (\<not> in_region x y z \<longrightarrow>
            r ! 0 = 250 * dist3 (x, y, z) (nearest_point theta_code (x, y, z))) \<and>
         0 \<le> r ! 0 \<and>
         (r ! 0 = 0 \<longleftrightarrow> in_region x y z)"
proof -
  have r0: "r ! 0 = containment_residual x y z"
    using Residual_first_entry[OF assms(1,2)] assms(3-5) by simp
  show ?thesis
    unfolding r0
    using containment_zero_iff[of x y z] containment_nonneg[of x y z]
      containment_eq_nearest[of x y z]
    by simp
qed

theorem containment_term_witness:
  "(\<not> isl (snd (Residual example_model (example_data_at (1 / 10) 0 0)))
    \<and> in_region (1 / 10) 0 0
    \<and> projr (snd (Residual example_model (example_data_at (1 / 10) 0 0))) ! 0 = 0) \<and>
   (\<not> isl (snd (Residual example_model (example_data_at 0 0 0)))
    \<and> \<not> in_region 0 0 0
    \<and> projr (snd (Residual example_model (example_data_at 0 0 0))) ! 0
        = 250 * dist3 (0, 0, 0) (nearest_point theta_code (0, 0, 0))
    \<and> 0 < projr (snd (Residual example_model (example_data_at 0 0 0))) ! 0)"
proof (intro conjI)
  obtain r where r: "Residual example_model (example_data_at (1 / 10) 0 0)
      = (example_data_at (1 / 10) 0 0, Inr r)"
    using example_Residual[of "1 / 10" 0 0] by blast
  show reg: "in_region (1 / 10) 0 0" by (simp add: in_region_def in_rectangle_def)
  show "\<not> isl (snd (Residual example_model (example_data_at (1 / 10) 0 0)))"
    by (simp add: r)
  have "r ! 0 = 0"
    using containment_term[OF r example_sensors(1), of "1 / 10" 0 0] reg
    by (simp add: example_data_at_def example_sensordata_def)
  then show "projr (snd (Residual example_model (example_data_at (1 / 10) 0 0))) ! 0 = 0"
    by (simp add: r)
next
  obtain r where r: "Residual example_model (example_data_at 0 0 0)
      = (example_data_at 0 0 0, Inr r)"
    using example_Residual[of 0 0 0] by blast
  show reg: "\<not> in_region 0 0 0" by (simp add: in_region_def in_rectangle_def)
  show "\<not> isl (snd (Residual example_model (example_data_at 0 0 0)))"
    by (simp add: r)
  have e: "r ! 0 = 250 * dist3 (0, 0, 0) (nearest_point theta_code (0, 0, 0))
      \<and> 0 \<le> r ! 0 \<and> r ! 0 \<noteq> 0"
    using containment_term[OF r example_sensors(1), of 0 0 0] reg
    by (simp add: example_data_at_def example_sensordata_def)
  then show "projr (snd (Residual example_model (example_data_at 0 0 0))) ! 0
      = 250 * dist3 (0, 0, 0) (nearest_point theta_code (0, 0, 0))"
    by (simp add: r)
  from e show "0 < projr (snd (Residual example_model (example_data_at 0 0 0))) ! 0"
    by (simp add: r)
qed

subsection \<open>The tilt angle is not 20 degrees\<close>

lemma cos_third_bound: "cos (1.047198::real) < 1 / 2"
proof -
  obtain t where t: "cos (1.047198::real) =
      (\<Sum>m<12. cos_coeff m * 1.047198 ^ m)
      + (cos (t + 1 / 2 * real 12 * pi) / fact 12) * 1.047198 ^ 12"
    using Maclaurin_cos_expansion2[of "1.047198::real" 12] by auto
  have "cos (t + 1 / 2 * real 12 * pi) \<le> 1" by (rule cos_le_one)
  then have "(cos (t + 1 / 2 * real 12 * pi) / fact 12) * (1.047198::real) ^ 12
      \<le> (1 / fact 12) * 1.047198 ^ 12"
    by (intro mult_right_mono divide_right_mono) auto
  moreover have "(\<Sum>m<12. cos_coeff m * (1.047198::real) ^ m)
      + (1 / fact 12) * 1.047198 ^ 12 < 1 / 2"
    by (simp add: cos_coeff_def lessThan_nat_numeral fact_numeral power_divide)
  ultimately show ?thesis using t by linarith
qed

lemma theta_code_gt_20deg: "theta_20deg < theta_code"
proof (rule ccontr)
  assume "\<not> theta_20deg < theta_code"
  then have le: "(1.047198::real) \<le> pi / 3" by (simp add: theta_20deg_def theta_code_def)
  have "0 \<le> (1.047198::real)" by simp
  moreover have "pi / 3 \<le> pi" by simp
  ultimately have "cos (pi / 3) \<le> cos (1.047198::real)"
    using le by (intro cos_monotone_0_pi_le) auto
  then show False using cos_third_bound cos_60 by simp
qed

lemma theta_code_lt_half_pi: "theta_code < pi / 2"
  using pi_ge_two by (simp add: theta_code_def)

lemma cos_theta_code_pos: "0 < cos theta_code"
  using theta_code_lt_half_pi by (intro cos_gt_zero) (simp_all add: theta_code_def)

lemma cos_theta_20deg_pos: "0 < cos theta_20deg"
  using theta_code_gt_20deg theta_code_lt_half_pi
  by (intro cos_gt_zero) (simp_all add: theta_20deg_def)

lemma cos_theta_lt: "cos theta_code < cos theta_20deg"
proof -
  have "0 \<le> theta_20deg" by (simp add: theta_20deg_def)
  moreover have "theta_code \<le> pi" using theta_code_lt_half_pi pi_ge_zero by linarith
  ultimately show ?thesis using theta_code_gt_20deg by (intro cos_monotone_0_pi) auto
qed

lemma nearest_point_origin:
  assumes "0 < cos th"
  shows "nearest_point th (0, 0, 0) = (0.08, 0, 0.035 / cos th)"
  using assms
  by (simp add: nearest_point_def in_rectangle_def clamp_def band_z_min_def max_def min_def)

text \<open>
  Claim C1 as the specification words it, with the tilt of exactly 20 degrees, fails at
  the cube position \<open>(0, 0, 0)\<close>: the position is outside the region, and the first
  residual entry is not 250 times the distance to the point clamped with the 20-degree
  band.
\<close>

theorem containment_20deg_counterexample:
  "\<not> isl (snd (Residual example_model (example_data_at 0 0 0)))
   \<and> \<not> in_region 0 0 0
   \<and> projr (snd (Residual example_model (example_data_at 0 0 0))) ! 0
       \<noteq> 250 * dist3 (0, 0, 0) (nearest_point theta_20deg (0, 0, 0))"
proof -
  obtain r where r: "Residual example_model (example_data_at 0 0 0)
      = (example_data_at 0 0 0, Inr r)"
    using example_Residual[of 0 0 0] by blast
  have r0: "r ! 0 = containment_residual 0 0 0"
    using Residual_first_entry[OF r example_sensors(1)]
    by (simp add: example_data_at_def example_sensordata_def)
  have a: "0 < 0.035 / cos theta_code" using cos_theta_code_pos by simp
  have b: "0 < 0.035 / cos theta_20deg" using cos_theta_20deg_pos by simp
  have ne: "0.035 / cos theta_code \<noteq> 0.035 / cos theta_20deg"
    using cos_theta_lt cos_theta_code_pos cos_theta_20deg_pos by (simp add: field_simps)
  have "(0.035 / cos theta_code)\<^sup>2 \<noteq> (0.035 / cos theta_20deg)\<^sup>2"
    using a b ne by (simp add: power2_eq_iff_nonneg del: power_divide)
  then have "sqrt ((0.08)\<^sup>2 + (0.035 / cos theta_code)\<^sup>2)
      \<noteq> sqrt ((0.08)\<^sup>2 + (0.035 / cos theta_20deg)\<^sup>2)"
    by simp
  then have "containment_residual 0 0 0
      \<noteq> 250 * dist3 (0, 0, 0) (nearest_point theta_20deg (0, 0, 0))"
    by (simp add: containment_eq_nearest nearest_point_origin[OF cos_theta_20deg_pos]
        nearest_point_origin[OF cos_theta_code_pos] dist3_def)
  moreover have "\<not> in_region 0 0 0" by (simp add: in_region_def in_rectangle_def)
  ultimately show ?thesis using r0 by (simp add: r)
qed

subsection \<open>Buffers\<close>

lemma length_mju_copy: "length (mju_copy dst doff src soff n) = length dst"
  by (simp add: mju_copy_def)

lemma nth_mju_copy:
  "i < length dst \<Longrightarrow>
   mju_copy dst doff src soff n ! i =
     (if doff \<le> i \<and> i < doff + n then src ! (soff + (i - doff)) else dst ! i)"
  by (simp add: mju_copy_def)

lemma length_mju_zero: "length (mju_zero dst doff n) = length dst"
  by (simp add: mju_zero_def)

lemma nth_mju_zero:
  "i < length dst \<Longrightarrow>
   mju_zero dst doff n ! i = (if doff \<le> i \<and> i < doff + n then 0 else dst ! i)"
  by (simp add: mju_zero_def)

lemma length_write4: "length (write4 xs a q) = length xs"
  by (simp add: write4_def length_mju_copy)

lemma nth_write4_other:
  "i < length xs \<Longrightarrow> i < a \<or> a + 4 \<le> i \<Longrightarrow> write4 xs a q ! i = xs ! i"
  by (auto simp: write4_def nth_mju_copy)

lemma read4_write4: "a + 4 \<le> length xs \<Longrightarrow> read4 (write4 xs a q) a = q"
  by (cases q) (simp add: read4_def write4_def nth_mju_copy list4_def)

lemma write4_read4: 
  assumes "a + 4 \<le> length xs" shows "write4 xs a (read4 xs a) = xs"
proof (rule nth_equalityI)
  show "length (write4 xs a (read4 xs a)) = length xs" by (rule length_write4)
next
  fix i assume "i < length (write4 xs a (read4 xs a))"
  then have i: "i < length xs" by (simp add: length_write4)
  show "write4 xs a (read4 xs a) ! i = xs ! i"
  proof (cases "a \<le> i \<and> i < a + 4")
    case True
    then have "i = a \<or> i = a + 1 \<or> i = a + 2 \<or> i = a + 3" by arith
    then show ?thesis using i
      by (auto simp: write4_def nth_mju_copy read4_def list4_def)
  next
    case False
    then show ?thesis using i by (intro nth_write4_other) auto
  qed
qed

lemma normalize4_unit: "norm4 q = 1 \<Longrightarrow> mju_normalize4 q = q"
  by (cases q) (simp add: mju_normalize4_def mjMINVAL_def Let_def)

lemma length_list3: "length (list3 v) = 3"
  by (cases v) (simp add: list3_def)

subsection \<open>Length and layout of the residual\<close>

lemma length_residual_layout: "length (residual_layout m d sd cp g co lv av) = 42 + nu m"
  by (simp add: residual_layout_def length_list3)

lemma Residual_resolved:
  assumes "SensorByName m ''cube_position'' = Some cp"
    and "SensorByName m ''cube_goal_orientation'' = Some g"
    and "SensorByName m ''cube_orientation'' = Some co"
    and "SensorByName m ''cube_linear_velocity'' = Some lv"
    and "SensorByName m ''cube_angular_velocity'' = Some av"
  shows "Residual m d =
           (d\<lparr>sensordata := write4 (sensordata d) g (mju_normalize4 (read4 (sensordata d) g))\<rparr>,
            if user_sensor_dim m \<noteq> 42 + int (nu m) then Inl SensorDimMismatch
            else Inr (residual_layout m d
                       (write4 (sensordata d) g (mju_normalize4 (read4 (sensordata d) g)))
                       cp g co lv av))"
  using assms
  by (simp add: Residual_def Let_def CheckSensorDim_def residual_layout_def mju_sub_def add.commute)

lemma Residual_data:
  assumes "Residual m d = (d', res)"
  shows "d' = d \<or>
         (\<exists>g. SensorByName m ''cube_goal_orientation'' = Some g \<and>
               d' = d\<lparr>sensordata :=
                        write4 (sensordata d) g (mju_normalize4 (read4 (sensordata d) g))\<rparr>)"
  using assms
  by (auto simp: Residual_def Let_def split: option.splits sum.splits)

lemma Residual_done_data:
  assumes "Residual m d = (d', Inr r)" and "SensorByName m ''cube_goal_orientation'' = Some g"
  shows "d' = d\<lparr>sensordata :=
                   write4 (sensordata d) g (mju_normalize4 (read4 (sensordata d) g))\<rparr>"
  using assms
  by (auto simp: Residual_def Let_def split: option.splits sum.splits)

lemma Residual_fatal_or_58:
  assumes "nu m = 16"
  shows "isl (snd (Residual m d)) \<or>
         length (projr (snd (Residual m d))) = 58 \<and> user_sensor_dim m = 58"
proof (cases "\<exists>cp g co lv av.
    SensorByName m ''cube_position'' = Some cp \<and>
    SensorByName m ''cube_goal_orientation'' = Some g \<and>
    SensorByName m ''cube_orientation'' = Some co \<and>
    SensorByName m ''cube_linear_velocity'' = Some lv \<and>
    SensorByName m ''cube_angular_velocity'' = Some av")
  case True
  then obtain cp g co lv av where
    "SensorByName m ''cube_position'' = Some cp"
    "SensorByName m ''cube_goal_orientation'' = Some g"
    "SensorByName m ''cube_orientation'' = Some co"
    "SensorByName m ''cube_linear_velocity'' = Some lv"
    "SensorByName m ''cube_angular_velocity'' = Some av"
    by blast
  from Residual_resolved[OF this, of d] show ?thesis
    by (simp add: length_residual_layout assms)
next
  case False
  then have "isl (snd (Residual m d))"
    by (auto simp: Residual_def Let_def split: option.splits)
  then show ?thesis by simp
qed

text \<open>
  Claim C9.  For a model of the hand, with its 16 actuators, every call of the evaluator
  either fails fatally or yields exactly 58 entries, and then the declared sensor
  dimensionality is 58.  With the five sensor channels resolved: when the declared
  dimensionality is not 58 the call fails with the fatal error of the length check and
  yields no entries; when it is 58 the call yields the containment term, 3 orientation
  entries, 3 linear-velocity entries, 3 angular-velocity entries, the 16 actuator forces,
  16 pose deviations and 16 joint velocities, in that order.
\<close>

theorem Residual_length_checked:
  assumes "nu m = 16"
  shows "(isl (snd (Residual m d)) \<or>
          length (projr (snd (Residual m d))) = 58 \<and> user_sensor_dim m = 58) \<and>
         (SensorByName m ''cube_position'' = Some cp \<and>
          SensorByName m ''cube_goal_orientation'' = Some g \<and>
          SensorByName m ''cube_orientation'' = Some co \<and>
          SensorByName m ''cube_linear_velocity'' = Some lv \<and>
          SensorByName m ''cube_angular_velocity'' = Some av \<and>
          sd = sensordata (fst (Residual m d)) \<longrightarrow>
            (user_sensor_dim m \<noteq> 58 \<longrightarrow> snd (Residual m d) = Inl SensorDimMismatch) \<and>
            (user_sensor_dim m = 58 \<longrightarrow>
               snd (Residual m d) =
                 Inr ([containment_residual (sensordata d ! cp) (sensordata d ! (cp + 1))
                         (sensordata d ! (cp + 2))]
                      @ list3 (mju_subQuat (read4 sd g) (read4 sd co))
                      @ list3 (read3 sd lv)
                      @ list3 (read3 sd av)
                      @ map (\<lambda>i. actuator_force d ! i) [0..<16]
                      @ map (\<lambda>i. qpos d ! (7 + i) - key_qpos m ! (7 + i)) [0..<16]
                      @ map (\<lambda>i. qvel d ! (6 + i)) [0..<16])))"
proof (intro conjI impI)
  show "isl (snd (Residual m d)) \<or>
        length (projr (snd (Residual m d))) = 58 \<and> user_sensor_dim m = 58"
    using assms by (rule Residual_fatal_or_58)
next
  assume s: "SensorByName m ''cube_position'' = Some cp \<and>
          SensorByName m ''cube_goal_orientation'' = Some g \<and>
          SensorByName m ''cube_orientation'' = Some co \<and>
          SensorByName m ''cube_linear_velocity'' = Some lv \<and>
          SensorByName m ''cube_angular_velocity'' = Some av \<and>
          sd = sensordata (fst (Residual m d))"
  then have r: "Residual m d =
           (d\<lparr>sensordata := write4 (sensordata d) g (mju_normalize4 (read4 (sensordata d) g))\<rparr>,
            if user_sensor_dim m \<noteq> 42 + int (nu m) then Inl SensorDimMismatch
            else Inr (residual_layout m d
                       (write4 (sensordata d) g (mju_normalize4 (read4 (sensordata d) g)))
                       cp g co lv av))"
    by (intro Residual_resolved) simp_all
  {
    assume "user_sensor_dim m \<noteq> 58"
    then show "snd (Residual m d) = Inl SensorDimMismatch"
      by (simp add: r assms)
  }
  {
    assume "user_sensor_dim m = 58"
    then show "snd (Residual m d) =
                 Inr ([containment_residual (sensordata d ! cp) (sensordata d ! (cp + 1))
                         (sensordata d ! (cp + 2))]
                      @ list3 (mju_subQuat (read4 sd g) (read4 sd co))
                      @ list3 (read3 sd lv)
                      @ list3 (read3 sd av)
                      @ map (\<lambda>i. actuator_force d ! i) [0..<16]
                      @ map (\<lambda>i. qpos d ! (7 + i) - key_qpos m ! (7 + i)) [0..<16]
                      @ map (\<lambda>i. qvel d ! (6 + i)) [0..<16])"
      using s by (simp add: r assms residual_layout_def)
  }
qed

theorem Residual_length_checked_witness:
  "nu example_model = 16 \<and>
   snd (Residual (example_model\<lparr>user_sensor_dim := 57\<rparr>) example_data) = Inl SensorDimMismatch \<and>
   isl (snd (Residual example_model example_data)) = False \<and>
   length (projr (snd (Residual example_model example_data))) = 58"
proof -
  let ?m = "example_model\<lparr>user_sensor_dim := 57\<rparr>"
  have s: "SensorByName ?m = SensorByName example_model"
    by (rule ext) (simp add: SensorByName_def example_model_def Let_def)
  have n: "nu ?m = 16" "nu example_model = 16" "user_sensor_dim ?m \<noteq> 58"
    "user_sensor_dim example_model = 58"
    by (simp_all add: example_model_def)
  have sens: "SensorByName ?m ''cube_position'' = Some 0"
    "SensorByName ?m ''cube_goal_orientation'' = Some 7"
    "SensorByName ?m ''cube_orientation'' = Some 3"
    "SensorByName ?m ''cube_linear_velocity'' = Some 11"
    "SensorByName ?m ''cube_angular_velocity'' = Some 14"
    by (simp_all add: s example_sensors)
  have w1: "snd (Residual ?m example_data) = Inl SensorDimMismatch"
    using Residual_length_checked[OF n(1), of example_data 0 7 3 11 14
        "sensordata (fst (Residual ?m example_data))"] sens n(3)
    by blast
  have "\<exists>r. snd (Residual example_model example_data) = Inr r"
    using Residual_length_checked[OF n(2), of example_data 0 7 3 11 14
        "sensordata (fst (Residual example_model example_data))"] example_sensors n(4)
    by blast
  then have w2: "isl (snd (Residual example_model example_data)) = False" by auto
  with Residual_length_checked[OF n(2), of example_data] 
  have "length (projr (snd (Residual example_model example_data))) = 58" by blast
  with w1 w2 n(2) show ?thesis by blast
qed

lemma Residual_independent:
  "snd (Residual m (d\<lparr>mocap_pos := mp, mocap_quat := mq, contact := cs\<rparr>)) = snd (Residual m d)"
  by (simp add: Residual_def Let_def split: option.splits sum.splits)

text \<open>
  Claim C10, with the write the code makes.  The evaluator leaves the positions,
  velocities, actuator forces, marker poses and contacts of the data unchanged, and every
  sensor reading outside the four goal-orientation entries; when it completes, the
  goal-orientation entries hold the normalised goal, and when the goal was of unit norm
  already the data are unchanged altogether.  The marker poses and the contacts do not
  enter the result.  (The model is an argument only.)
\<close>

theorem Residual_frame:
  assumes "Residual m d = (d', res)"
  shows "snd (Residual m (d\<lparr>mocap_pos := mp, mocap_quat := mq, contact := cs\<rparr>)) = res \<and>
         qpos d' = qpos d \<and> qvel d' = qvel d \<and> actuator_force d' = actuator_force d \<and>
         mocap_pos d' = mocap_pos d \<and> mocap_quat d' = mocap_quat d \<and> contact d' = contact d \<and>
         length (sensordata d') = length (sensordata d) \<and>
         (\<forall>g. SensorByName m ''cube_goal_orientation'' = Some g \<longrightarrow>
            (\<forall>i < length (sensordata d). i < g \<or> g + 4 \<le> i \<longrightarrow>
                 sensordata d' ! i = sensordata d ! i) \<and>
            (g + 4 \<le> length (sensordata d) \<and> \<not> isl res \<longrightarrow>
                 read4 (sensordata d') g = mju_normalize4 (read4 (sensordata d) g)) \<and>
            (g + 4 \<le> length (sensordata d) \<and> norm4 (read4 (sensordata d) g) = 1 \<longrightarrow> d' = d))"
proof -
  have ind: "snd (Residual m (d\<lparr>mocap_pos := mp, mocap_quat := mq, contact := cs\<rparr>)) = res"
    using Residual_independent[where m = m and d = d and mp = mp and mq = mq and cs = cs] assms
    by simp
  from Residual_data[OF assms] show ?thesis
  proof
    assume "d' = d"
    moreover have "\<And>g. SensorByName m ''cube_goal_orientation'' = Some g \<Longrightarrow> \<not> isl res \<Longrightarrow>
        g + 4 \<le> length (sensordata d) \<Longrightarrow>
        read4 (sensordata d') g = mju_normalize4 (read4 (sensordata d) g)"
    proof -
      fix g assume g: "SensorByName m ''cube_goal_orientation'' = Some g" and "\<not> isl res"
        and len: "g + 4 \<le> length (sensordata d)"
      then obtain r where "res = Inr r" by (cases res) auto
      with assms have "Residual m d = (d', Inr r)" by simp
      from Residual_done_data[OF this g] show "read4 (sensordata d') g = mju_normalize4 (read4 (sensordata d) g)"
        using len by (simp add: read4_write4)
    qed
    ultimately show ?thesis using ind by auto
  next
    assume "\<exists>g. SensorByName m ''cube_goal_orientation'' = Some g \<and>
               d' = d\<lparr>sensordata :=
                        write4 (sensordata d) g (mju_normalize4 (read4 (sensordata d) g))\<rparr>"
    then obtain g where g: "SensorByName m ''cube_goal_orientation'' = Some g"
      and d': "d' = d\<lparr>sensordata :=
                        write4 (sensordata d) g (mju_normalize4 (read4 (sensordata d) g))\<rparr>"
      by blast
    have "g + 4 \<le> length (sensordata d) \<Longrightarrow> norm4 (read4 (sensordata d) g) = 1 \<Longrightarrow> d' = d"
      by (simp add: d' normalize4_unit write4_read4)
    then show ?thesis
      using g ind by (auto simp: d' length_write4 nth_write4_other read4_write4)
  qed
qed

theorem Residual_frame_witness:
  "SensorByName example_model ''cube_goal_orientation'' = Some 7 \<and>
   7 + 4 \<le> length (sensordata example_data) \<and>
   norm4 (read4 (sensordata example_data) 7) = 1 \<and>
   \<not> isl (snd (Residual example_model example_data)) \<and>
   fst (Residual example_model example_data) = example_data \<and>
   read4 (sensordata (fst (Residual example_model example_data))) 7
     = mju_normalize4 (read4 (sensordata example_data) 7)"
proof -
  have len: "7 + 4 \<le> length (sensordata example_data)"
    by (simp add: example_data_def example_sensordata_def)
  have unit: "norm4 (read4 (sensordata example_data) 7) = 1"
    by (simp add: example_data_def example_goal_read norm4_def)
  have ok: "\<not> isl (snd (Residual example_model example_data))"
    using example_Residual[of "1 / 10" 0 0] by (auto simp: example_data_at_def example_data_def)
  have "Residual example_model example_data
      = (fst (Residual example_model example_data), snd (Residual example_model example_data))"
    by simp
  from Residual_frame[OF this] example_sensors(3) len unit ok show ?thesis by blast
qed

text \<open>
  Claim C10 as the specification words it fails on data whose goal-orientation readings
  are all zero (the case lines 126--138 of the transition provide for): the evaluator
  completes and has overwritten the first goal entry, 0, with 1.
\<close>

theorem Residual_frame_counterexample:
  "\<not> isl (snd (Residual example_model example_data_zero_goal)) \<and>
   sensordata example_data_zero_goal ! 7 = 0 \<and>
   sensordata (fst (Residual example_model example_data_zero_goal)) ! 7 = 1 \<and>
   fst (Residual example_model example_data_zero_goal) \<noteq> example_data_zero_goal"
proof -
  have sd: "sensordata example_data_zero_goal
      = [1 / 10, 0, 0, 1, 0, 0, 0, 0, 0, 0, 0, 0, 0, 0, 0, 0, 0]"
    by (simp add: example_data_zero_goal_def)
  have rd: "read4 (sensordata example_data_zero_goal) 7 = (0, 0, 0, 0)"
    by (simp add: sd read4_def)
  have nz: "mju_normalize4 (0, 0, 0, 0) = (1, 0, 0, 0)"
    by (simp add: mju_normalize4_def norm4_def mjMINVAL_def)
  have dim: "\<not> user_sensor_dim example_model \<noteq> 42 + int (nu example_model)"
    by (simp add: example_model_def)
  have w: "write4 (sensordata example_data_zero_goal) 7 (1, 0, 0, 0) ! 7 = 1"
    by (simp add: sd write4_def nth_mju_copy list4_def)
  have z: "sensordata example_data_zero_goal ! 7 = 0" by (simp add: sd)
  have R: "Residual example_model example_data_zero_goal =
      (example_data_zero_goal\<lparr>sensordata :=
           write4 (sensordata example_data_zero_goal) 7 (1, 0, 0, 0)\<rparr>,
       Inr (residual_layout example_model example_data_zero_goal
              (write4 (sensordata example_data_zero_goal) 7 (1, 0, 0, 0)) 0 7 3 11 14))"
    using dim
    by (simp add: Residual_resolved[OF example_sensors(1,3,2,4,5)] rd nz)
  have "sensordata (fst (Residual example_model example_data_zero_goal)) ! 7 = 1"
    by (simp add: R w)
  moreover from this z have "fst (Residual example_model example_data_zero_goal)
      \<noteq> example_data_zero_goal" by auto
  ultimately show ?thesis using z by (simp add: R)
qed

subsection \<open>Goal sampling\<close>

lemma resample_pair_differs:
  "resample_pair old cur draws = Some p \<Longrightarrow> p \<noteq> old"
  by (induction draws arbitrary: cur) (auto simp: prod_eq_iff split: if_splits)

lemma resample_pair_from_draws:
  "resample_pair old old draws = Some p \<Longrightarrow> p \<in> set draws"
proof -
  have "resample_pair old cur draws = Some p \<Longrightarrow> p = cur \<or> p \<in> set draws" for cur
    by (induction draws arbitrary: cur) (auto split: if_splits)
  moreover assume "resample_pair old old draws = Some p"
  ultimately show ?thesis using resample_pair_differs by blast
qed

lemma resample_pair_accepts_current:
  "cur \<noteq> old \<Longrightarrow> resample_pair old cur draws = Some cur"
  by (cases draws) (auto simp: prod_eq_iff)

lemma resample_pair_terminates:
  "\<exists>p \<in> set draws. p \<noteq> old \<Longrightarrow> \<exists>p. resample_pair old cur draws = Some p"
proof (induction draws arbitrary: cur)
  case Nil
  then show ?case by simp
next
  case (Cons draw draws)
  show ?case
  proof (cases "cur = old")
    case False
    then show ?thesis using resample_pair_accepts_current by blast
  next
    case True
    show ?thesis
    proof (cases "draw = old")
      case False
      then have "resample_pair old draw draws = Some draw"
        by (rule resample_pair_accepts_current)
      with True show ?thesis by simp
    next
      case dr: True
      with Cons.prems have "\<exists>p \<in> set draws. p \<noteq> old" by auto
      from Cons.IH[OF this, of draw] True show ?thesis by simp
    qed
  qed
qed

text \<open>
  Claim C8.  Whenever the discrete (axis-aligned) sampling returns, for every sequence of
  draws, the pair \<open>(rand1_, rand2_)\<close> it stores differs from the pair stored before; the
  new pair is one of the draws.
\<close>

theorem axis_aligned_pair_differs:
  assumes "sample_axis_aligned m d L draws = Some (d', L')"
  shows "(rand1_m L', rand2_m L') \<noteq> (rand1_m L, rand2_m L) \<and>
         (rand1_m L', rand2_m L') \<in> set draws"
proof -
  from assms obtain p where p: "resample_pair (rand1_m L, rand2_m L) (rand1_m L, rand2_m L) draws = Some p"
    and L': "L' = L\<lparr>rand1_m := fst p, rand2_m := snd p\<rparr>"
    by (auto simp: sample_axis_aligned_def Let_def split: option.splits prod.splits)
  from resample_pair_differs[OF p] resample_pair_from_draws[OF p] show ?thesis
    by (simp add: L')
qed

lemma axis_aligned_terminates:
  assumes "\<exists>p \<in> set draws. p \<noteq> (rand1_m L, rand2_m L)"
  shows "\<exists>d' L'. sample_axis_aligned m d L draws = Some (d', L')"
  using resample_pair_terminates[OF assms]
  by (auto simp: sample_axis_aligned_def Let_def split: option.splits prod.splits)

theorem axis_aligned_pair_differs_witness:
  "sample_axis_aligned example_model example_data example_task [(0, 0), (2, 1)] \<noteq> None \<and>
   (rand1_m example_task, rand2_m example_task) = (0, 0) \<and>
   rand1_m (snd (the (sample_axis_aligned example_model example_data example_task
                        [(0, 0), (2, 1)]))) = 2 \<and>
   rand2_m (snd (the (sample_axis_aligned example_model example_data example_task
                        [(0, 0), (2, 1)]))) = 1"
proof -
  have old: "(rand1_m example_task, rand2_m example_task) = (0, 0)"
    by (simp add: example_task_def)
  then have "\<exists>p \<in> set [(0, 0), (2, 1)]. p \<noteq> (rand1_m example_task, rand2_m example_task)"
    by simp
  from axis_aligned_terminates[OF this] obtain d' L'
    where r: "sample_axis_aligned example_model example_data example_task [(0, 0), (2, 1)]
              = Some (d', L')"
    by blast
  from axis_aligned_pair_differs[OF r] old have "(rand1_m L', rand2_m L') = (2, 1)"
    by auto
  with r old show ?thesis by simp
qed

subsection \<open>Continuous sampling\<close>

lemma norm4_uniform_quat:
  assumes "0 \<le> a" and "a \<le> 1"
  shows "norm4 (uniform_quat a b c) = 1"
proof -
  define s1 s2 sb cb sc cc where "s1 = sqrt (1 - a)" and "s2 = sqrt a"
    and "sb = sin (2 * pi * b)" and "cb = cos (2 * pi * b)"
    and "sc = sin (2 * pi * c)" and "cc = cos (2 * pi * c)"
  have s1: "s1 * s1 = 1 - a" using assms by (simp add: s1_def)
  have s2: "s2 * s2 = a" using assms by (simp add: s2_def)
  have b1: "sb * sb + cb * cb = 1"
    using sin_cos_squared_add[of "2 * pi * b"] by (simp add: power2_eq_square sb_def cb_def)
  have c1: "sc * sc + cc * cc = 1"
    using sin_cos_squared_add[of "2 * pi * c"] by (simp add: power2_eq_square sc_def cc_def)
  have "s1 * sb * (s1 * sb) + s1 * cb * (s1 * cb) + s2 * sc * (s2 * sc) + s2 * cc * (s2 * cc)
      = (s1 * s1) * (sb * sb + cb * cb) + (s2 * s2) * (sc * sc + cc * cc)"
    by (simp add: algebra_simps)
  also have "\<dots> = 1" by (simp add: s1 s2 b1 c1)
  finally have "sqrt (s1 * sb * (s1 * sb) + s1 * cb * (s1 * cb) + s2 * sc * (s2 * sc)
      + s2 * cc * (s2 * cc)) = 1"
    by simp
  then show ?thesis
    unfolding norm4_def uniform_quat_def Let_def s1_def s2_def sb_def cb_def sc_def cc_def
    by simp
qed

lemma sample_free_accepts:
  "sample_free q_gco_conj draws = Some q_goal \<Longrightarrow>
   \<exists>(a, b, c) \<in> set draws. q_goal = uniform_quat a b c \<and> rotation_angle q_goal q_gco_conj \<ge> 90"
proof (induction draws)
  case Nil
  then show ?case by simp
next
  case (Cons draw draws)
  obtain a b c where draw: "draw = (a, b, c)" by (cases draw)
  show ?case
  proof (cases "rotation_angle (uniform_quat a b c) q_gco_conj \<ge> 90")
    case True
    with Cons.prems have "q_goal = uniform_quat a b c" by (simp add: draw Let_def)
    with True show ?thesis by (auto simp: draw)
  next
    case False
    with Cons.prems have "sample_free q_gco_conj draws = Some q_goal"
      by (simp add: draw Let_def)
    from Cons.IH[OF this] show ?thesis by auto
  qed
qed

lemma sample_free_terminates:
  "\<exists>(a, b, c) \<in> set draws. rotation_angle (uniform_quat a b c) q_gco_conj \<ge> 90 \<Longrightarrow>
   \<exists>q_goal. sample_free q_gco_conj draws = Some q_goal"
proof (induction draws)
  case Nil
  then show ?case by simp
next
  case (Cons draw draws)
  obtain a b c where draw: "draw = (a, b, c)" by (cases draw)
  show ?case
  proof (cases "rotation_angle (uniform_quat a b c) q_gco_conj \<ge> 90")
    case True
    then have "sample_free q_gco_conj (draw # draws) = Some (uniform_quat a b c)"
      by (simp add: draw Let_def)
    then show ?thesis by blast
  next
    case False
    with Cons.prems have "\<exists>(a, b, c) \<in> set draws. rotation_angle (uniform_quat a b c) q_gco_conj \<ge> 90"
      by (auto simp: draw)
    from Cons.IH[OF this] False show ?thesis by (simp add: draw Let_def)
  qed
qed

lemma change_goal_free:
  assumes "change_goal_of m 0 q_gco_conj axis_draws free_draws d L = Some (d', L')"
  shows "\<exists>q_goal. sample_free q_gco_conj free_draws = Some q_goal \<and> L' = L \<and>
           d' = d\<lparr>mocap_quat := write4 (mocap_quat d) (goal_adr m) q_goal\<rparr>"
  using assms by (auto simp: change_goal_of_def split: option.splits)

text \<open>
  Claim C7, with the separation the code tests.  Whenever the continuous (free) sampling
  returns, on uniform draws in \<open>[0, 1)\<close>, the quaternion written as the new goal is a
  unit quaternion whose angular separation from the prior goal (an all-zero prior goal
  counting as the identity) is at least 90 degrees.
\<close>

theorem free_goal_unit_and_separated:
  assumes "change_goal_of m 0 (mju_negQuat (default_goal prior)) axis_draws free_draws d L
             = Some (d', L')"
    and "\<forall>(a, b, c) \<in> set free_draws. 0 \<le> a \<and> a < 1"
    and "goal_adr m + 4 \<le> length (mocap_quat d)"
  shows "norm4 (read4 (mocap_quat d') (goal_adr m)) = 1 \<and>
         angular_separation (read4 (mocap_quat d') (goal_adr m)) (default_goal prior) \<ge> 90"
proof -
  from change_goal_free[OF assms(1)] obtain q_goal
    where s: "sample_free (mju_negQuat (default_goal prior)) free_draws = Some q_goal"
      and d': "d' = d\<lparr>mocap_quat := write4 (mocap_quat d) (goal_adr m) q_goal\<rparr>"
    by blast
  have rd: "read4 (mocap_quat d') (goal_adr m) = q_goal"
    using assms(3) by (simp add: d' read4_write4)
  from sample_free_accepts[OF s] obtain a b c
    where mem: "(a, b, c) \<in> set free_draws" and q: "q_goal = uniform_quat a b c"
      and ang: "rotation_angle q_goal (mju_negQuat (default_goal prior)) \<ge> 90"
    by auto
  from assms(2) mem have "0 \<le> a" "a \<le> 1" by auto
  then have "norm4 q_goal = 1" unfolding q by (rule norm4_uniform_quat)
  with ang show ?thesis by (simp add: rd angular_separation_def)
qed

lemma sqrt_half: "sqrt (1 / 2) = sqrt 2 / 2"
proof -
  have "sqrt (1 / 2) = 1 / sqrt 2" by (simp add: real_sqrt_divide)
  also have "\<dots> = sqrt 2 / 2" by (simp add: real_div_sqrt field_simps)
  finally show ?thesis .
qed

lemma example_uniform_quat:
  "uniform_quat (1 / 2) (1 / 4) (3 / 4) = (sqrt 2 / 2, 0, - (sqrt 2 / 2), 0)"
proof -
  have a: "2 * pi * (1 / 4) = pi / 2" by simp
  have b: "2 * pi * (3 / 4) = 3 / 2 * pi" by simp
  have c: "sqrt (1 - 1 / 2) = sqrt 2 / 2" using sqrt_half by simp
  have s3: "sin (3 * pi / 2) = - 1" using sin_3over2_pi by simp
  have c3: "cos (3 * pi / 2) = 0" using cos_3over2_pi by simp
  show ?thesis
    unfolding uniform_quat_def Let_def a b c sqrt_half
    by (simp add: s3 c3)
qed

lemma example_default_goal: "default_goal example_prior_goal = example_prior_goal"
  by (simp add: default_goal_def example_prior_goal_def)

lemma example_angle_to_prior:
  "rotation_angle (sqrt 2 / 2, 0, - (sqrt 2 / 2), 0) (mju_negQuat example_prior_goal) = 180"
proof -
  have m: "mju_mulQuat (sqrt 2 / 2, 0, - (sqrt 2 / 2), 0) (mju_negQuat example_prior_goal)
      = (0, 0, - 1, 0)"
    by (simp add: mju_mulQuat_def mju_negQuat_def example_prior_goal_def)
  have n: "mju_normalize4 (0, 0, - 1, 0) = (0, 0, - 1, 0)"
    by (simp add: mju_normalize4_def norm4_def mjMINVAL_def)
  show ?thesis
    unfolding rotation_angle_def Let_def m n
    by (simp add: flip_sign_def)
qed

lemma example_angle_to_inverse:
  "rotation_angle (sqrt 2 / 2, 0, - (sqrt 2 / 2), 0) (mju_negQuat (mju_negQuat example_prior_goal)) = 0"
proof -
  have m: "mju_mulQuat (sqrt 2 / 2, 0, - (sqrt 2 / 2), 0)
             (mju_negQuat (mju_negQuat example_prior_goal)) = (1, 0, 0, 0)"
    by (simp add: mju_mulQuat_def mju_negQuat_def example_prior_goal_def)
  show ?thesis
    unfolding rotation_angle_def Let_def m normalize4_identity
    by (simp add: flip_sign_def)
qed

lemma example_goal_adr: "goal_adr example_model = 0"
  by (simp add: goal_adr_def example_model_def example_name2id_def idx_def)

lemma example_change_goal:
  "change_goal_of example_model 0 (mju_negQuat (default_goal example_prior_goal)) []
       example_free_draws example_data example_task
     = Some (example_data\<lparr>mocap_quat :=
               write4 (mocap_quat example_data) 0 (sqrt 2 / 2, 0, - (sqrt 2 / 2), 0)\<rparr>,
             example_task)"
  by (simp add: change_goal_of_def example_free_draws_def example_default_goal
      example_uniform_quat example_angle_to_prior example_goal_adr)

lemma example_written_goal:
  "read4 (mocap_quat (fst (the (change_goal_of example_model 0
       (mju_negQuat (default_goal example_prior_goal)) [] example_free_draws example_data
       example_task)))) (goal_adr example_model) = (sqrt 2 / 2, 0, - (sqrt 2 / 2), 0)"
proof -
  have "0 + 4 \<le> length (mocap_quat example_data)" by (simp add: example_data_def)
  then show ?thesis
    by (simp add: example_change_goal example_goal_adr read4_write4)
qed

theorem free_goal_unit_and_separated_witness:
  "change_goal_of example_model 0 (mju_negQuat (default_goal example_prior_goal)) []
       example_free_draws example_data example_task \<noteq> None \<and>
   norm4 (read4 (mocap_quat (fst (the (change_goal_of example_model 0
       (mju_negQuat (default_goal example_prior_goal)) [] example_free_draws example_data
       example_task)))) (goal_adr example_model)) = 1 \<and>
   angular_separation (read4 (mocap_quat (fst (the (change_goal_of example_model 0
       (mju_negQuat (default_goal example_prior_goal)) [] example_free_draws example_data
       example_task)))) (goal_adr example_model)) (default_goal example_prior_goal) \<ge> 90"
proof -
  have r: "\<forall>(a, b, c) \<in> set example_free_draws. 0 \<le> a \<and> a < 1"
    by (simp add: example_free_draws_def)
  have l: "goal_adr example_model + 4 \<le> length (mocap_quat example_data)"
    by (simp add: example_goal_adr example_data_def)
  from free_goal_unit_and_separated[OF example_change_goal r l] show ?thesis
    by (simp add: example_change_goal)
qed

text \<open>
  Claim C7 as the specification words it measures the separation from the prior goal's
  effective inverse, the conjugate \<open>q_gco_conj\<close>.  It fails for the prior goal of a
  quarter turn about the y axis and the draws \<open>(1/2, 1/4, 3/4)\<close>: the sampled goal is
  accepted, being 180 degrees from the prior goal, and it is the prior goal's inverse
  itself, at separation 0.
\<close>

theorem free_goal_inverse_counterexample:
  "change_goal_of example_model 0 (mju_negQuat (default_goal example_prior_goal)) []
       example_free_draws example_data example_task \<noteq> None \<and>
   angular_separation (read4 (mocap_quat (fst (the (change_goal_of example_model 0
       (mju_negQuat (default_goal example_prior_goal)) [] example_free_draws example_data
       example_task)))) (goal_adr example_model))
     (mju_negQuat (default_goal example_prior_goal)) < 90"
proof -
  have "change_goal_of example_model 0 (mju_negQuat (default_goal example_prior_goal)) []
       example_free_draws example_data example_task \<noteq> None"
    by (simp add: example_change_goal)
  moreover have "angular_separation (sqrt 2 / 2, 0, - (sqrt 2 / 2), 0)
      (mju_negQuat (default_goal example_prior_goal)) = 0"
    by (simp add: angular_separation_def example_default_goal example_angle_to_inverse)
  ultimately show ?thesis
    unfolding example_written_goal by simp
qed

subsection \<open>The transition\<close>

lemma wrap_int_id: "- 2147483648 \<le> i \<Longrightarrow> i < 2147483648 \<Longrightarrow> wrap_int i = i"
  by (simp add: wrap_int_def)

lemma check_rotation_below:
  assumes "angle < thresh"
    and "- 2147483648 \<le> rotation_count_m L" and "rotation_count_m L < 2147483647"
  shows "check_rotation angle thresh L =
     (True, L\<lparr>rotation_count_m := rotation_count_m L + 1,
              best_rotation_count_m := max (best_rotation_count_m L) (rotation_count_m L + 1)\<rparr>)"
proof -
  have "wrap_int (rotation_count_m L + 1) = rotation_count_m L + 1"
    using assms(2,3) by (intro wrap_int_id) simp_all
  then show ?thesis
    using assms(1) by (simp add: check_rotation_def Let_def max_def)
qed

lemma check_rotation_not_below:
  "\<not> angle < thresh \<Longrightarrow> check_rotation angle thresh L = (False, L)"
  by (simp add: check_rotation_def)

lemma reset_counters_reset:
  "on_floor \<or> now2 c - time_of_last_rotation_m L > 80 \<Longrightarrow>
   reset_counters c on_floor change_goal L =
     (True, L\<lparr>time_since_last_reset_m := now1 c - time_of_last_reset_m L,
              time_since_last_rotation_m := now2 c - time_of_last_rotation_m L,
              time_of_last_reset_m := now3 c,
              rotation_count_m := 0\<rparr>)"
  by (auto simp: reset_counters_def Let_def)

lemma reset_counters_keep:
  "\<not> (on_floor \<or> now2 c - time_of_last_rotation_m L > 80) \<Longrightarrow>
   reset_counters c on_floor change_goal L =
     (change_goal, L\<lparr>time_since_last_reset_m := now1 c - time_of_last_reset_m L,
                     time_since_last_rotation_m := now2 c - time_of_last_rotation_m L\<rparr>)"
  by (auto simp: reset_counters_def Let_def)

lemma change_goal_of_frame:
  assumes "change_goal_of m aag q_gco_conj axis_draws free_draws d L = Some (d', L')"
  shows "qpos d' = qpos d \<and> qvel d' = qvel d \<and> sensordata d' = sensordata d \<and>
         contact d' = contact d \<and>
         rotation_count_m L' = rotation_count_m L \<and>
         best_rotation_count_m L' = best_rotation_count_m L \<and>
         time_of_last_reset_m L' = time_of_last_reset_m L \<and>
         time_of_last_rotation_m L' = time_of_last_rotation_m L \<and>
         time_since_last_reset_m L' = time_since_last_reset_m L \<and>
         time_since_last_rotation_m L' = time_since_last_rotation_m L"
  using assms
  by (auto simp: change_goal_of_def sample_axis_aligned_def Let_def
      split: if_splits option.splits prod.splits)

lemma on_floor_of_sensordata [simp]:
  "on_floor_of m (d\<lparr>sensordata := sd\<rparr>) = on_floor_of m d"
  by (simp add: on_floor_of_def)

text \<open>The steps of a call that returns.\<close>

lemma transition_update_Inr:
  assumes "transition_update c axis_draws free_draws m d L = Inr (d', L', on_floor, change_goal)"
  obtains g co d1 d2 angle aag cg1 L1 L2 where
    "SensorByName m ''cube_goal_orientation'' = Some g"
    "SensorByName m ''cube_orientation'' = Some co"
    "d1 = d\<lparr>sensordata := write4 (sensordata d) g (default_goal (read4 (sensordata d) g))\<rparr>"
    "angle = rotation_angle (read4 (sensordata d1) co) (mju_negQuat (read4 (sensordata d1) g))"
    "aag = trunc_int (GetNumberOrDefault 1 m ''axis_aligned_goal'')"
    "check_rotation angle (angle_thresh aag) L = (cg1, L1)"
    "on_floor = on_floor_of m d"
    "d2 = (if on_floor then reset_cube m d1 else d1)"
    "reset_counters c on_floor cg1 L1 = (change_goal, L2)"
    "change_goal \<longrightarrow>
       change_goal_of m aag (mju_negQuat (read4 (sensordata d1) g)) axis_draws free_draws d2
         (L2\<lparr>time_of_last_rotation_m := now4 c\<rparr>) = Some (d', L')"
    "\<not> change_goal \<longrightarrow> d' = d2 \<and> L' = L2"
  using assms
  unfolding transition_update_def Let_def
  by (auto split: option.splits prod.splits if_splits)

lemma contact_scan_iff:
  "contact_scan cube floor_id cs \<longleftrightarrow>
     (\<exists>(geom1, geom2) \<in> set cs.
        (geom1 = cube \<and> geom2 = floor_id) \<or> (geom2 = cube \<and> geom1 = floor_id))"
  by (induction cube floor_id cs rule: contact_scan.induct) auto

subsection \<open>The angle the code computes is the angular error of the specification\<close>

lemma quat_product_mulQuat: "quat_product p (quat_conj q) = mju_mulQuat p (mju_negQuat q)"
  by (cases p; cases q)
     (simp add: quat_product_def quat_conj_def mju_mulQuat_def mju_negQuat_def Let_def
        algebra_simps)

lemma quat_length_norm4: "quat_length q = norm4 q"
  by (cases q) (simp add: quat_length_def norm4_def power2_eq_square)

lemma rotation_angle_angular_error:
  assumes "mjMINVAL \<le> quat_length (quat_product p (quat_conj q))"
  shows "rotation_angle p (mju_negQuat q) = angular_error p q"
proof -
  obtain w x y z where d: "mju_mulQuat p (mju_negQuat q) = (w, x, y, z)"
    by (cases "mju_mulQuat p (mju_negQuat q)")
  have n: "\<not> norm4 (w, x, y, z) < mjMINVAL"
    using assms by (simp add: quat_product_mulQuat d quat_length_norm4)
  show ?thesis
    using n
    by (simp add: rotation_angle_def angular_error_def quat_product_mulQuat d quat_length_norm4
        mju_normalize4_def flip_sign_def Let_def)
qed

text \<open>
  Claim C2.  On a transition call that returns, let \<open>cube\<close> and \<open>goal\<close> be the
  orientation readings the call works with (an all-zero goal replaced by the identity),
  their quaternion difference not numerically zero, and let \<open>rotation_count\<close> be an
  \<^verbatim>\<open>int\<close> below \<^verbatim>\<open>INT_MAX\<close>.  The call decides on the angular error of the
  specification: the quaternion difference \<open>cube * conj goal\<close>, normalised, its sign
  flipped when the scalar part is negative, \<open>2 * acos scalar * 180 / pi\<close> degrees.
  When that angle is strictly below the threshold (11.4592 in axis-aligned mode, 22.9183
  otherwise), the success check increments \<open>rotation_count\<close> by one and makes
  \<open>best_rotation_count\<close> the maximum of itself and the new count, and a goal change is
  requested; at the end of the call the best count is that maximum, and the rotation
  count is the incremented one unless the same call also detects a drop or a timeout,
  which resets it to 0.  When the angle is not below the threshold, nothing is counted:
  the best count is unchanged, the rotation count is unchanged (or reset by a drop or a
  timeout), and a goal change is requested only by a drop or a timeout.
\<close>

theorem rotation_counted_on_success:
  assumes run: "transition_update c axis_draws free_draws m d L
                  = Inr (d', L', on_floor, change_goal)"
    and g: "SensorByName m ''cube_goal_orientation'' = Some g"
    and co: "SensorByName m ''cube_orientation'' = Some co"
    and sd1: "sd1 = write4 (sensordata d) g (default_goal (read4 (sensordata d) g))"
    and cube: "cube = read4 sd1 co"
    and goal: "goal = read4 sd1 g"
    and nondeg: "mjMINVAL \<le> quat_length (quat_product cube (quat_conj goal))"
    and thresh: "thresh = (if trunc_int (GetNumberOrDefault 1 m ''axis_aligned_goal'') \<noteq> 0
                           then 11.4592 else 22.9183)"
    and lo: "- 2147483648 \<le> rotation_count_m L"
    and hi: "rotation_count_m L < 2147483647"
    and reset: "reset = (on_floor \<or> now2 c - time_of_last_rotation_m L > 80)"
  shows "(angular_error cube goal < thresh \<longrightarrow>
            check_rotation (angular_error cube goal) thresh L =
              (True, L\<lparr>rotation_count_m := rotation_count_m L + 1,
                       best_rotation_count_m :=
                         max (best_rotation_count_m L) (rotation_count_m L + 1)\<rparr>) \<and>
            change_goal \<and>
            best_rotation_count_m L' = max (best_rotation_count_m L) (rotation_count_m L + 1) \<and>
            rotation_count_m L' = (if reset then 0 else rotation_count_m L + 1)) \<and>
         (\<not> angular_error cube goal < thresh \<longrightarrow>
            check_rotation (angular_error cube goal) thresh L = (False, L) \<and>
            (change_goal \<longleftrightarrow> reset) \<and>
            best_rotation_count_m L' = best_rotation_count_m L \<and>
            rotation_count_m L' = (if reset then 0 else rotation_count_m L))"
proof -
  let ?L1 = "L\<lparr>rotation_count_m := rotation_count_m L + 1,
                best_rotation_count_m :=
                  max (best_rotation_count_m L) (rotation_count_m L + 1)\<rparr>"
  let ?e = "angular_error cube goal"
  obtain g' co' d1 d2 angle' aag cg1 L1 L2 where st:
    "SensorByName m ''cube_goal_orientation'' = Some g'"
    "SensorByName m ''cube_orientation'' = Some co'"
    "d1 = d\<lparr>sensordata := write4 (sensordata d) g' (default_goal (read4 (sensordata d) g'))\<rparr>"
    "angle' = rotation_angle (read4 (sensordata d1) co') (mju_negQuat (read4 (sensordata d1) g'))"
    "aag = trunc_int (GetNumberOrDefault 1 m ''axis_aligned_goal'')"
    "check_rotation angle' (angle_thresh aag) L = (cg1, L1)"
    "on_floor = on_floor_of m d"
    "d2 = (if on_floor then reset_cube m d1 else d1)"
    "reset_counters c on_floor cg1 L1 = (change_goal, L2)"
    "change_goal \<longrightarrow>
       change_goal_of m aag (mju_negQuat (read4 (sensordata d1) g')) axis_draws free_draws d2
         (L2\<lparr>time_of_last_rotation_m := now4 c\<rparr>) = Some (d', L')"
    "\<not> change_goal \<longrightarrow> d' = d2 \<and> L' = L2"
    by (rule transition_update_Inr[OF run]) (rule that; assumption)
  from st(1,2) g co have gg: "g' = g" "co' = co" by simp_all
  have "angle' = rotation_angle cube (mju_negQuat goal)"
    by (simp add: st(4) st(3) gg cube goal sd1)
  also have "\<dots> = ?e"
    using nondeg by (rule rotation_angle_angular_error)
  finally have a: "angle' = ?e" .
  have t: "angle_thresh aag = thresh"
    by (simp add: angle_thresh_def st(5) thresh)
  have final: "rotation_count_m L' = rotation_count_m L2"
    "best_rotation_count_m L' = best_rotation_count_m L2"
  proof -
    show "rotation_count_m L' = rotation_count_m L2"
      using st(10,11) change_goal_of_frame by (cases change_goal) fastforce+
    show "best_rotation_count_m L' = best_rotation_count_m L2"
      using st(10,11) change_goal_of_frame by (cases change_goal) fastforce+
  qed
  have below: "change_goal \<and>
      best_rotation_count_m L' = max (best_rotation_count_m L) (rotation_count_m L + 1) \<and>
      rotation_count_m L' = (if reset then 0 else rotation_count_m L + 1) \<and>
      check_rotation ?e thresh L = (True, ?L1)"
    if b: "?e < thresh"
  proof -
    have chk: "check_rotation ?e thresh L = (True, ?L1)"
      using b lo hi by (rule check_rotation_below)
    from st(6) chk have c1: "cg1 = True" "L1 = ?L1" by (simp_all add: a t)
    show ?thesis
    proof (cases reset)
      case True
      then have "on_floor \<or> now2 c - time_of_last_rotation_m ?L1 > 80" by (simp add: reset)
      from reset_counters_reset[OF this, of cg1] st(9)
      have "change_goal" "rotation_count_m L2 = 0"
        "best_rotation_count_m L2 = max (best_rotation_count_m L) (rotation_count_m L + 1)"
        by (auto simp: c1)
      with final chk True show ?thesis by simp
    next
      case False
      then have "\<not> (on_floor \<or> now2 c - time_of_last_rotation_m ?L1 > 80)"
        by (simp add: reset)
      from reset_counters_keep[OF this, of cg1] st(9)
      have "change_goal" "rotation_count_m L2 = rotation_count_m L + 1"
        "best_rotation_count_m L2 = max (best_rotation_count_m L) (rotation_count_m L + 1)"
        by (auto simp: c1)
      with final chk False show ?thesis by simp
    qed
  qed
  have not_below: "check_rotation ?e thresh L = (False, L) \<and>
      (change_goal \<longleftrightarrow> reset) \<and>
      best_rotation_count_m L' = best_rotation_count_m L \<and>
      rotation_count_m L' = (if reset then 0 else rotation_count_m L)"
    if nb: "\<not> ?e < thresh"
  proof -
    have chk: "check_rotation ?e thresh L = (False, L)"
      using nb by (rule check_rotation_not_below)
    from st(6) chk have c1: "cg1 = False" "L1 = L" by (simp_all add: a t)
    show ?thesis
    proof (cases reset)
      case True
      then have "on_floor \<or> now2 c - time_of_last_rotation_m L > 80" by (simp add: reset)
      from reset_counters_reset[OF this, of cg1] st(9)
      have "change_goal" "rotation_count_m L2 = 0"
        "best_rotation_count_m L2 = best_rotation_count_m L"
        by (auto simp: c1)
      with final chk True show ?thesis by simp
    next
      case False
      then have "\<not> (on_floor \<or> now2 c - time_of_last_rotation_m L > 80)"
        by (simp add: reset)
      from reset_counters_keep[OF this, of cg1] st(9)
      have "\<not> change_goal" "rotation_count_m L2 = rotation_count_m L"
        "best_rotation_count_m L2 = best_rotation_count_m L"
        by (auto simp: c1)
      with final chk False show ?thesis by simp
    qed
  qed
  from below not_below show ?thesis by blast
qed

lemma transition_update_cube:
  assumes run: "transition_update c axis_draws free_draws m d L
                  = Inr (d', L', on_floor, change_goal)"
  shows "on_floor = on_floor_of m d"
    and "qpos d' = (if on_floor \<and> name2id m mjOBJ_BODY ''cube'' \<noteq> - 1
                    then mju_copy (qpos d)
                           (nat (idx (jnt_qposadr m)
                                   (idx (body_jntadr m) (name2id m mjOBJ_BODY ''cube''))))
                           (key_qpos m)
                           (nat (idx (jnt_qposadr m)
                                   (idx (body_jntadr m) (name2id m mjOBJ_BODY ''cube'')))) 7
                    else qpos d)"
    and "qvel d' = (if on_floor \<and> name2id m mjOBJ_BODY ''cube'' \<noteq> - 1
                    then mju_zero (qvel d)
                           (nat (idx (jnt_dofadr m)
                                   (idx (body_jntadr m) (name2id m mjOBJ_BODY ''cube'')))) 6
                    else qvel d)"
proof -
  obtain g co d1 d2 angle aag cg1 L1 L2 where st:
    "SensorByName m ''cube_goal_orientation'' = Some g"
    "SensorByName m ''cube_orientation'' = Some co"
    "d1 = d\<lparr>sensordata := write4 (sensordata d) g (default_goal (read4 (sensordata d) g))\<rparr>"
    "angle = rotation_angle (read4 (sensordata d1) co) (mju_negQuat (read4 (sensordata d1) g))"
    "aag = trunc_int (GetNumberOrDefault 1 m ''axis_aligned_goal'')"
    "check_rotation angle (angle_thresh aag) L = (cg1, L1)"
    "on_floor = on_floor_of m d"
    "d2 = (if on_floor then reset_cube m d1 else d1)"
    "reset_counters c on_floor cg1 L1 = (change_goal, L2)"
    "change_goal \<longrightarrow>
       change_goal_of m aag (mju_negQuat (read4 (sensordata d1) g)) axis_draws free_draws d2
         (L2\<lparr>time_of_last_rotation_m := now4 c\<rparr>) = Some (d', L')"
    "\<not> change_goal \<longrightarrow> d' = d2 \<and> L' = L2"
    by (rule transition_update_Inr[OF run]) (rule that; assumption)
  show "on_floor = on_floor_of m d" by (rule st(7))
  have q: "qpos d' = qpos d2 \<and> qvel d' = qvel d2"
    using st(10,11) change_goal_of_frame by (cases change_goal) blast+
  then show "qpos d' = (if on_floor \<and> name2id m mjOBJ_BODY ''cube'' \<noteq> - 1
                    then mju_copy (qpos d)
                           (nat (idx (jnt_qposadr m)
                                   (idx (body_jntadr m) (name2id m mjOBJ_BODY ''cube''))))
                           (key_qpos m)
                           (nat (idx (jnt_qposadr m)
                                   (idx (body_jntadr m) (name2id m mjOBJ_BODY ''cube'')))) 7
                    else qpos d)"
    by (simp add: st(8) st(3) reset_cube_def Let_def)
  from q show "qvel d' = (if on_floor \<and> name2id m mjOBJ_BODY ''cube'' \<noteq> - 1
                    then mju_zero (qvel d)
                           (nat (idx (jnt_dofadr m)
                                   (idx (body_jntadr m) (name2id m mjOBJ_BODY ''cube'')))) 6
                    else qvel d)"
    by (simp add: st(8) st(3) reset_cube_def Let_def)
qed

text \<open>
  What lines 167--227 do on a call that returns.  \<open>on_floor\<close> holds iff the contact list
  pairs the cube and the floor geometries.  On a drop or on a timeout (more than 80
  seconds since the last rotation) \<open>rotation_count\<close> is reset to 0, the last-reset
  timestamp is updated and a goal change is forced (which updates the last-rotation
  timestamp).  The cube's seven free-joint coordinates are reset to the reference keyframe
  and its six velocities are zeroed on a drop, provided the cube body resolves; on a drop
  with an unresolved cube body, and on a call without a drop, positions and velocities
  are left as they are.
\<close>

lemma reset_block_effects:
  assumes run: "transition_update c axis_draws free_draws m d L
                  = Inr (d', L', on_floor, change_goal)"
    and cube: "cube = name2id m mjOBJ_GEOM ''cube''"
    and floor_id: "floor_id = name2id m mjOBJ_GEOM ''floor''"
    and cube_body: "cube_body = name2id m mjOBJ_BODY ''cube''"
    and qadr: "qadr = nat (idx (jnt_qposadr m) (idx (body_jntadr m) cube_body))"
    and vadr: "vadr = nat (idx (jnt_dofadr m) (idx (body_jntadr m) cube_body))"
  shows "(on_floor \<longleftrightarrow>
            (\<exists>(geom1, geom2) \<in> set (contact d).
               (geom1 = cube \<and> geom2 = floor_id) \<or> (geom2 = cube \<and> geom1 = floor_id))) \<and>
         (on_floor \<or> now2 c - time_of_last_rotation_m L > 80 \<longrightarrow>
            rotation_count_m L' = 0 \<and> time_of_last_reset_m L' = now3 c \<and> change_goal \<and>
            time_of_last_rotation_m L' = now4 c) \<and>
         length (qpos d') = length (qpos d) \<and> length (qvel d') = length (qvel d) \<and>
         (on_floor \<and> cube_body \<noteq> - 1 \<longrightarrow>
            (\<forall>i < length (qpos d).
               qpos d' ! i = (if qadr \<le> i \<and> i < qadr + 7 then key_qpos m ! i else qpos d ! i)) \<and>
            (\<forall>i < length (qvel d).
               qvel d' ! i = (if vadr \<le> i \<and> i < vadr + 6 then 0 else qvel d ! i))) \<and>
         (\<not> on_floor \<or> cube_body = - 1 \<longrightarrow> qpos d' = qpos d \<and> qvel d' = qvel d)"
proof -
  obtain g co d1 d2 angle aag cg1 L1 L2 where st:
    "SensorByName m ''cube_goal_orientation'' = Some g"
    "SensorByName m ''cube_orientation'' = Some co"
    "d1 = d\<lparr>sensordata := write4 (sensordata d) g (default_goal (read4 (sensordata d) g))\<rparr>"
    "angle = rotation_angle (read4 (sensordata d1) co) (mju_negQuat (read4 (sensordata d1) g))"
    "aag = trunc_int (GetNumberOrDefault 1 m ''axis_aligned_goal'')"
    "check_rotation angle (angle_thresh aag) L = (cg1, L1)"
    "on_floor = on_floor_of m d"
    "d2 = (if on_floor then reset_cube m d1 else d1)"
    "reset_counters c on_floor cg1 L1 = (change_goal, L2)"
    "change_goal \<longrightarrow>
       change_goal_of m aag (mju_negQuat (read4 (sensordata d1) g)) axis_draws free_draws d2
         (L2\<lparr>time_of_last_rotation_m := now4 c\<rparr>) = Some (d', L')"
    "\<not> change_goal \<longrightarrow> d' = d2 \<and> L' = L2"
    by (rule transition_update_Inr[OF run]) (rule that; assumption)
  have tlr: "time_of_last_rotation_m L1 = time_of_last_rotation_m L"
    using st(6) by (auto simp: check_rotation_def Let_def split: if_splits)
  have fl: "on_floor \<longleftrightarrow>
            (\<exists>(geom1, geom2) \<in> set (contact d).
               (geom1 = cube \<and> geom2 = floor_id) \<or> (geom2 = cube \<and> geom1 = floor_id))"
    by (simp add: st(7) on_floor_of_def Let_def contact_scan_iff cube floor_id)
  have q2: "qpos d' = (if on_floor \<and> cube_body \<noteq> - 1
                       then mju_copy (qpos d) qadr (key_qpos m) qadr 7 else qpos d)"
    "qvel d' = (if on_floor \<and> cube_body \<noteq> - 1 then mju_zero (qvel d) vadr 6 else qvel d)"
    using transition_update_cube(2,3)[OF run] by (simp_all add: cube_body qadr vadr)
  have reset: "on_floor \<or> now2 c - time_of_last_rotation_m L > 80 \<Longrightarrow>
      rotation_count_m L' = 0 \<and> time_of_last_reset_m L' = now3 c \<and> change_goal \<and>
      time_of_last_rotation_m L' = now4 c"
  proof -
    assume "on_floor \<or> now2 c - time_of_last_rotation_m L > 80"
    then have "on_floor \<or> now2 c - time_of_last_rotation_m L1 > 80" by (simp add: tlr)
    from reset_counters_reset[OF this, of cg1] st(9)
    have cg: "change_goal" and L2: "rotation_count_m L2 = 0" "time_of_last_reset_m L2 = now3 c"
      by auto
    from change_goal_of_frame[OF st(10)[rule_format, OF cg]] L2 cg show ?thesis by simp
  qed
  show ?thesis
    using fl reset q2
    by (auto simp: length_mju_copy length_mju_zero nth_mju_copy nth_mju_zero)
qed

subsection \<open>The whole transition call\<close>

text \<open>The lines after the physics re-evaluation leave the counters, the timestamps and
  the stored index pair of the task object as \<open>transition_update\<close> returned them.\<close>

lemma TransitionLocked_counters:
  assumes "TransitionLocked mj_forward c axis_draws free_draws m d L = Inr (d'', L'')"
  shows "\<exists>d' L' on_floor change_goal.
           transition_update c axis_draws free_draws m d L = Inr (d', L', on_floor, change_goal) \<and>
           rotation_count_m L'' = rotation_count_m L' \<and>
           best_rotation_count_m L'' = best_rotation_count_m L' \<and>
           time_of_last_reset_m L'' = time_of_last_reset_m L' \<and>
           time_of_last_rotation_m L'' = time_of_last_rotation_m L' \<and>
           rand1_m L'' = rand1_m L' \<and> rand2_m L'' = rand2_m L'"
  using assms
  by (auto simp: TransitionLocked_def Let_def split: sum.splits option.splits prod.splits)

subsection \<open>Concrete calls\<close>

lemma example_aag: "trunc_int (GetNumberOrDefault 1 example_model ''axis_aligned_goal'') = 1"
  by (simp add: GetNumberOrDefault_def example_model_def trunc_int_def)

lemma example_angle_half_turn: "rotation_angle (0, 1, 0, 0) (mju_negQuat (1, 0, 0, 0)) = 180"
proof -
  have m: "mju_mulQuat (0, 1, 0, 0) (mju_negQuat (1, 0, 0, 0)) = (0, 1, 0, 0)"
    by (simp add: mju_mulQuat_def mju_negQuat_def)
  have n: "mju_normalize4 (0, 1, 0, 0) = (0, 1, 0, 0)"
    by (simp add: mju_normalize4_def norm4_def mjMINVAL_def)
  show ?thesis
    unfolding rotation_angle_def Let_def m n
    by (simp add: flip_sign_def)
qed

lemma default_goal_identity: "default_goal (1, 0, 0, 0) = (1, 0, 0, 0)"
  by (simp add: default_goal_def)

lemma example_far_reads:
  "read4 [1 / 10, 0, 0, 0, 1, 0, 0, 1, 0, 0, 0, 0, 0, 0, 0, 0, 0] 7 = (1, 0, 0, 0)"
  "read4 [1 / 10, 0, 0, 0, 1, 0, 0, 1, 0, 0, 0, 0, 0, 0, 0, 0, 0] 3 = (0, 1, 0, 0)"
  "write4 [1 / 10, 0, 0, 0, 1, 0, 0, 1, 0, 0, 0, 0, 0, 0, 0, 0, 0] 7 (1, 0, 0, 0)
     = [1 / 10, 0, 0, 0, 1, 0, 0, 1, 0, 0, 0, 0, 0, 0, 0, 0, 0]"
  by (simp_all add: read4_def write4_def mju_copy_def list4_def upt_rec nth_Cons')

lemma change_goal_axis_terminates:
  assumes "aag \<noteq> 0" and "\<exists>p \<in> set axis_draws. p \<noteq> (rand1_m L, rand2_m L)"
  shows "\<exists>d' L'. change_goal_of m aag q_gco_conj axis_draws free_draws d L = Some (d', L')"
  using axis_aligned_terminates[OF assms(2)] assms(1) by (simp add: change_goal_of_def)

text \<open>Two calls with the cube half a turn away: a drop, and a timeout without contact.\<close>

lemma example_far_check:
  "check_rotation 180 (angle_thresh 1) example_task_3 = (False, example_task_3)"
  by (simp add: check_rotation_def angle_thresh_def)

lemma example_far_sensordata:
  "sensordata example_data_far = [1 / 10, 0, 0, 0, 1, 0, 0, 1, 0, 0, 0, 0, 0, 0, 0, 0, 0]"
  "sensordata example_data_drop = [1 / 10, 0, 0, 0, 1, 0, 0, 1, 0, 0, 0, 0, 0, 0, 0, 0, 0]"
  by (simp_all add: example_data_far_def example_data_drop_def)

lemma example_far_d1:
  "example_data_far\<lparr>sensordata := [1 / 10, 0, 0, 0, 1, 0, 0, 1, 0, 0, 0, 0, 0, 0, 0, 0, 0]\<rparr>
     = example_data_far"
  "example_data_drop\<lparr>sensordata := [1 / 10, 0, 0, 0, 1, 0, 0, 1, 0, 0, 0, 0, 0, 0, 0, 0, 0]\<rparr>
     = example_data_drop"
  by (simp_all add: example_data_far_def example_data_drop_def)

lemma example_call_drop: "\<exists>d' L'. example_run_drop = Inr (d', L', True, True)"
proof -
  let ?L2 = "example_task_3\<lparr>time_since_last_reset_m := 10, time_since_last_rotation_m := 10,
      time_of_last_reset_m := 10, rotation_count_m := 0, time_of_last_rotation_m := 10\<rparr>"
  have fl: "on_floor_of example_model example_data_drop = True"
    by (simp add: on_floor_of_def example_model_def example_name2id_def example_data_drop_def)
  have rc: "reset_counters example_clock True False example_task_3
      = (True, example_task_3\<lparr>time_since_last_reset_m := 10, time_since_last_rotation_m := 10,
            time_of_last_reset_m := 10, rotation_count_m := 0\<rparr>)"
    by (simp add: reset_counters_def Let_def example_clock_def example_task_def
        example_task_3_def)
  have "\<exists>p \<in> set [(2, 1)]. p \<noteq> (rand1_m ?L2, rand2_m ?L2)"
    by (simp add: example_task_def example_task_3_def)
  from change_goal_axis_terminates[OF _ this, of 1 example_model "mju_negQuat (1, 0, 0, 0)" "[]"
      "reset_cube example_model example_data_drop"]
  obtain d' L' where cg: "change_goal_of example_model 1 (mju_negQuat (1, 0, 0, 0)) [(2, 1)] []
      (reset_cube example_model example_data_drop) ?L2 = Some (d', L')"
    by auto
  have "example_run_drop = Inr (d', L', True, True)"
    unfolding example_run_drop_def transition_update_def example_sensors option.case Let_def
      example_far_sensordata example_far_reads default_goal_identity example_far_d1
      example_angle_half_turn example_aag example_far_check prod.case fl rc
    using cg by (simp add: example_clock_def)
  then show ?thesis by blast
qed

lemma example_call_timeout: "\<exists>d' L'. example_run_timeout = Inr (d', L', False, True)"
proof -
  let ?L2 = "example_task_3\<lparr>time_since_last_reset_m := 100, time_since_last_rotation_m := 100,
      time_of_last_reset_m := 100, rotation_count_m := 0, time_of_last_rotation_m := 100\<rparr>"
  have fl: "on_floor_of example_model example_data_far = False"
    by (simp add: on_floor_of_def example_data_far_def example_data_def)
  have rc: "reset_counters example_clock_late False False example_task_3
      = (True, example_task_3\<lparr>time_since_last_reset_m := 100, time_since_last_rotation_m := 100,
            time_of_last_reset_m := 100, rotation_count_m := 0\<rparr>)"
    by (simp add: reset_counters_def Let_def example_clock_late_def example_task_def
        example_task_3_def)
  have "\<exists>p \<in> set [(2, 1)]. p \<noteq> (rand1_m ?L2, rand2_m ?L2)"
    by (simp add: example_task_def example_task_3_def)
  from change_goal_axis_terminates[OF _ this, of 1 example_model "mju_negQuat (1, 0, 0, 0)" "[]"
      example_data_far]
  obtain d' L' where cg: "change_goal_of example_model 1 (mju_negQuat (1, 0, 0, 0)) [(2, 1)] []
      example_data_far ?L2 = Some (d', L')"
    by auto
  have "example_run_timeout = Inr (d', L', False, True)"
    unfolding example_run_timeout_def transition_update_def example_sensors option.case Let_def
      example_far_sensordata example_far_reads default_goal_identity example_far_d1
      example_angle_half_turn example_aag example_far_check prod.case fl rc
    using cg by (simp add: example_clock_late_def)
  then show ?thesis by blast
qed

lemma result_parts:
  "r = Inr (d', L', f, g) \<Longrightarrow>
   \<not> isl r \<and> data_of r = d' \<and> task_of r = L' \<and> on_floor_flag r = f \<and> change_goal_flag r = g"
  by (simp add: data_of_def task_of_def on_floor_flag_def change_goal_flag_def)

subsection \<open>Two calls with a turned cube\<close>

lemma transition_update_returns:
  assumes "SensorByName m ''cube_goal_orientation'' = Some g"
    and "SensorByName m ''cube_orientation'' = Some co"
    and "trunc_int (GetNumberOrDefault 1 m ''axis_aligned_goal'') \<noteq> 0"
    and "\<exists>p \<in> set axis_draws. p \<noteq> (rand1_m L, rand2_m L)"
  shows "\<exists>d' L' f cg. transition_update c axis_draws free_draws m d L = Inr (d', L', f, cg)"
proof -
  let ?d1 = "d\<lparr>sensordata := write4 (sensordata d) g (default_goal (read4 (sensordata d) g))\<rparr>"
  let ?aag = "trunc_int (GetNumberOrDefault 1 m ''axis_aligned_goal'')"
  let ?angle = "rotation_angle (read4 (sensordata ?d1) co) (mju_negQuat (read4 (sensordata ?d1) g))"
  let ?d2 = "if on_floor_of m ?d1 then reset_cube m ?d1 else ?d1"
  obtain cg1 L1 where c: "check_rotation ?angle (angle_thresh ?aag) L = (cg1, L1)"
    by (cases "check_rotation ?angle (angle_thresh ?aag) L")
  obtain cg2 L2 where r: "reset_counters c (on_floor_of m ?d1) cg1 L1 = (cg2, L2)"
    by (cases "reset_counters c (on_floor_of m ?d1) cg1 L1")
  have "rand1_m L1 = rand1_m L \<and> rand2_m L1 = rand2_m L"
    using c by (auto simp: check_rotation_def Let_def split: if_splits)
  moreover have "rand1_m L2 = rand1_m L1 \<and> rand2_m L2 = rand2_m L1"
    using r by (auto simp: reset_counters_def Let_def split: if_splits)
  ultimately have "\<exists>p \<in> set axis_draws.
      p \<noteq> (rand1_m (L2\<lparr>time_of_last_rotation_m := now4 c\<rparr>),
            rand2_m (L2\<lparr>time_of_last_rotation_m := now4 c\<rparr>))"
    using assms(4) by simp
  from change_goal_axis_terminates[OF assms(3) this]
  obtain d' L' where "change_goal_of m ?aag (mju_negQuat (read4 (sensordata ?d1) g))
      axis_draws free_draws ?d2 (L2\<lparr>time_of_last_rotation_m := now4 c\<rparr>) = Some (d', L')"
    by blast
  then show ?thesis
    using c r by (auto simp: transition_update_def assms(1,2) Let_def)
qed

lemma turned_reads:
  "read4 (sensordata (example_data_turned cube goal)) 7 = goal"
  "read4 (write4 (sensordata (example_data_turned cube goal)) 7 q) 3 = cube"
  "read4 (write4 (sensordata (example_data_turned cube goal)) 7 q) 7 = q"
  by (cases cube; cases goal; cases q;
      simp add: example_data_turned_def read4_def write4_def mju_copy_def list4_def
        upt_rec nth_Cons' numeral_eq_Suc)+

lemma near_difference:
  "quat_product example_cube_near (quat_conj example_goal_near)
     = (- 2 * cos (pi / 36), 2 * sin (pi / 36), 0, 0)"
  by (simp add: quat_product_def quat_conj_def example_cube_near_def example_goal_near_def
      Let_def)

lemma near_length:
  "quat_length (quat_product example_cube_near (quat_conj example_goal_near)) = 2"
proof -
  have e: "4 * (cos (pi / 36))\<^sup>2 + 4 * (sin (pi / 36))\<^sup>2 = (4::real)"
    using sin_cos_squared_add2[of "pi / 36"] by linarith
  show ?thesis
    unfolding near_difference
    by (simp add: quat_length_def power_mult_distrib e)
qed

lemma near_error: "angular_error example_cube_near example_goal_near = 10"
proof -
  have p: "0 < cos (pi / 36)" by (rule cos_gt_zero_pi) simp_all
  have f: "fst (quat_product example_cube_near (quat_conj example_goal_near)) / 2
      = - cos (pi / 36)"
    unfolding near_difference by simp
  have a: "arccos (cos (pi / 36)) = pi / 36" by (rule arccos_cos) simp_all
  show ?thesis
    unfolding angular_error_def Let_def near_length f
    using p by (simp add: a)
qed

lemma miss_difference:
  "quat_product example_cube_miss (quat_conj (1, 0, 0, 0)) = (- 1, 1, 1, 1)"
  by (simp add: quat_product_def quat_conj_def example_cube_miss_def Let_def)

lemma miss_length: "quat_length (quat_product example_cube_miss (quat_conj (1, 0, 0, 0))) = 2"
  unfolding miss_difference by (simp add: quat_length_def)

lemma miss_error: "angular_error example_cube_miss (1, 0, 0, 0) = 120"
proof -
  have f: "fst (quat_product example_cube_miss (quat_conj (1, 0, 0, 0))) / 2 = - (1 / 2)"
    unfolding miss_difference by simp
  show ?thesis
    unfolding angular_error_def Let_def miss_length f by simp
qed

lemma example_default_goals:
  "default_goal example_goal_near = example_goal_near"
  "default_goal example_goal_miss = (1, 0, 0, 0)"
  by (simp_all add: default_goal_def example_goal_near_def example_goal_miss_def)

lemma turned_floor: "on_floor_of example_model (example_data_turned cube goal) = False"
  by (simp add: on_floor_of_def example_data_turned_def example_data_def)

lemma turned_returns: "\<exists>d' L' f cg. example_run_turned cube goal = Inr (d', L', f, cg)"
  unfolding example_run_turned_def
  by (rule transition_update_returns[OF example_sensors(3) example_sensors(2)])
     (simp_all add: example_aag example_task_3_def example_task_def)

text \<open>
  Two calls ten seconds into the episode, without contact, after three rotations with a
  best count of five.  With the cube ten degrees from the goal the rotation is counted;
  with the cube a third of a turn away from the identity, which stands in for the
  all-zero goal reading, it is not.
\<close>

theorem rotation_counted_on_success_witness:
  "(angular_error example_cube_near example_goal_near = 10 \<and>
    rotation_count_m example_task_3 = 3 \<and> best_rotation_count_m example_task_3 = 5 \<and>
    isl (example_run_turned example_cube_near example_goal_near) = False \<and>
    change_goal_flag (example_run_turned example_cube_near example_goal_near) \<and>
    rotation_count_m (task_of (example_run_turned example_cube_near example_goal_near)) = 4 \<and>
    best_rotation_count_m (task_of (example_run_turned example_cube_near example_goal_near)) = 5) \<and>
   (angular_error example_cube_miss (default_goal example_goal_miss) = 120 \<and>
    isl (example_run_turned example_cube_miss example_goal_miss) = False \<and>
    change_goal_flag (example_run_turned example_cube_miss example_goal_miss) = False \<and>
    rotation_count_m (task_of (example_run_turned example_cube_miss example_goal_miss)) = 3 \<and>
    best_rotation_count_m (task_of (example_run_turned example_cube_miss example_goal_miss)) = 5)"
proof -
  have t3: "rotation_count_m example_task_3 = 3" "best_rotation_count_m example_task_3 = 5"
    "time_of_last_rotation_m example_task_3 = 0"
    by (simp_all add: example_task_3_def example_task_def)
  have thr: "(if trunc_int (GetNumberOrDefault 1 example_model ''axis_aligned_goal'') \<noteq> 0
              then 11.4592 else 22.9183) = (11.4592::real)"
    by (simp add: example_aag)
  have part: "isl (example_run_turned cube goal) = False \<and>
      (angular_error cube (default_goal goal) < 11.4592 \<longrightarrow>
         change_goal_flag (example_run_turned cube goal) \<and>
         rotation_count_m (task_of (example_run_turned cube goal)) = 4 \<and>
         best_rotation_count_m (task_of (example_run_turned cube goal)) = 5) \<and>
      (\<not> angular_error cube (default_goal goal) < 11.4592 \<longrightarrow>
         change_goal_flag (example_run_turned cube goal) = False \<and>
         rotation_count_m (task_of (example_run_turned cube goal)) = 3 \<and>
         best_rotation_count_m (task_of (example_run_turned cube goal)) = 5)"
    if len: "quat_length (quat_product cube (quat_conj (default_goal goal))) = 2" for cube goal
  proof -
    let ?sd = "sensordata (example_data_turned cube goal)"
    obtain d' L' f cg where run: "example_run_turned cube goal = Inr (d', L', f, cg)"
      using turned_returns by blast
    have f: "f = False"
      using transition_update_cube(1)[OF run[unfolded example_run_turned_def]]
      by (simp add: turned_floor)
    have nd: "mjMINVAL \<le> quat_length (quat_product
        (read4 (write4 ?sd 7 (default_goal (read4 ?sd 7))) 3)
        (quat_conj (read4 (write4 ?sd 7 (default_goal (read4 ?sd 7))) 7)))"
      by (simp add: turned_reads len mjMINVAL_def)
    from rotation_counted_on_success[OF run[unfolded example_run_turned_def]
        example_sensors(3) example_sensors(2) refl refl refl nd refl _ _ refl]
    show ?thesis
      using result_parts[OF run]
      by (simp add: turned_reads thr t3 f example_clock_def)
  qed
  from part[of example_cube_near example_goal_near] part[of example_cube_miss example_goal_miss]
    near_length miss_length near_error miss_error t3
  show ?thesis by (simp add: example_default_goals)
qed

lemma example_cube_joint:
  "name2id example_model mjOBJ_BODY ''cube'' = 1"
  "nat (idx (jnt_qposadr example_model) (idx (body_jntadr example_model)
        (name2id example_model mjOBJ_BODY ''cube''))) = 0"
  "nat (idx (jnt_dofadr example_model) (idx (body_jntadr example_model)
        (name2id example_model mjOBJ_BODY ''cube''))) = 0"
  "nat (idx (jnt_qposadr example_model) (idx (body_jntadr example_model) 1)) = 0"
  "nat (idx (jnt_dofadr example_model) (idx (body_jntadr example_model) 1)) = 0"
  by (simp_all add: example_model_def example_name2id_def idx_def)

lemma example_drop_resets:
  "on_floor_flag example_run_drop \<and>
   qpos (data_of example_run_drop) ! 2 = 1 / 20 \<and>
   qvel (data_of example_run_drop) ! 0 = 0"
proof -
  obtain d' L' where run: "example_run_drop = Inr (d', L', True, True)"
    using example_call_drop by blast
  have len: "2 < length (qpos example_data_drop)" "0 < length (qvel example_data_drop)"
    by (simp_all add: example_data_drop_def example_data_far_def example_data_def)
  have key: "key_qpos example_model ! 2 = 1 / 20"
    by (simp add: example_model_def)
  from reset_block_effects[OF run[unfolded example_run_drop_def] refl refl refl refl refl] len
  have "qpos d' ! 2 = key_qpos example_model ! 2 \<and> qvel d' ! 0 = 0"
    unfolding example_cube_joint by simp
  with result_parts[OF run] key show ?thesis by simp
qed

text \<open>
  Claim C3.  The claim has the cube's pose reset on a drop and on a timeout alike, and so
  do the code's own message \<^verbatim>\<open>Timeout detected, resetting cube.\<close> (line 216) and its
  comment \<^verbatim>\<open>Reset the cube and counters\<close> (line 223); the pose reset of lines 181--190 is
  guarded by \<open>on_floor\<close> alone.  On the call a hundred seconds after the last rotation,
  with no cube-floor contact and a cube body that resolves, the call returns with the
  rotation count reset from 3 to 0, the last-reset timestamp updated and a goal change
  forced, but with positions and velocities as they were: the cube's free-joint
  coordinate 2 is 0 where the keyframe has 1/20, and its velocity 0 is 1.  On the same
  data with a cube-floor contact, the drop path does reset both.
\<close>

theorem timeout_leaves_cube:
  "isl example_run_timeout = False \<and>
   on_floor_flag example_run_timeout = False \<and>
   contact example_data_far = [] \<and>
   now2 example_clock_late - time_of_last_rotation_m example_task_3 = 100 \<and>
   name2id example_model mjOBJ_BODY ''cube'' = 1 \<and>
   rotation_count_m example_task_3 = 3 \<and>
   rotation_count_m (task_of example_run_timeout) = 0 \<and>
   time_of_last_reset_m (task_of example_run_timeout) = 100 \<and>
   change_goal_flag example_run_timeout \<and>
   qpos (data_of example_run_timeout) = qpos example_data_far \<and>
   qvel (data_of example_run_timeout) = qvel example_data_far \<and>
   qpos (data_of example_run_timeout) ! 2 = 0 \<and>
   key_qpos example_model ! 2 = 1 / 20 \<and>
   qvel (data_of example_run_timeout) ! 0 = 1 \<and>
   example_data_drop = example_data_far\<lparr>contact := [(3, 4), (0, 1)]\<rparr> \<and>
   on_floor_flag example_run_drop \<and>
   qpos (data_of example_run_drop) ! 2 = 1 / 20 \<and>
   qvel (data_of example_run_drop) ! 0 = 0"
proof -
  obtain d' L' where run: "example_run_timeout = Inr (d', L', False, True)"
    using example_call_timeout by blast
  have late: "now2 example_clock_late - time_of_last_rotation_m example_task_3 = 100"
    by (simp add: example_clock_late_def example_task_def example_task_3_def)
  from reset_block_effects[OF run[unfolded example_run_timeout_def] refl refl refl refl refl]
    late
  have "rotation_count_m L' = 0 \<and> time_of_last_reset_m L' = now3 example_clock_late \<and>
      qpos d' = qpos example_data_far \<and> qvel d' = qvel example_data_far"
    by simp
  moreover have "qpos example_data_far ! 2 = 0" "qvel example_data_far ! 0 = 1"
    "contact example_data_far = []" "key_qpos example_model ! 2 = 1 / 20"
    "rotation_count_m example_task_3 = 3"
    by (simp_all add: example_data_far_def example_data_def example_model_def
        example_task_3_def)
  ultimately show ?thesis
    using result_parts[OF run] late example_drop_resets example_cube_joint(1)
    by (simp add: example_clock_late_def example_data_drop_def)
qed

subsection \<open>The noise walks\<close>

lemma bound_noise_abs: "0 \<le> noise_max \<Longrightarrow> \<bar>bound_noise noise_max v\<bar> \<le> noise_max"
  by (auto simp: bound_noise_def abs_if)

lemma bound_noise3_within: "0 \<le> noise_max \<Longrightarrow> all_within noise_max (bound_noise3 noise_max v)"
  by (cases v) (simp add: all_within_def bound_noise3_def bound_noise_abs)

lemma observe_fields:
  assumes "observe m g st L = (L1, state_new)"
  shows "parameters L1 = parameters L"
    and "quat_cube_noise_m L1
           = bound_noise3 (parameters L ! 9) (mju_addTo3 (quat_cube_noise_m L) (gauss_rot g))"
    and "pos_cube_noise_m L1
           = bound_noise3 (parameters L ! 10)
               (mju_addTo3 (pos_cube_noise_m L)
                  (mju_addTo3 (parameters L ! 6, parameters L ! 7, parameters L ! 8)
                     (gauss_pos g)))"
    and "stored_states_m L1 = trim_states (lag_steps_of L) (stored_states_m L)"
    and "first_time_m L1 = False"
    and "last_time_m L1 = time st"
    and "last_state_m L1 = mju_copy (last_state_m L) 0 (state st) 0 (7 + 16 + 6 + 16)"
proof -
  have L1: "L1 = fst (observe m g st L)" using assms by simp
  show "parameters L1 = parameters L"
    and "quat_cube_noise_m L1
           = bound_noise3 (parameters L ! 9) (mju_addTo3 (quat_cube_noise_m L) (gauss_rot g))"
    and "pos_cube_noise_m L1
           = bound_noise3 (parameters L ! 10)
               (mju_addTo3 (pos_cube_noise_m L)
                  (mju_addTo3 (parameters L ! 6, parameters L ! 7, parameters L ! 8)
                     (gauss_pos g)))"
    and "stored_states_m L1 = trim_states (lag_steps_of L) (stored_states_m L)"
    and "first_time_m L1 = False"
    and "last_time_m L1 = time st"
    and "last_state_m L1 = mju_copy (last_state_m L) 0 (state st) 0 (7 + 16 + 6 + 16)"
    unfolding L1 observe_def Let_def lag_steps_of_def by simp_all
qed

lemma ModifyState_fields:
  assumes "ModifyState m g st L = (L', st')"
  shows "parameters L' = parameters L"
    and "quat_cube_noise_m L'
           = bound_noise3 (parameters L ! 9) (mju_addTo3 (quat_cube_noise_m L) (gauss_rot g))"
    and "pos_cube_noise_m L'
           = bound_noise3 (parameters L ! 10)
               (mju_addTo3 (pos_cube_noise_m L)
                  (mju_addTo3 (parameters L ! 6, parameters L ! 7, parameters L ! 8)
                     (gauss_pos g)))"
    and "first_time_m L' = False"
    and "last_time_m L' = time st"
    and "last_state_m L' = mju_copy (last_state_m L) 0 (state st) 0 (7 + 16 + 6 + 16)"
proof -
  obtain L1 state_new where o: "observe m g st L = (L1, state_new)" by (cases "observe m g st L")
  obtain state_lagged stored
    where lb: "lag_buffer m (trunc_int (std_round (parameters L ! 12))) (stored_states_m L1)
                 state_new = (state_lagged, stored)"
    by (cases "lag_buffer m (trunc_int (std_round (parameters L ! 12))) (stored_states_m L1)
                 state_new")
  from assms have L': "L' = L1\<lparr>stored_states_m := stored, pos_cube_m := read3 state_lagged 0,
      quat_cube_m := read4 state_lagged 3\<rparr>"
    by (simp add: ModifyState_def o lb Let_def)
  with observe_fields[OF o]
  show "parameters L' = parameters L"
    and "quat_cube_noise_m L'
           = bound_noise3 (parameters L ! 9) (mju_addTo3 (quat_cube_noise_m L) (gauss_rot g))"
    and "pos_cube_noise_m L'
           = bound_noise3 (parameters L ! 10)
               (mju_addTo3 (pos_cube_noise_m L)
                  (mju_addTo3 (parameters L ! 6, parameters L ! 7, parameters L ! 8)
                     (gauss_pos g)))"
    and "first_time_m L' = False"
    and "last_time_m L' = time st"
    and "last_state_m L' = mju_copy (last_state_m L) 0 (state st) 0 (7 + 16 + 6 + 16)"
    by simp_all
qed

lemma ModifyState_noise_bounded:
  assumes "0 \<le> parameters L ! 9" and "0 \<le> parameters L ! 10"
  shows "noise_bounded (fst (ModifyState m g st L))"
proof -
  obtain L' st' where r: "ModifyState m g st L = (L', st')" by (cases "ModifyState m g st L")
  show ?thesis
    using assms
    by (simp add: r noise_bounded_def ModifyState_fields[OF r] bound_noise3_within)
qed

lemma run_ModifyState_step:
  "fst (run_ModifyState m L ((g, st) # rest))
     = fst (run_ModifyState m (fst (ModifyState m g st L)) rest)"
  by (simp split: prod.splits)

lemma run_ModifyState_parameters:
  "parameters (fst (run_ModifyState m L inputs)) = parameters L"
proof (induction inputs arbitrary: L)
  case Nil
  then show ?case by simp
next
  case (Cons a inputs)
  obtain g st where a: "a = (g, st)" by (cases a)
  obtain L1 out where r: "ModifyState m g st L = (L1, out)" by (cases "ModifyState m g st L")
  have "parameters L1 = parameters L" by (rule ModifyState_fields(1)[OF r])
  with Cons.IH[of L1] show ?case unfolding a run_ModifyState_step by (simp add: r)
qed

lemma run_ModifyState_noise_bounded:
  assumes "0 \<le> parameters L ! 9" and "0 \<le> parameters L ! 10" and "noise_bounded L"
  shows "noise_bounded (fst (run_ModifyState m L inputs))"
  using assms
proof (induction inputs arbitrary: L)
  case Nil
  then show ?case by simp
next
  case (Cons a inputs)
  obtain g st where a: "a = (g, st)" by (cases a)
  obtain L1 out where r: "ModifyState m g st L = (L1, out)" by (cases "ModifyState m g st L")
  have p: "parameters L1 = parameters L" by (rule ModifyState_fields(1)[OF r])
  have "noise_bounded L1"
    using ModifyState_noise_bounded[OF Cons.prems(1,2), of m g st] by (simp add: r)
  with Cons.IH[of L1] Cons.prems(1,2) p show ?case
    unfolding a run_ModifyState_step by (simp add: r)
qed

text \<open>
  Claim C6.  For every number of pipeline calls and every sequence of Gaussian
  increments, after every call each component of the orientation-noise vector and of the
  position-noise vector is within its configured maximum (\<open>quat_cube_noise_max\<close>,
  \<open>pos_cube_noise_max\<close>) in absolute value, when the maxima are non-negative and the
  components start within them; the calls leave the tunables as they are.
\<close>

theorem noise_stays_bounded:
  assumes "0 \<le> parameters L ! 9" and "0 \<le> parameters L ! 10" and "noise_bounded L"
  shows "\<forall>n. noise_bounded (fst (run_ModifyState m L (take n inputs))) \<and>
             parameters (fst (run_ModifyState m L (take n inputs))) = parameters L"
  using run_ModifyState_noise_bounded[OF assms] run_ModifyState_parameters by blast

theorem noise_stays_bounded_witness:
  "0 \<le> parameters (example_task_lag 0) ! 9 \<and> 0 \<le> parameters (example_task_lag 0) ! 10 \<and>
   noise_bounded (example_task_lag 0) \<and>
   noise_bounded (fst (run_ModifyState example_model (example_task_lag 0)
      [(example_gaussians, example_state 0 0 0), (example_gaussians, example_state 0 0 1)])) \<and>
   quat_cube_noise_m (fst (run_ModifyState example_model (example_task_lag 0)
      [(example_gaussians, example_state 0 0 0), (example_gaussians, example_state 0 0 1)]))
     = (1 / 20, - (1 / 20), 1 / 50) \<and>
   pos_cube_noise_m (fst (run_ModifyState example_model (example_task_lag 0)
      [(example_gaussians, example_state 0 0 0), (example_gaussians, example_state 0 0 1)]))
     = (0, - (1 / 20), 1 / 20)"
proof -
  let ?L = "example_task_lag 0"
  let ?in = "[(example_gaussians, example_state 0 0 0), (example_gaussians, example_state 0 0 1)]"
  have p: "parameters ?L ! 9 = 1 / 20" "parameters ?L ! 10 = 1 / 20"
    "parameters ?L ! 6 = 0" "parameters ?L ! 7 = 0" "parameters ?L ! 8 = 0"
    by (simp_all add: example_task_lag_def example_parameters_def)
  have h: "0 \<le> parameters ?L ! 9" "0 \<le> parameters ?L ! 10" by (simp_all add: p)
  have b: "noise_bounded ?L"
    by (simp add: noise_bounded_def all_within_def p)
       (simp add: example_task_lag_def example_task_def)
  from noise_stays_bounded[OF h b, of example_model ?in]
  have "noise_bounded (fst (run_ModifyState example_model ?L (take 2 ?in)))" by blast
  then have nb: "noise_bounded (fst (run_ModifyState example_model ?L ?in))" by simp
  obtain L1 o1 where r1: "ModifyState example_model example_gaussians (example_state 0 0 0) ?L
      = (L1, o1)"
    by (cases "ModifyState example_model example_gaussians (example_state 0 0 0) ?L")
  obtain L2 o2 where r2: "ModifyState example_model example_gaussians (example_state 0 0 1) L1
      = (L2, o2)"
    by (cases "ModifyState example_model example_gaussians (example_state 0 0 1) L1")
  have run: "fst (run_ModifyState example_model ?L ?in) = L2"
    by (simp add: r1 r2)
  have n0: "quat_cube_noise_m ?L = (0, 0, 0)" "pos_cube_noise_m ?L = (0, 0, 0)"
    by (simp_all add: example_task_lag_def example_task_def)
  have q1: "quat_cube_noise_m L1 = (1 / 20, - (1 / 20), 1 / 100)"
    "pos_cube_noise_m L1 = (0, - (1 / 20), 1 / 20)"
    unfolding ModifyState_fields(2,3)[OF r1] p n0
    by (simp_all add: example_gaussians_def mju_addTo3_def bound_noise3_def bound_noise_def)
  have p1: "parameters L1 = parameters ?L" by (rule ModifyState_fields(1)[OF r1])
  have q2: "quat_cube_noise_m L2 = (1 / 20, - (1 / 20), 1 / 50)"
    "pos_cube_noise_m L2 = (0, - (1 / 20), 1 / 20)"
    unfolding ModifyState_fields(2,3)[OF r2] p1 p q1
    by (simp_all add: example_gaussians_def mju_addTo3_def bound_noise3_def bound_noise_def)
  from nb h b q2 show ?thesis unfolding run by simp
qed

subsection \<open>The latency buffer\<close>

lemma to_size_t_id: "0 \<le> k \<Longrightarrow> k < 2 ^ 31 \<Longrightarrow> to_size_t k = k"
  by (simp add: to_size_t_def)

lemma trim_states_unfold:
  assumes "0 \<le> k" and "k < 2 ^ 31"
  shows "trim_states k stored = (if int (length stored) > k then trim_states k (tl stored) else stored)"
  by (subst trim_states.simps) (simp only: to_size_t_id[OF assms])

lemma trim_states_drop:
  assumes "0 \<le> k" and "k < 2 ^ 31"
  shows "trim_states k stored = drop (length stored - nat k) stored"
proof (induction "length stored" arbitrary: stored)
  case 0
  then have "\<not> int (length stored) > k" using assms by simp
  then have "trim_states k stored = stored"
    by (simp only: trim_states_unfold[OF assms, of stored] if_False)
  with 0 show ?case by simp
next
  case (Suc n)
  show ?case
  proof (cases "int (length stored) > k")
    case True
    from Suc.hyps(2) obtain x xs where st: "stored = x # xs" by (cases stored) auto
    with Suc.hyps(2) have "n = length xs" by simp
    from Suc.hyps(1)[OF this] have ih: "trim_states k xs = drop (length xs - nat k) xs" .
    from True st assms have "length xs \<ge> nat k" by simp
    then have "drop (length stored - nat k) stored = drop (length xs - nat k) xs"
      by (simp add: st Suc_diff_le del: trim_states.simps)
    moreover have "trim_states k stored = trim_states k (tl stored)"
      using True by (simp only: trim_states_unfold[OF assms, of stored] if_True)
    then have "trim_states k stored = trim_states k xs"
      by (simp add: st del: trim_states.simps)
    ultimately show ?thesis using ih by (simp del: trim_states.simps)
  next
    case False
    then have "length stored - nat k = 0" using assms by simp
    moreover have "trim_states k stored = stored"
      using False by (simp only: trim_states_unfold[OF assms, of stored] if_False)
    ultimately show ?thesis by (simp del: trim_states.simps)
  qed
qed

lemma length_trim_states:
  assumes "0 \<le> k" and "k < 2 ^ 31"
  shows "length (trim_states k stored) \<le> nat k"
  by (simp add: trim_states_drop[OF assms] del: trim_states.simps)

lemma lag_buffer_zero: "lag_buffer m 0 stored state_new = (state_new, stored)"
  by (simp add: lag_buffer_def)

lemma lag_buffer_pop:
  assumes "0 < k" and "k < 2 ^ 31" and "int (length stored) \<ge> k"
  shows "lag_buffer m k stored state_new
           = (mju_copy state_new 0 (stored ! 0) 0 (nq m + nv m), tl stored @ [state_new])"
  using assms by (simp add: lag_buffer_def to_size_t_id)

lemma lag_buffer_fresh:
  assumes "0 < k" and "k < 2 ^ 31" and "int (length stored) < k"
  shows "lag_buffer m k stored state_new = (state_new, stored @ [state_new])"
  using assms by (simp add: lag_buffer_def to_size_t_id)

text \<open>What one call writes back and stores, in terms of the freshly computed state.\<close>

lemma ModifyState_unfold:
  assumes o: "observe m g st L = (L1, state_new)"
    and lb: "lag_buffer m (lag_steps_of L) (stored_states_m L1) state_new = (state_lagged, stored)"
  shows "ModifyState m g st L =
           (L1\<lparr>stored_states_m := stored, pos_cube_m := read3 state_lagged 0,
               quat_cube_m := read4 state_lagged 3\<rparr>,
            SetVelocity m (map (\<lambda>i. state_lagged ! (nq m + i)) [0..<nv m])
              (SetPosition m (map (\<lambda>i. state_lagged ! i) [0..<nq m]) st))"
  using lb by (simp add: ModifyState_def o Let_def lag_steps_of_def)

lemma written_back_nth:
  assumes "i < nq m + nv m" and "i < length (state st)"
  shows "state (SetVelocity m (map (\<lambda>i. v ! (nq m + i)) [0..<nv m])
                  (SetPosition m (map (\<lambda>i. v ! i) [0..<nq m]) st)) ! i = v ! i"
  using assms
  by (auto simp: SetVelocity_def SetPosition_def nth_mju_copy length_mju_copy)

lemma written_back_rest:
  assumes "nq m + nv m \<le> i" and "i < length (state st)"
  shows "state (SetVelocity m qv (SetPosition m qp st)) ! i = state st ! i"
  using assms
  by (auto simp: SetVelocity_def SetPosition_def nth_mju_copy length_mju_copy)

lemma length_observe: "length (snd (observe m g st L)) = length (state st)"
  by (simp add: observe_def Let_def length_mju_copy)

lemma ModifyState_buffer:
  assumes k: "lag_steps_of L = k" "0 \<le> k" "k < 2 ^ 31"
    and o: "observe m g st L = (L1, state_new)"
    and r: "ModifyState m g st L = (L', st')"
    and old: "old = stored_states_m L"
  shows "k = 0 \<Longrightarrow> stored_states_m L' = []"
    and "k = 0 \<Longrightarrow> i < nq m + nv m \<Longrightarrow> i < length (state st) \<Longrightarrow> state st' ! i = state_new ! i"
    and "0 < k \<Longrightarrow> stored_states_m L' = drop (length old - (nat k - 1)) old @ [state_new]"
    and "0 < k \<Longrightarrow> nat k \<le> length old \<Longrightarrow> i < nq m + nv m \<Longrightarrow> i < length (state st) \<Longrightarrow>
           state st' ! i = old ! (length old - nat k) ! i"
    and "0 < k \<Longrightarrow> length old < nat k \<Longrightarrow> i < nq m + nv m \<Longrightarrow> i < length (state st) \<Longrightarrow>
           state st' ! i = state_new ! i"
    and "length (stored_states_m L') \<le> nat k"
proof -
  let ?T = "drop (length old - nat k) old"
  have T: "stored_states_m L1 = ?T"
    using observe_fields(4)[OF o] by (simp add: k(1) old trim_states_drop[OF k(2,3)] del: trim_states.simps)
  have len: "length state_new = length (state st)"
    using length_observe[of m g st L] by (simp add: o)
  obtain state_lagged stored where lb:
    "lag_buffer m (lag_steps_of L) (stored_states_m L1) state_new = (state_lagged, stored)"
    by (cases "lag_buffer m (lag_steps_of L) (stored_states_m L1) state_new")
  then have eq: "lag_buffer m k ?T state_new = (state_lagged, stored)"
    by (simp add: k(1) T)
  from ModifyState_unfold[OF o lb] r
  have L': "stored_states_m L' = stored"
    and st': "st' = SetVelocity m (map (\<lambda>i. state_lagged ! (nq m + i)) [0..<nv m])
              (SetPosition m (map (\<lambda>i. state_lagged ! i) [0..<nq m]) st)"
    by simp_all
  have out: "i < nq m + nv m \<Longrightarrow> i < length (state st) \<Longrightarrow> state st' ! i = state_lagged ! i"
    unfolding st' by (rule written_back_nth)
  {
    assume k0: "k = 0"
    then have "?T = []" by simp
    with eq have "state_lagged = state_new" "stored = []"
      by (auto simp: k0 lag_buffer_zero)
    then show "stored_states_m L' = []"
      and "i < nq m + nv m \<Longrightarrow> i < length (state st) \<Longrightarrow> state st' ! i = state_new ! i"
      using out L' by simp_all
  }
  {
    assume kp: "0 < k"
    show "stored_states_m L' = drop (length old - (nat k - 1)) old @ [state_new]"
    proof (cases "nat k \<le> length old")
      case True
      then have lT: "int (length ?T) \<ge> k" using kp by simp
      from eq[unfolded lag_buffer_pop[OF kp k(3) lT]] have "stored = tl ?T @ [state_new]"
        by auto
      moreover have "tl ?T = drop (length old - (nat k - 1)) old"
        using True kp by (simp add: drop_Suc[symmetric] tl_drop Suc_diff_le) 
      ultimately show ?thesis by (simp add: L')
    next
      case False
      then have lT: "int (length ?T) < k" and Told: "?T = old" using kp by simp_all
      from eq[unfolded lag_buffer_fresh[OF kp k(3) lT]] have "stored = ?T @ [state_new]"
        by auto
      moreover have "drop (length old - (nat k - 1)) old = old" using False by simp
      ultimately show ?thesis by (simp add: L' Told)
    qed
  }
  {
    assume kp: "0 < k" and ge: "nat k \<le> length old"
      and i: "i < nq m + nv m" "i < length (state st)"
    then have lT: "int (length ?T) \<ge> k" by simp
    from eq[unfolded lag_buffer_pop[OF kp k(3) lT]]
    have "state_lagged = mju_copy state_new 0 (?T ! 0) 0 (nq m + nv m)"
      by auto
    then have "state_lagged ! i = ?T ! 0 ! i" using i by (simp add: nth_mju_copy len)
    moreover have "?T ! 0 = old ! (length old - nat k)" using ge kp by simp
    ultimately show "state st' ! i = old ! (length old - nat k) ! i"
      using out[OF i] by simp
  }
  {
    assume kp: "0 < k" and lt: "length old < nat k"
      and i: "i < nq m + nv m" "i < length (state st)"
    then have lT: "int (length ?T) < k" by simp
    from eq[unfolded lag_buffer_fresh[OF kp k(3) lT]] have "state_lagged = state_new"
      by auto
    then show "state st' ! i = state_new ! i" using out[OF i] by simp
  }
  show "length (stored_states_m L') \<le> nat k"
  proof (cases "k = 0")
    case True
    with eq have "stored = []" by (auto simp: lag_buffer_zero)
    then show ?thesis by (simp add: L')
  next
    case False
    with k(2) have kp: "0 < k" by simp
    show ?thesis
    proof (cases "int (length ?T) \<ge> k")
      case True
      from eq[unfolded lag_buffer_pop[OF kp k(3) True]] have "stored = tl ?T @ [state_new]"
        by auto
      then show ?thesis using kp by (simp add: L')
    next
      case False
      then have lT: "int (length ?T) < k" by simp
      from eq[unfolded lag_buffer_fresh[OF kp k(3) lT]] have "stored = ?T @ [state_new]"
        by auto
      then show ?thesis using lT by (simp add: L')
    qed
  qed
qed

lemma lag_steps_of_parameters: "parameters L' = parameters L \<Longrightarrow> lag_steps_of L' = lag_steps_of L"
  by (simp add: lag_steps_of_def)

lemma run_ModifyState_append:
  "run_ModifyState m L (xs @ ys) =
     (fst (run_ModifyState m (fst (run_ModifyState m L xs)) ys),
      snd (run_ModifyState m L xs) @ snd (run_ModifyState m (fst (run_ModifyState m L xs)) ys))"
proof (induction xs arbitrary: L)
  case Nil
  then show ?case by simp
next
  case (Cons a xs)
  obtain g st where a: "a = (g, st)" by (cases a)
  show ?case by (simp add: a Cons.IH split: prod.splits)
qed

lemma run_ModifyState_single:
  "run_ModifyState m L [(g, st)] = (fst (ModifyState m g st L), [snd (ModifyState m g st L)])"
  by (simp split: prod.splits)

lemma run_fill:
  assumes "0 < k" and "k < 2 ^ 31"
  shows "lag_steps_of L = k \<Longrightarrow> length (stored_states_m L) + length inputs \<le> nat k \<Longrightarrow>
         \<exists>F. length F = length inputs \<and>
             stored_states_m (fst (run_ModifyState m L inputs)) = stored_states_m L @ F"
proof (induction inputs arbitrary: L)
  case Nil
  then show ?case by simp
next
  case (Cons a inputs)
  obtain g st where a: "a = (g, st)" by (cases a)
  obtain L1 state_new where o: "observe m g st L = (L1, state_new)" by (cases "observe m g st L")
  obtain L' st' where r: "ModifyState m g st L = (L', st')" by (cases "ModifyState m g st L")
  have k0: "0 \<le> k" using assms(1) by simp
  have "length (stored_states_m L) \<le> nat k - 1" using Cons.prems(2) by simp
  then have st: "stored_states_m L' = stored_states_m L @ [state_new]"
    using ModifyState_buffer(3)[OF Cons.prems(1) k0 assms(2) o r refl assms(1)] by simp
  have lag: "lag_steps_of L' = k"
    using lag_steps_of_parameters[OF ModifyState_fields(1)[OF r]] Cons.prems(1) by simp
  have "length (stored_states_m L') + length inputs \<le> nat k"
    using Cons.prems(2) by (simp add: st)
  from Cons.IH[OF lag this] obtain F where F: "length F = length inputs"
    "stored_states_m (fst (run_ModifyState m L' inputs)) = stored_states_m L' @ F"
    by blast
  have "stored_states_m (fst (run_ModifyState m L (a # inputs)))
      = stored_states_m L @ (state_new # F)"
    unfolding a run_ModifyState_step by (simp add: r F(2) st)
  moreover have "length (state_new # F) = length (a # inputs)" by (simp add: F(1))
  ultimately show ?case by blast
qed

lemma run_lagged_output:
  assumes k: "lag_steps_of L = k" "0 < k" "k < 2 ^ 31"
    and empty: "stored_states_m L = []"
    and o: "observe m g st L = (L1, state_new)"
    and rest: "length rest = nat k"
    and i: "i < nq m + nv m" "i < length (state (snd (last rest)))"
  shows "state (last (snd (run_ModifyState m L ((g, st) # rest)))) ! i = state_new ! i"
proof -
  have k0: "0 \<le> k" using k(2) by simp
  from rest k(2) have "rest \<noteq> []" by auto
  then obtain mid fin where r: "rest = mid @ [fin]" by (metis append_butlast_last_id)
  obtain gl stl where fin: "fin = (gl, stl)" by (cases fin)
  obtain LA stA where rA: "ModifyState m g st L = (LA, stA)" by (cases "ModifyState m g st L")
  have stA: "stored_states_m LA = [state_new]"
    using ModifyState_buffer(3)[OF k(1) k0 k(3) o rA refl k(2)] by (simp add: empty)
  have lagA: "lag_steps_of LA = k"
    using lag_steps_of_parameters[OF ModifyState_fields(1)[OF rA]] k(1) by simp
  let ?LB = "fst (run_ModifyState m LA mid)"
  have "length (stored_states_m LA) + length mid \<le> nat k" using rest by (simp add: stA r)
  from run_fill[OF k(2,3) lagA this, of m] obtain F where F: "length F = length mid"
    "stored_states_m ?LB = [state_new] @ F"
    by (auto simp: stA)
  have lagB: "lag_steps_of ?LB = k"
    using lag_steps_of_parameters[OF run_ModifyState_parameters[of m LA mid]] lagA by simp
  obtain LC stC where rC: "ModifyState m gl stl ?LB = (LC, stC)"
    by (cases "ModifyState m gl stl ?LB")
  obtain LB1 snB where oB: "observe m gl stl ?LB = (LB1, snB)"
    by (cases "observe m gl stl ?LB")
  have lenB: "length (stored_states_m ?LB) = nat k" using rest by (simp add: F r)
  have il: "i < length (state stl)" using i(2) by (simp add: r fin)
  have "state stC ! i
      = stored_states_m ?LB ! (length (stored_states_m ?LB) - nat k) ! i"
    using ModifyState_buffer(4)[OF lagB k0 k(3) oB rC refl k(2) _ i(1) il] lenB by simp
  also have "length (stored_states_m ?LB) - nat k = 0" by (simp only: lenB diff_self_eq_0)
  finally have out: "state stC ! i = state_new ! i" by (simp add: F(2))
  have "snd (run_ModifyState m L ((g, st) # mid @ [(gl, stl)]))
      = stA # snd (run_ModifyState m LA mid) @ [stC]"
    by (simp add: rA run_ModifyState_append run_ModifyState_single rC split: prod.splits)
  then show ?thesis using out by (simp add: r fin)
qed

subsection \<open>The freshly computed state\<close>

lemma observe_state_new:
  "snd (observe m g st L) =
     mju_copy (mju_copy (mju_copy (state st) 0 (list3 (noisy_pos g st L)) 0 3)
                 3 (list4 (noisy_quat g st L)) 0 4)
       (nq m) (velocity_estimate g st L) 0 (nv m)"
  unfolding observe_def Let_def velocity_estimate_def noisy_pos_def noisy_quat_def
    quat_noise_step_def pos_noise_step_def
  by simp

lemma state_new_pos:
  assumes "i < 3" and "7 \<le> nq m" and "i < length (state st)"
  shows "snd (observe m g st L) ! i = list3 (noisy_pos g st L) ! i"
  using assms by (simp add: observe_state_new nth_mju_copy length_mju_copy)

lemma state_new_quat:
  assumes "7 \<le> nq m" and "7 \<le> length (state st)"
  shows "read4 (snd (observe m g st L)) 3 = noisy_quat g st L"
  using assms
  by (cases "noisy_quat g st L")
     (simp add: observe_state_new nth_mju_copy length_mju_copy read4_def list4_def)

lemma state_new_velocity:
  assumes "j < nv m" and "nq m + j < length (state st)"
  shows "snd (observe m g st L) ! (nq m + j) = velocity_estimate g st L ! j"
  using assms by (simp add: observe_state_new nth_mju_copy length_mju_copy)

lemma length_ds_scaled: "length (ds_scaled ft dt alpha p q s ls) = 22"
  by (simp add: ds_scaled_def)

lemma nth_append3:
  assumes "length a = 3" and "length b = 3"
  shows "(a @ b @ c) ! j = (if j < 3 then a ! j else if j < 6 then b ! (j - 3) else c ! (j - 6))"
  using assms by (auto simp: nth_append)

lemma nth_ds_scaled:
  assumes "j < 22"
  shows "ds_scaled ft dt alpha p q s ls ! j =
           (if ft \<or> dt < 1 / 10 ^ 6 then 0 else alpha * ds_unscaled p q s ls dt j)"
proof (cases "ft \<or> dt < 1 / 10 ^ 6")
  case True
  then show ?thesis using assms by (auto simp: ds_scaled_def)
next
  case False
  have "ds_scaled ft dt alpha p q s ls ! j =
      (map (\<lambda>i. alpha * (list3 p ! i - ls ! i) / dt) [0..<3]
       @ map (\<lambda>i. alpha * list3 (omega_of q (read4 ls 3) dt) ! i) [0..<3]
       @ map (\<lambda>i. alpha * (s ! (i + 7) - ls ! (i + 7)) / dt) [0..<16]) ! j"
    using False by (simp add: ds_scaled_def Let_def)
  also have "\<dots> = alpha * ds_unscaled p q s ls dt j"
    using assms by (subst nth_append3) (auto simp: ds_unscaled_def)
  finally show ?thesis using False by simp
qed

lemma nth_velocity_estimate:
  assumes "j < 22"
  shows "velocity_estimate g st L ! j =
           (if first_time_m L \<or> time st - last_time_m L < 1 / 10 ^ 6 then 0
            else parameters L ! 11
                 * ds_unscaled (noisy_pos g st L) (noisy_quat g st L) (state st) (last_state_m L)
                     (time st - last_time_m L) j)
           + (1 - parameters L ! 11) * last_state_m L ! (23 + j)"
  using assms
  by (simp add: velocity_estimate_def mju_addToScl_def length_ds_scaled nth_ds_scaled
      mult.commute)

subsection \<open>Evaluating the pipeline inputs\<close>

lemma example_lag_steps:
  "lag_steps_of (example_task_lag 0) = 0"
  "lag_steps_of (example_task_lag 2) = 2"
  by (simp_all add: lag_steps_of_def example_task_lag_def example_parameters_def std_round_def
      trunc_int_def)

lemma example_model_sizes: "nq example_model = 23" "nv example_model = 22"
  by (simp_all add: example_model_def)

lemma example_state_length: "length (state (example_state x v t)) = 45"
  by (simp add: example_state_def)

lemma example_state_nth:
  "state (example_state x v t) ! 0 = x" "state (example_state x v t) ! 23 = v"
  "time (example_state x v t) = t"
  by (simp_all add: example_state_def nth_append)

lemma zero_noise_step:
  assumes "parameters L = example_parameters lag" and "pos_cube_noise_m L = (0, 0, 0)"
  shows "pos_noise_step zero_gaussians L = (0, 0, 0)"
  using assms
  by (simp add: pos_noise_step_def zero_gaussians_def example_parameters_def mju_addTo3_def
      bound_noise3_def bound_noise_def)

lemma zero_noisy_pos:
  assumes "parameters L = example_parameters lag" and "pos_cube_noise_m L = (0, 0, 0)"
  shows "list3 (noisy_pos zero_gaussians (example_state x v t) L) ! 0 = x"
  by (simp add: noisy_pos_def zero_noise_step[OF assms] read3_def example_state_def
      mju_addTo3_def list3_def)

lemma example_task_lag_fields:
  "parameters (example_task_lag lag) = example_parameters lag"
  "pos_cube_noise_m (example_task_lag lag) = (0, 0, 0)"
  "stored_states_m (example_task_lag lag) = []"
  "first_time_m (example_task_lag lag) = True"
  "last_time_m (example_task_lag lag) = 0"
  "last_state_m (example_task_lag lag) = replicate 45 0"
  by (simp_all add: example_task_lag_def example_task_def)

lemma example_fresh_x:
  "snd (observe example_model zero_gaussians (example_state x v t) (example_task_lag lag)) ! 0 = x"
  by (subst state_new_pos)
     (simp_all add: example_model_sizes example_state_length
        zero_noisy_pos[OF example_task_lag_fields(1,2)])

text \<open>
  Claim C4, with the guard the code has on the enqueue.  For one call with lag-step count
  \<open>k\<close> (a non-negative \<^verbatim>\<open>int\<close>), the freshly computed state \<open>state_new\<close> and the
  buffer \<open>old\<close> before the call: with \<open>k = 0\<close> the state written back is the fresh state
  and the buffer is left empty; with \<open>k > 0\<close> the buffer is first trimmed from the front
  to at most \<open>k\<close> entries, then, when it holds \<open>k\<close> entries, its oldest entry is popped
  and written back, and otherwise the fresh state is written back, and the fresh state is
  enqueued at the end; the buffer never holds more than \<open>k\<close> entries afterwards.  Starting
  from an empty buffer with \<open>k > 0\<close>, the state written back by call \<open>k + 1\<close> is the fresh
  state of the first call.  (Written back are the \<open>nq + nv\<close> position and velocity
  entries.)
\<close>

theorem latency_buffer:
  assumes k: "lag_steps_of L = k" "0 \<le> k" "k < 2 ^ 31"
    and o: "observe m g st L = (L1, state_new)"
    and r: "ModifyState m g st L = (L', st')"
    and old: "old = stored_states_m L"
  shows "(k = 0 \<longrightarrow>
            stored_states_m L' = [] \<and>
            (\<forall>i. i < nq m + nv m \<and> i < length (state st) \<longrightarrow> state st' ! i = state_new ! i)) \<and>
         (0 < k \<longrightarrow> stored_states_m L' = drop (length old - (nat k - 1)) old @ [state_new]) \<and>
         (0 < k \<and> nat k \<le> length old \<longrightarrow>
            (\<forall>i. i < nq m + nv m \<and> i < length (state st) \<longrightarrow>
                 state st' ! i = old ! (length old - nat k) ! i)) \<and>
         (0 < k \<and> length old < nat k \<longrightarrow>
            (\<forall>i. i < nq m + nv m \<and> i < length (state st) \<longrightarrow> state st' ! i = state_new ! i)) \<and>
         length (stored_states_m L') \<le> nat k \<and>
         (\<forall>rest i. 0 < k \<and> old = [] \<and> length rest = nat k \<and>
                   i < nq m + nv m \<and> i < length (state (snd (last rest))) \<longrightarrow>
            state (last (snd (run_ModifyState m L ((g, st) # rest)))) ! i = state_new ! i)"
  using ModifyState_buffer[OF k o r old] run_lagged_output[OF k(1) _ k(3) _ o] old
  by (intro conjI impI allI) (simp_all del: run_ModifyState.simps)

theorem latency_buffer_witness:
  "(lag_steps_of (example_task_lag 0) = 0 \<and>
    state (snd (ModifyState example_model zero_gaussians (example_state 1 0 0)
                  (example_task_lag 0))) ! 0 = 1 \<and>
    length (stored_states_m (fst (ModifyState example_model zero_gaussians (example_state 1 0 0)
                  (example_task_lag 0)))) = 0) \<and>
   (lag_steps_of (example_task_lag 2) = 2 \<and>
    stored_states_m (fst (ModifyState example_model zero_gaussians (example_state 1 0 0)
                  (example_task_lag 2)))
      = [snd (observe example_model zero_gaussians (example_state 1 0 0) (example_task_lag 2))] \<and>
    state (snd (last example_lag_inputs)) ! 0 = 3 \<and>
    state (last (snd (run_ModifyState example_model (example_task_lag 2) example_lag_inputs))) ! 0
      = 1)"
proof (rule conjI)
  let ?L = "example_task_lag 0"
  let ?st = "example_state 1 0 0"
  have p: "ModifyState example_model zero_gaussians ?st ?L
      = (fst (ModifyState example_model zero_gaussians ?st ?L),
         snd (ModifyState example_model zero_gaussians ?st ?L))"
    and q: "observe example_model zero_gaussians ?st ?L
      = (fst (observe example_model zero_gaussians ?st ?L),
         snd (observe example_model zero_gaussians ?st ?L))"
    by simp_all
  have i: "(0::nat) < nq example_model + nv example_model \<and> 0 < length (state ?st)"
    by (simp add: example_model_sizes example_state_length)
  from latency_buffer[OF example_lag_steps(1) _ _ q p refl] i
  have "stored_states_m (fst (ModifyState example_model zero_gaussians ?st ?L)) = [] \<and>
      state (snd (ModifyState example_model zero_gaussians ?st ?L)) ! 0
        = snd (observe example_model zero_gaussians ?st ?L) ! 0"
    by simp
  then show "lag_steps_of ?L = 0 \<and>
    state (snd (ModifyState example_model zero_gaussians ?st ?L)) ! 0 = 1 \<and>
    length (stored_states_m (fst (ModifyState example_model zero_gaussians ?st ?L))) = 0"
    by (simp add: example_lag_steps example_fresh_x)
next
  let ?L = "example_task_lag 2"
  let ?st = "example_state 1 0 0"
  let ?rest = "[(zero_gaussians, example_state 2 0 1), (zero_gaussians, example_state 3 0 2)]"
  have p: "ModifyState example_model zero_gaussians ?st ?L
      = (fst (ModifyState example_model zero_gaussians ?st ?L),
         snd (ModifyState example_model zero_gaussians ?st ?L))"
    and q: "observe example_model zero_gaussians ?st ?L
      = (fst (observe example_model zero_gaussians ?st ?L),
         snd (observe example_model zero_gaussians ?st ?L))"
    by simp_all
  have h: "(0::int) < 2 \<and> stored_states_m ?L = [] \<and> length ?rest = nat 2 \<and>
      (0::nat) < nq example_model + nv example_model \<and> 0 < length (state (snd (last ?rest)))"
    by (simp add: example_model_sizes example_state_length example_task_lag_fields)
  note lb = latency_buffer[OF example_lag_steps(2) _ _ q p refl]
  have a: "stored_states_m (fst (ModifyState example_model zero_gaussians ?st ?L))
      = [snd (observe example_model zero_gaussians ?st ?L)]"
    using lb by (simp add: example_task_lag_fields)
  have "state (last (snd (run_ModifyState example_model ?L ((zero_gaussians, ?st) # ?rest)))) ! 0
      = snd (observe example_model zero_gaussians ?st ?L) ! 0"
    using lb h by (simp del: run_ModifyState.simps)
  then have b: "state (last (snd (run_ModifyState example_model ?L example_lag_inputs))) ! 0 = 1"
    by (simp add: example_lag_inputs_def example_fresh_x del: run_ModifyState.simps)
  have c: "state (snd (last example_lag_inputs)) ! 0 = 3"
    by (simp add: example_lag_inputs_def example_state_nth)
  from a b c show "lag_steps_of ?L = 2 \<and>
    stored_states_m (fst (ModifyState example_model zero_gaussians ?st ?L))
      = [snd (observe example_model zero_gaussians ?st ?L)] \<and>
    state (snd (last example_lag_inputs)) ! 0 = 3 \<and>
    state (last (snd (run_ModifyState example_model ?L example_lag_inputs))) ! 0 = 1"
    by (simp add: example_lag_steps)
qed

text \<open>
  Claim C4 as the specification words it, with the fresh state always enqueued, fails for
  the lag-step count 0: the call leaves the buffer without the fresh state.
\<close>

theorem not_enqueued_counterexample:
  "lag_steps_of (example_task_lag 0) = 0 \<and>
   snd (observe example_model zero_gaussians (example_state 1 0 0) (example_task_lag 0))
     \<notin> set (stored_states_m (fst (ModifyState example_model zero_gaussians (example_state 1 0 0)
                                     (example_task_lag 0))))"
proof -
  let ?L = "example_task_lag 0"
  let ?st = "example_state 1 0 0"
  have p: "ModifyState example_model zero_gaussians ?st ?L
      = (fst (ModifyState example_model zero_gaussians ?st ?L),
         snd (ModifyState example_model zero_gaussians ?st ?L))"
    and q: "observe example_model zero_gaussians ?st ?L
      = (fst (observe example_model zero_gaussians ?st ?L),
         snd (observe example_model zero_gaussians ?st ?L))"
    by simp_all
  have "stored_states_m (fst (ModifyState example_model zero_gaussians ?st ?L)) = []"
    by (rule ModifyState_buffer(1)[OF example_lag_steps(1) _ _ q p refl]) simp_all
  then show ?thesis by (simp add: example_lag_steps)
qed

subsection \<open>The velocity estimate\<close>

lemma state_new_read3:
  assumes "7 \<le> nq m" and "3 \<le> length (state st)"
  shows "read3 (snd (observe m g st L)) 0 = noisy_pos g st L"
proof -
  obtain a b c where p: "noisy_pos g st L = (a, b, c)" by (cases "noisy_pos g st L")
  have len: "0 < length (state st)" "1 < length (state st)" "2 < length (state st)"
    using assms(2) by linarith+
  have "snd (observe m g st L) ! 0 = a" "snd (observe m g st L) ! 1 = b"
    "snd (observe m g st L) ! 2 = c"
    using state_new_pos[OF _ assms(1) len(1), where g = g and L = L]
      state_new_pos[OF _ assms(1) len(2), where g = g and L = L]
      state_new_pos[OF _ assms(1) len(3), where g = g and L = L]
    by (simp_all add: p list3_def)
  then show ?thesis by (simp add: read3_def p numeral_2_eq_2)
qed

lemma emitted_velocity:
  assumes "j < 22" and "nq m = 23" and "nv m = 22" and "45 \<le> length (state st)"
  shows "snd (observe m g st L) ! (23 + j) =
           (if first_time_m L \<or> time st - last_time_m L < 1 / 10 ^ 6 then 0
            else parameters L ! 11
                 * ds_unscaled (read3 (snd (observe m g st L)) 0) (read4 (snd (observe m g st L)) 3)
                     (state st) (last_state_m L) (time st - last_time_m L) j)
           + (1 - parameters L ! 11) * last_state_m L ! (23 + j)"
proof -
  have "snd (observe m g st L) ! (nq m + j) = velocity_estimate g st L ! j"
    using assms by (intro state_new_velocity) simp_all
  moreover have "read3 (snd (observe m g st L)) 0 = noisy_pos g st L"
    using assms by (intro state_new_read3) simp_all
  moreover have "read4 (snd (observe m g st L)) 3 = noisy_quat g st L"
    using assms by (intro state_new_quat) simp_all
  ultimately show ?thesis
    using nth_velocity_estimate[OF assms(1), of g st L] by (simp add: assms(2))
qed

lemma written_velocity_lag0:
  assumes "lag_steps_of L = 0" and "j < 22" and "nq m = 23" and "nv m = 22"
    and "45 \<le> length (state st)"
  shows "state (snd (ModifyState m g st L)) ! (23 + j) = snd (observe m g st L) ! (23 + j)"
proof -
  have p: "ModifyState m g st L = (fst (ModifyState m g st L), snd (ModifyState m g st L))"
    and q: "observe m g st L = (fst (observe m g st L), snd (observe m g st L))"
    by simp_all
  show ?thesis
    using assms by (intro ModifyState_buffer(2)[OF assms(1) _ _ q p refl]) simp_all
qed

text \<open>
  Claim C5.  The claim has every later estimate satisfy
  \<open>filtered[t] = alpha * raw[t] + (1 - alpha) * filtered[t - 1]\<close>, and so does the code's
  own comment at line 460; but the history that line 461 adds is entry \<open>23 + j\<close> of
  \<^verbatim>\<open>last_state_\<close>, which line 465 fills with the input state, not with the estimate
  emitted.  On three calls without noise and without lag, with \<open>alpha = 1/2\<close>, the cube at
  \<open>x = 0, 1, 2\<close> at the times 0, 1, 2 and zero velocities in the input states, the
  estimates written back for the cube's \<open>x\<close> velocity are 0, 1/2 and 1/2, where the filter
  of the specification gives 0, 1/2 and 3/4.
\<close>

theorem velocity_history_is_input:
  "parameters (example_task_lag 0) ! 11 = 1 / 2 \<and>
   map (\<lambda>p. (time (snd p), state (snd p) ! 0)) example_filter_inputs = [(0, 0), (1, 1), (2, 2)] \<and>
   map (\<lambda>p. state (snd p) ! 23) example_filter_inputs = [0, 0, 0] \<and>
   map (\<lambda>st. state st ! 23)
     (snd (run_ModifyState example_model (example_task_lag 0) example_filter_inputs))
     = [0, 1 / 2, 1 / 2] \<and>
   filtered_velocity (1 / 2) [(0, 0), (1, 1), (2, 2)] = [0, 1 / 2, 3 / 4]"
proof -
  let ?m = example_model
  let ?g = zero_gaussians
  let ?L0 = "example_task_lag 0"
  let ?s1 = "example_state 0 0 0"
  let ?s2 = "example_state 1 0 1"
  let ?s3 = "example_state 2 0 2"
  obtain L1 o1 where r1: "ModifyState ?m ?g ?s1 ?L0 = (L1, o1)"
    by (cases "ModifyState ?m ?g ?s1 ?L0")
  obtain L2 o2 where r2: "ModifyState ?m ?g ?s2 L1 = (L2, o2)"
    by (cases "ModifyState ?m ?g ?s2 L1")
  obtain L3 o3 where r3: "ModifyState ?m ?g ?s3 L2 = (L3, o3)"
    by (cases "ModifyState ?m ?g ?s3 L2")
  have run: "snd (run_ModifyState ?m ?L0 example_filter_inputs) = [o1, o2, o3]"
    by (simp add: example_filter_inputs_def r1 r2 r3)
  \<comment> \<open>the first call\<close>
  have e1: "snd (observe ?m ?g ?s1 ?L0) ! 23 = 0"
    using emitted_velocity[OF _ example_model_sizes, of 0 ?s1 ?g ?L0]
    by (simp add: example_state_length example_task_lag_fields)
  have w1: "state o1 ! 23 = 0"
    using written_velocity_lag0[OF example_lag_steps(1) _ example_model_sizes, of 0 ?s1 ?g] e1
    by (simp add: example_state_length r1)
  \<comment> \<open>the task object after the first call\<close>
  have p1: "parameters L1 = example_parameters 0"
    using ModifyState_fields(1)[OF r1] by (simp add: example_task_lag_fields)
  have n1: "pos_cube_noise_m L1 = (0, 0, 0)"
    using ModifyState_fields(3)[OF r1] zero_noise_step[OF example_task_lag_fields(1,2), of 0]
    by (simp add: pos_noise_step_def)
  have f1: "first_time_m L1 = False" "last_time_m L1 = 0"
    using ModifyState_fields(4,5)[OF r1] by (simp_all add: example_state_nth)
  have ls1: "last_state_m L1 = mju_copy (replicate 45 0) 0 (state ?s1) 0 45"
    using ModifyState_fields(6)[OF r1] by (simp add: example_task_lag_fields)
  have ls1v: "last_state_m L1 ! 0 = 0" "last_state_m L1 ! 23 = 0" "length (last_state_m L1) = 45"
    by (simp_all add: ls1 nth_mju_copy length_mju_copy example_state_nth)
  have lag1: "lag_steps_of L1 = 0"
    using lag_steps_of_parameters[of L1 ?L0] p1
    by (simp add: example_task_lag_fields example_lag_steps)
  \<comment> \<open>the second call\<close>
  have "read3 (snd (observe ?m ?g ?s2 L1)) 0 = noisy_pos ?g ?s2 L1"
    by (intro state_new_read3) (simp_all add: example_model_sizes example_state_length)
  moreover have "list3 (noisy_pos ?g ?s2 L1) ! 0 = 1" by (rule zero_noisy_pos[OF p1 n1])
  ultimately have raw2: "ds_unscaled (read3 (snd (observe ?m ?g ?s2 L1)) 0)
      (read4 (snd (observe ?m ?g ?s2 L1)) 3) (state ?s2) (last_state_m L1) 1 0 = 1"
    using ls1v(1) by (simp add: ds_unscaled_def)
  have e2: "snd (observe ?m ?g ?s2 L1) ! 23 = 1 / 2"
    using emitted_velocity[OF _ example_model_sizes, of 0 ?s2 ?g L1] raw2
    by (simp add: example_state_length example_state_nth f1 p1 ls1v example_parameters_def)
  have w2: "state o2 ! 23 = 1 / 2"
    using written_velocity_lag0[OF lag1 _ example_model_sizes, of 0 ?s2 ?g] e2
    by (simp add: example_state_length r2)
  \<comment> \<open>the task object after the second call: the history is the velocity of the input\<close>
  have p2: "parameters L2 = example_parameters 0"
    using ModifyState_fields(1)[OF r2] by (simp add: p1)
  have n2: "pos_cube_noise_m L2 = (0, 0, 0)"
    using ModifyState_fields(3)[OF r2] zero_noise_step[OF p1 n1]
    by (simp add: pos_noise_step_def)
  have f2: "first_time_m L2 = False" "last_time_m L2 = 1"
    using ModifyState_fields(4,5)[OF r2] by (simp_all add: example_state_nth)
  have ls2: "last_state_m L2 ! 0 = 1" "last_state_m L2 ! 23 = 0"
    using ModifyState_fields(6)[OF r2]
    by (simp_all add: nth_mju_copy ls1v example_state_nth)
  have lag2: "lag_steps_of L2 = 0"
    using lag_steps_of_parameters[of L2 ?L0] p2
    by (simp add: example_task_lag_fields example_lag_steps)
  \<comment> \<open>the third call\<close>
  have "read3 (snd (observe ?m ?g ?s3 L2)) 0 = noisy_pos ?g ?s3 L2"
    by (intro state_new_read3) (simp_all add: example_model_sizes example_state_length)
  moreover have "list3 (noisy_pos ?g ?s3 L2) ! 0 = 2" by (rule zero_noisy_pos[OF p2 n2])
  ultimately have raw3: "ds_unscaled (read3 (snd (observe ?m ?g ?s3 L2)) 0)
      (read4 (snd (observe ?m ?g ?s3 L2)) 3) (state ?s3) (last_state_m L2) 1 0 = 1"
    using ls2(1) by (simp add: ds_unscaled_def)
  have e3: "snd (observe ?m ?g ?s3 L2) ! 23 = 1 / 2"
    using emitted_velocity[OF _ example_model_sizes, of 0 ?s3 ?g L2] raw3
    by (simp add: example_state_length example_state_nth f2 p2 ls2 example_parameters_def)
  have w3: "state o3 ! 23 = 1 / 2"
    using written_velocity_lag0[OF lag2 _ example_model_sizes, of 0 ?s3 ?g] e3
    by (simp add: example_state_length r3)
  have spec: "filtered_velocity (1 / 2) [(0, 0), (1, 1), (2, 2)] = [0, 1 / 2, 3 / 4]"
    by (simp add: filtered_velocity_def backward_difference_def Let_def)
  have alpha: "parameters (example_task_lag 0) ! 11 = 1 / 2"
    by (simp add: example_task_lag_fields example_parameters_def)
  show ?thesis
    unfolding run using w1 w2 w3 spec alpha
    by (simp add: example_filter_inputs_def example_state_nth)
qed

end
